theory Spec2Isabelle
  imports Main "HOL-Library.Word"
begin

unbundle bit_operations_syntax

section \<open>Basic data\<close>

type_synonym byte = "8 word"

text \<open>
  A \<^verbatim>\<open>struct GUID\<close> is sixteen bytes of memory; the code moves GUIDs in and out
  of byte buffers by pointer casts, so a GUID is modelled by its memory image.
\<close>

typedef GUID = "{bs :: byte list. length bs = 16}"
  by (rule exI [of _ "replicate 16 0"]) simp

text \<open>
  What a C call can do besides returning: \<^verbatim>\<open>abort()\<close>, a read outside the
  object it was given, a division by zero, a loop that never ends, or the use of a
  pointer that is NULL, not initialised, or points to an object of another type.
\<close>

datatype c_fault = Abort_called | Out_of_bounds | Division_by_zero | Never_returns | Bad_pointer

section \<open>ID codec\<close>

text \<open>
  Modelled from the spec: \<^verbatim>\<open>emsmdbp_guid_to_replid\<close> and
  \<^verbatim>\<open>emsmdbp_replid_to_guid\<close> are the replica registry, an external collaborator
  (\<^verbatim>\<open>replid_to_guid(id) \<rightarrow> guid\<close>, \<^verbatim>\<open>guid_to_replid(guid) \<rightarrow> id\<close>). Both are
  parameters here; \<open>None\<close> is the non-zero (failure) return.
\<close>

record replica_registry =
  emsmdbp_guid_to_replid :: "GUID \<Rightarrow> 16 word option"
  emsmdbp_replid_to_guid :: "16 word \<Rightarrow> GUID option"

text \<open>
  The registry maps replica ids one-to-one to GUIDs: a GUID handed out for an id is
  resolved back to that id.
\<close>

definition registry_consistent :: "replica_registry \<Rightarrow> bool" where
  "registry_consistent reg \<longleftrightarrow>
     (\<forall>r g. emsmdbp_replid_to_guid reg r = Some g \<longrightarrow> emsmdbp_guid_to_replid reg g = Some r)"

text \<open>
  The loop of \<^verbatim>\<open>oxcfxics_fmid_from_source_key\<close>:
  \<^verbatim>\<open>for (i = 0; i < 6; i++) { fmid |= (uint64_t) bytes[i] * base; base <<= 8; }\<close>
  run over the bytes it reads.
\<close>

fun fmid_loop :: "byte list \<Rightarrow> 64 word \<Rightarrow> 64 word \<Rightarrow> 64 word" where
  "fmid_loop [] fmid base = fmid"
| "fmid_loop (b # bs) fmid base = fmid_loop bs (fmid OR (ucast b * base)) (push_bit 8 base)"

text \<open>
  \<^verbatim>\<open>oxcfxics_fmid_from_source_key\<close>. The source key is the buffer \<open>lpb\<close> of
  \<open>cb = length lpb\<close> bytes. The function never looks at \<open>cb\<close>: it hands the first
  sixteen bytes to the registry and then reads bytes 16 to 21. \<open>Inr None\<close> is the return
  of \<^verbatim>\<open>MAPISTORE_ERROR\<close>, \<open>Inr (Some fmid)\<close> the return of
  \<^verbatim>\<open>MAPISTORE_SUCCESS\<close> with \<open>*fmidp = fmid\<close>.
\<close>

definition oxcfxics_fmid_from_source_key ::
  "replica_registry \<Rightarrow> byte list \<Rightarrow> c_fault + 64 word option" where
  "oxcfxics_fmid_from_source_key reg lpb =
     (if length lpb < 16 then Inl Out_of_bounds
      else case emsmdbp_guid_to_replid reg (Abs_GUID (take 16 lpb)) of
        None \<Rightarrow> Inr None
      | Some replid \<Rightarrow>
          if length lpb < 22 then Inl Out_of_bounds
          else Inr (Some (push_bit 16 (fmid_loop (take 6 (drop 16 lpb)) 0 1) OR ucast replid)))"

text \<open>
  The loop of \<^verbatim>\<open>oxcfxics_source_key_from_fmid\<close> (and of
  \<^verbatim>\<open>oxcfxics_make_xid\<close>):
  \<^verbatim>\<open>for (i = 0; i < n; i++) { bytes[i] = gc & 0xff; gc >>= 8; }\<close>
\<close>

fun id_bytes :: "nat \<Rightarrow> 64 word \<Rightarrow> byte list" where
  "id_bytes 0 gc = []"
| "id_bytes (Suc n) gc = ucast (gc AND 0xff) # id_bytes n (drop_bit 8 gc)"

text \<open>
  \<^verbatim>\<open>oxcfxics_source_key_from_fmid\<close>: \<open>None\<close> is \<^verbatim>\<open>MAPISTORE_ERROR\<close>,
  \<open>Some lpb\<close> the 22-byte \<^verbatim>\<open>Binary_r\<close> it allocates.
\<close>

definition oxcfxics_source_key_from_fmid :: "replica_registry \<Rightarrow> 64 word \<Rightarrow> byte list option" where
  "oxcfxics_source_key_from_fmid reg fmid =
     (let replid = (ucast (fmid AND 0xffff) :: 16 word) in
      case emsmdbp_replid_to_guid reg replid of
        None \<Rightarrow> None
      | Some guid \<Rightarrow> Some (Rep_GUID guid @ id_bytes 6 (drop_bit 16 fmid)))"

text \<open>
  The value of a byte string read little-endian, as the spec words it for the tail of a
  source key (``the 6 tail bytes are read little-endian into a 48-bit integer'').
\<close>

fun le_value :: "byte list \<Rightarrow> nat" where
  "le_value [] = 0"
| "le_value (b # bs) = unat b + 256 * le_value bs"

section \<open>Protocol constants\<close>

text \<open>
  Modelled from the spec: the property types, the property tags and the stream markers
  that \<^verbatim>\<open>oxcfxics.c\<close> names are macros and enumeration values of libmapi's headers,
  which are not among the files here, and the spec names them without their values. They
  are a parameter of the model: a record with one field for each name the code uses.
\<close>

record mapi_consts =
  PT_I2 :: "16 word"
  PT_LONG :: "16 word"
  PT_ERROR :: "16 word"
  PT_OBJECT :: "16 word"
  PT_DOUBLE :: "16 word"
  PT_I8 :: "16 word"
  PT_BOOLEAN :: "16 word"
  PT_STRING8 :: "16 word"
  PT_UNICODE :: "16 word"
  PT_SVREID :: "16 word"
  PT_BINARY :: "16 word"
  PT_CLSID :: "16 word"
  PT_SYSTIME :: "16 word"
  MV_FLAG :: "16 word"
  PR_INCR_SYNC_CHG :: "32 word"
  PR_INCR_SYNC_MSG :: "32 word"
  PR_INCR_SYNC_STATE_BEGIN :: "32 word"
  PR_INCR_SYNC_STATE_END :: "32 word"
  PR_INCR_SYNC_END :: "32 word"
  PR_FX_DEL_PROP :: "32 word"
  PR_MESSAGE_RECIPIENTS :: "32 word"
  PR_MESSAGE_ATTACHMENTS :: "32 word"
  PR_START_RECIP :: "32 word"
  PR_END_RECIP :: "32 word"
  PR_ROWID :: "32 word"
  PR_NEW_ATTACH :: "32 word"
  PR_ATTACH_NUM :: "32 word"
  PR_END_ATTACH :: "32 word"
  PidTagIdsetGiven :: "32 word"
  PidTagCnsetSeen :: "32 word"
  PidTagCnsetSeenFAI :: "32 word"
  PidTagCnsetRead :: "32 word"
  PR_SOURCE_KEY :: "32 word"
  PR_PARENT_SOURCE_KEY :: "32 word"
  PR_LAST_MODIFICATION_TIME :: "32 word"
  PR_CHANGE_KEY :: "32 word"
  PR_PREDECESSOR_CHANGE_LIST :: "32 word"
  PR_ASSOCIATED :: "32 word"
  PR_MID :: "32 word"
  PR_FID :: "32 word"
  PR_PARENT_FID :: "32 word"
  PR_MESSAGE_SIZE :: "32 word"
  PR_CHANGE_NUM :: "32 word"
  PR_DISPLAY_NAME_UNICODE :: "32 word"
  PR_ATTACH_METHOD :: "32 word"
  PR_ATTACH_TAG :: "32 word"
  PR_ATTACH_SIZE :: "32 word"
  PR_RECORD_KEY :: "32 word"
  PR_ATTACH_LONG_FILENAME_UNICODE :: "32 word"
  PR_ATTACH_CONTENT_ID_UNICODE :: "32 word"
  PR_ATTACH_MIME_TAG_UNICODE :: "32 word"
  PR_CREATION_TIME :: "32 word"
  PR_ATTACH_DATA_BIN :: "32 word"

text \<open>
  \<^verbatim>\<open>MAPI_E_SUCCESS\<close> in a \<^verbatim>\<open>retvals\<close> array is zero: the code marks success by
  \<^verbatim>\<open>memset(retvals, 0, \<dots>)\<close> and tests failure by \<^verbatim>\<open>if (retvals[i])\<close>.
\<close>

abbreviation MAPI_E_SUCCESS_val :: "32 word" where
  "MAPI_E_SUCCESS_val \<equiv> 0"

section \<open>NDR push buffers\<close>

text \<open>
  Modelled from the spec: \<^verbatim>\<open>ndr_push_uint8\<close>, \<^verbatim>\<open>ndr_push_uint16\<close>,
  \<^verbatim>\<open>ndr_push_uint32\<close>, \<^verbatim>\<open>ndr_push_dlong\<close>, \<^verbatim>\<open>ndr_push_double\<close>,
  \<^verbatim>\<open>ndr_push_GUID\<close>, \<^verbatim>\<open>ndr_push_FILETIME\<close>, \<^verbatim>\<open>ndr_push_string\<close> and
  \<^verbatim>\<open>ndr_push_Binary_r\<close> belong to libndr. Every buffer here is set up with
  \<^verbatim>\<open>LIBNDR_FLAG_NOALIGN\<close> and offset 0, and the spec fixes the wire forms: all integers
  little-endian and unaligned, a GUID as its 16 bytes, a FILETIME as low then high word,
  a binary as \<open>u32 length || bytes\<close>, strings NUL-terminated. A push appends to the
  buffer; \<^verbatim>\<open>ndr->offset\<close> is the number of bytes pushed so far.
\<close>

definition u16_le :: "16 word \<Rightarrow> byte list" where
  "u16_le w = [ucast w, ucast (drop_bit 8 w)]"

definition u32_le :: "32 word \<Rightarrow> byte list" where
  "u32_le w = [ucast w, ucast (drop_bit 8 w), ucast (drop_bit 16 w), ucast (drop_bit 24 w)]"

definition u64_le :: "64 word \<Rightarrow> byte list" where
  "u64_le w = map (\<lambda>i. ucast (drop_bit (8 * i) w)) [0..<8]"

text \<open>
  The two buffers a producer writes: the main stream \<open>ndr\<close> and the cut-mark sidecar
  \<open>cutmarks_ndr\<close>. The sidecar only ever receives \<^verbatim>\<open>ndr_push_uint32\<close> and is later read
  through a \<^verbatim>\<open>uint32_t *\<close>, so it is kept as the list of the values pushed.

  Of \<^verbatim>\<open>ndr->flags\<close> the model keeps the one bit that the code changes after the set-up
  and that changes what is written: \<open>str_ascii\<close> is \<^verbatim>\<open>LIBNDR_FLAG_STR_ASCII\<close>.
  \<^verbatim>\<open>ndr_set_flags\<close> ORs its argument into the flags, so the bit, once set by the
  \<^verbatim>\<open>PT_STRING8\<close> case, stays set for every later push on the same buffer; a buffer
  fresh from \<^verbatim>\<open>ndr_push_init_ctx\<close> has it clear. \<^verbatim>\<open>LIBNDR_FLAG_NOALIGN\<close> and
  \<^verbatim>\<open>LIBNDR_FLAG_STR_NULLTERM\<close> are in force wherever they matter and are not kept.
\<close>

record push_bufs =
  ndr :: "byte list"
  str_ascii :: bool
  cutmarks_ndr :: "32 word list"

definition ndr_push :: "byte list \<Rightarrow> 'a push_bufs_scheme \<Rightarrow> 'a push_bufs_scheme" where
  "ndr_push bs s = s\<lparr>ndr := ndr s @ bs\<rparr>"

text \<open>\<^verbatim>\<open>ndr->offset\<close>, a \<^verbatim>\<open>uint32_t\<close>.\<close>

definition ndr_offset :: "'a push_bufs_scheme \<Rightarrow> 32 word" where
  "ndr_offset s = word_of_nat (length (ndr s))"

text \<open>\<^verbatim>\<open>ndr_push_uint32(cutmarks_ndr, NDR_SCALARS, ndr->offset)\<close>.\<close>

definition push_cutmark :: "'a push_bufs_scheme \<Rightarrow> 'a push_bufs_scheme" where
  "push_cutmark s = s\<lparr>cutmarks_ndr := cutmarks_ndr s @ [ndr_offset s]\<rparr>"

section \<open>Property serializer\<close>

text \<open>
  The objects behind the \<^verbatim>\<open>void *\<close> of a property value. The serializer casts the
  pointer according to the property type; the model carries the type of the object, and
  a cast to another type, or of a NULL pointer, is the fault \<open>Bad_pointer\<close>.
\<close>

datatype prop_value =
    V_uint16 "16 word"
  | V_uint32 "32 word"
  | V_double "64 word"
  | V_uint64 "64 word"
  | V_uint8 byte
  | V_string "byte list"
  | V_Binary_r "byte list"
  | V_GUID GUID
  | V_FILETIME (dwLowDateTime: "32 word") (dwHighDateTime: "32 word")
  | V_BinaryArray_r "byte list list"
  | V_WStringArray_r "byte list list"

text \<open>
  \<^verbatim>\<open>struct MAPINAMEID\<close>: the GUID and, by \<^verbatim>\<open>ulKind\<close>, the numeric id or the name.
\<close>

datatype nameid_kind = MNID_ID "32 word" | MNID_STRING "byte list" | MNID_other

record MAPINAMEID =
  lpguid :: GUID
  kind :: nameid_kind

text \<open>
  Modelled from the spec: the named-property registry
  (\<^verbatim>\<open>namedprops_lookup(id) \<rightarrow> (guid, kind, lid|name)\<close>, here
  \<^verbatim>\<open>mapistore_namedprops_get_nameid\<close>, \<open>None\<close> when it does not return
  \<^verbatim>\<open>MAPISTORE_SUCCESS\<close>) and the character-set conversion behind
  \<^verbatim>\<open>strlen_m_ext\<close> and \<^verbatim>\<open>ndr_push_string\<close> (the UTF-16 code units of a C string)
  are external collaborators, taken as parameters.
\<close>

record serializer_env =
  mapistore_namedprops_get_nameid :: "16 word \<Rightarrow> MAPINAMEID option"
  utf16_units :: "byte list \<Rightarrow> 16 word list"

text \<open>
  \<^verbatim>\<open>ndr_push_string\<close> under \<^verbatim>\<open>LIBNDR_FLAG_STR_NULLTERM\<close>. With
  \<^verbatim>\<open>LIBNDR_FLAG_STR_ASCII\<close> clear the string is written as UTF-16LE with a two-byte
  NUL (\<open>push_string_utf16\<close>); with the flag set it is written one byte per character
  with a one-byte NUL, the form the spec gives for a \<^verbatim>\<open>PT_STRING8\<close> value.
\<close>

definition push_string_utf16 :: "'e serializer_env_scheme \<Rightarrow> byte list \<Rightarrow> byte list" where
  "push_string_utf16 E str = concat (map u16_le (utf16_units E str)) @ [0, 0]"

definition ndr_push_string ::
  "'e serializer_env_scheme \<Rightarrow> byte list \<Rightarrow> 'a push_bufs_scheme \<Rightarrow> 'a push_bufs_scheme" where
  "ndr_push_string E str s =
     ndr_push (if str_ascii s then str @ [0] else push_string_utf16 E str) s"

text \<open>
  \<^verbatim>\<open>oxcfxics_ndr_push_simple_data\<close>: the buffer after the push, or the fault.
  The cases are those of the \<^verbatim>\<open>switch\<close>, in its order; the \<^verbatim>\<open>default\<close> calls
  \<^verbatim>\<open>abort()\<close>. The \<^verbatim>\<open>PT_STRING8\<close> case pushes the length, sets
  \<^verbatim>\<open>LIBNDR_FLAG_STR_ASCII\<close> and pushes the string; the \<^verbatim>\<open>PT_UNICODE\<close> case pushes
  the length of the UTF-16 form and then the string under the flags as they are, so after
  a \<^verbatim>\<open>PT_STRING8\<close> value on the same buffer the string is written one byte per
  character behind the length of its UTF-16 form.
\<close>

definition oxcfxics_ndr_push_simple_data ::
  "mapi_consts \<Rightarrow> 'e serializer_env_scheme \<Rightarrow> 16 word \<Rightarrow> prop_value option
     \<Rightarrow> 'a push_bufs_scheme \<Rightarrow> c_fault + 'a push_bufs_scheme" where
  "oxcfxics_ndr_push_simple_data K E data_type val s =
     (if data_type = PT_I2 K then
        (case val of Some (V_uint16 w) \<Rightarrow> Inr (ndr_push (u16_le w) s) | _ \<Rightarrow> Inl Bad_pointer)
      else if data_type = PT_LONG K \<or> data_type = PT_ERROR K \<or> data_type = PT_OBJECT K then
        (case val of Some (V_uint32 w) \<Rightarrow> Inr (ndr_push (u32_le w) s) | _ \<Rightarrow> Inl Bad_pointer)
      else if data_type = PT_DOUBLE K then
        (case val of Some (V_double w) \<Rightarrow> Inr (ndr_push (u64_le w) s) | _ \<Rightarrow> Inl Bad_pointer)
      else if data_type = PT_I8 K then
        (case val of Some (V_uint64 w) \<Rightarrow> Inr (ndr_push (u64_le w) s) | _ \<Rightarrow> Inl Bad_pointer)
      else if data_type = PT_BOOLEAN K then
        (case val of
           Some (V_uint8 b) \<Rightarrow> Inr (ndr_push (if b \<noteq> 0 then u16_le 1 else u16_le 0) s)
         | _ \<Rightarrow> Inl Bad_pointer)
      else if data_type = PT_STRING8 K then
        (case val of
           Some (V_string str) \<Rightarrow>
             Inr (ndr_push_string E str
                    ((ndr_push (u32_le (word_of_nat (length str + 1))) s)\<lparr>str_ascii := True\<rparr>))
         | _ \<Rightarrow> Inl Bad_pointer)
      else if data_type = PT_UNICODE K then
        (case val of
           Some (V_string str) \<Rightarrow>
             Inr (ndr_push_string E str
                    (ndr_push (u32_le (word_of_nat (length (utf16_units E str) * 2 + 2))) s))
         | _ \<Rightarrow> Inl Bad_pointer)
      else if data_type = PT_SVREID K \<or> data_type = PT_BINARY K then
        (case val of
           Some (V_Binary_r bin) \<Rightarrow> Inr (ndr_push (u32_le (word_of_nat (length bin)) @ bin) s)
         | _ \<Rightarrow> Inl Bad_pointer)
      else if data_type = PT_CLSID K then
        (case val of Some (V_GUID g) \<Rightarrow> Inr (ndr_push (Rep_GUID g) s) | _ \<Rightarrow> Inl Bad_pointer)
      else if data_type = PT_SYSTIME K then
        (case val of
           Some (V_FILETIME lo hi) \<Rightarrow> Inr (ndr_push (u32_le lo @ u32_le hi) s)
         | _ \<Rightarrow> Inl Bad_pointer)
      else Inl Abort_called)"

text \<open>The inner loops over the elements of a multi-valued property.\<close>

fun push_simple_data_list ::
  "mapi_consts \<Rightarrow> 'e serializer_env_scheme \<Rightarrow> 16 word \<Rightarrow> prop_value list
     \<Rightarrow> 'a push_bufs_scheme \<Rightarrow> c_fault + 'a push_bufs_scheme" where
  "push_simple_data_list K E data_type [] s = Inr s"
| "push_simple_data_list K E data_type (v # vs) s =
     (case oxcfxics_ndr_push_simple_data K E data_type (Some v) s of
        Inl f \<Rightarrow> Inl f
      | Inr s1 \<Rightarrow> push_simple_data_list K E data_type vs s1)"

text \<open>
  The value part of one property in \<^verbatim>\<open>oxcfxics_ndr_push_properties\<close>:
  \<^verbatim>\<open>prop_type = property & 0xffff\<close>, then the multi-value branch
  (\<^verbatim>\<open>prop_type & MV_FLAG\<close>, \<^verbatim>\<open>prop_type &= 0x0fff\<close>: the count, then the elements)
  or the simple one.
\<close>

definition push_property_value ::
  "mapi_consts \<Rightarrow> 'e serializer_env_scheme \<Rightarrow> 32 word \<Rightarrow> prop_value option
     \<Rightarrow> 'a push_bufs_scheme \<Rightarrow> c_fault + 'a push_bufs_scheme" where
  "push_property_value K E property val s =
     (let prop_type = (ucast (property AND 0xffff) :: 16 word) in
      if prop_type AND MV_FLAG K \<noteq> 0 then
        (let prop_type = prop_type AND 0x0fff in
         if prop_type = PT_BINARY K then
           (case val of
              Some (V_BinaryArray_r bins) \<Rightarrow>
                push_simple_data_list K E prop_type (map V_Binary_r bins)
                  (ndr_push (u32_le (word_of_nat (length bins))) s)
            | _ \<Rightarrow> Inl Bad_pointer)
         else if prop_type = PT_UNICODE K then
           (case val of
              Some (V_WStringArray_r strs) \<Rightarrow>
                push_simple_data_list K E prop_type (map V_string strs)
                  (ndr_push (u32_le (word_of_nat (length strs))) s)
            | _ \<Rightarrow> Inl Bad_pointer)
         else Inl Abort_called)
      else oxcfxics_ndr_push_simple_data K E prop_type val s)"

text \<open>
  The tag part of one property: \<open>None\<close> is the \<^verbatim>\<open>continue\<close> taken when the name of a
  named property (\<^verbatim>\<open>property > 0x80000000\<close>) cannot be found; nothing has been pushed
  onto \<open>ndr\<close> at that point. The name of a \<^verbatim>\<open>MNID_STRING\<close> property is pushed with
  \<^verbatim>\<open>ndr_push_string\<close> under the flags as they are.
\<close>

definition push_property_tag ::
  "'e serializer_env_scheme \<Rightarrow> 32 word \<Rightarrow> 'a push_bufs_scheme \<Rightarrow> 'a push_bufs_scheme option" where
  "push_property_tag E property s =
     (if property > 0x80000000 then
        (let propID = (ucast (drop_bit 16 (property AND 0xffff0000)) :: 16 word) in
         case mapistore_namedprops_get_nameid E propID of
           None \<Rightarrow> None
         | Some nameid \<Rightarrow>
             (let s1 = ndr_push (u32_le property @ Rep_GUID (lpguid nameid)) s in
              Some (case kind nameid of
                      MNID_ID lid \<Rightarrow> ndr_push ([0] @ u32_le lid) s1
                    | MNID_STRING name \<Rightarrow> ndr_push_string E name (ndr_push [1] s1)
                    | MNID_other \<Rightarrow> s1)))
      else Some (ndr_push (u32_le property) s))"

text \<open>
  \<^verbatim>\<open>oxcfxics_ndr_push_properties\<close>. The three parallel arrays
  \<^verbatim>\<open>properties->aulPropTag\<close>, \<^verbatim>\<open>data_pointers\<close> and \<^verbatim>\<open>retvals\<close>, each of
  \<^verbatim>\<open>cValues\<close> entries, are one list of triples. For each entry whose \<^verbatim>\<open>retval\<close> is
  \<^verbatim>\<open>MAPI_E_SUCCESS\<close> the current offset is pushed onto the sidecar first, then the tag
  and the value onto the stream.
\<close>

type_synonym prop_entry = "32 word \<times> prop_value option \<times> 32 word"

fun oxcfxics_ndr_push_properties ::
  "mapi_consts \<Rightarrow> 'e serializer_env_scheme \<Rightarrow> prop_entry list \<Rightarrow> 'a push_bufs_scheme
     \<Rightarrow> c_fault + 'a push_bufs_scheme" where
  "oxcfxics_ndr_push_properties K E [] s = Inr s"
| "oxcfxics_ndr_push_properties K E ((property, val, retval) # rest) s =
     (if retval = MAPI_E_SUCCESS_val then
        (let s1 = push_cutmark s in
         case push_property_tag E property s1 of
           None \<Rightarrow> oxcfxics_ndr_push_properties K E rest s1
         | Some s2 \<Rightarrow>
             (case push_property_value K E property val s2 of
                Inl f \<Rightarrow> Inl f
              | Inr s3 \<Rightarrow> oxcfxics_ndr_push_properties K E rest s3))
      else oxcfxics_ndr_push_properties K E rest s)"

text \<open>
  \<^verbatim>\<open>oxcfxics_make_xid\<close> with non-NULL arguments: \<open>None\<close> is the NULL returned for
  \<^verbatim>\<open>idlength > 8\<close>. \<^verbatim>\<open>oxcfxics_make_gid\<close> is the call with length 6.
\<close>

definition oxcfxics_make_xid :: "GUID \<Rightarrow> 64 word \<Rightarrow> byte \<Rightarrow> byte list option" where
  "oxcfxics_make_xid replica_guid idv idlength =
     (if idlength > 8 then None else Some (Rep_GUID replica_guid @ id_bytes (unat idlength) idv))"

definition oxcfxics_make_gid :: "GUID \<Rightarrow> 64 word \<Rightarrow> byte list option" where
  "oxcfxics_make_gid replica_guid idv = oxcfxics_make_xid replica_guid idv 6"

section \<open>Faults and sequencing\<close>

text \<open>Sequencing of calls that may end in a fault: the first fault ends the run.\<close>

fun bind_fault :: "c_fault + 'a \<Rightarrow> ('a \<Rightarrow> c_fault + 'b) \<Rightarrow> c_fault + 'b" where
  "bind_fault (Inl f) g = Inl f"
| "bind_fault (Inr x) g = g x"

section \<open>Identifier sets\<close>

text \<open>
  Modelled from the spec: \<^verbatim>\<open>struct idset\<close> and \<^verbatim>\<open>struct rawidset\<close> with their
  operations belong to libmapi. Of an idset the code here touches the flag
  \<^verbatim>\<open>single\<close> and the counter \<^verbatim>\<open>range_count\<close>; the rest of the structure is the
  abstract part \<open>'r\<close>. A raw idset is the spec's ``unnormalized accumulator: list of
  (replica_guid, id) points in insertion order'', made with its \<^verbatim>\<open>single\<close> flag by
  \<^verbatim>\<open>RAWIDSET_make\<close> and appended to by \<^verbatim>\<open>RAWIDSET_push_glob\<close>. A pointer to an
  idset may be NULL: \<open>None\<close>.
\<close>

record 'r idset =
  single_flag :: bool
  range_count :: "32 word"
  ranges :: 'r

record rawidset =
  raw_single :: bool
  globs :: "(GUID \<times> 64 word) list"

definition RAWIDSET_make :: "bool \<Rightarrow> rawidset" where
  "RAWIDSET_make single = \<lparr> raw_single = single, globs = [] \<rparr>"

definition RAWIDSET_push_glob :: "rawidset \<Rightarrow> GUID \<Rightarrow> 64 word \<Rightarrow> rawidset" where
  "RAWIDSET_push_glob raw guid idv = raw\<lparr>globs := globs raw @ [(guid, idv)]\<rparr>"

section \<open>The provider's environment\<close>

text \<open>
  Modelled from the spec: the external collaborators that the FX/ICS code calls and
  that are not among the files here, as parameters. Besides the serializer's two:
  the replica registry; the mailbox's replica GUID
  (\<^verbatim>\<open>openchangedb_get_MailboxReplica\<close>); \<^verbatim>\<open>exchange_globcnt\<close> (the spec's
  \<open>globcnt\<close>), \<^verbatim>\<open>nt_time_to_unix\<close> and \<^verbatim>\<open>unix_to_nt_time\<close>;
  \<^verbatim>\<open>SPropTagArray_find\<close> (\<open>None\<close> when the tag is absent, which leaves the index
  variable untouched); the idset engine (\<open>parse\<close>, \<open>includes\<close>, \<open>merge\<close>,
  \<open>raw.to_idset\<close>, \<open>serialize\<close>); the size of an encoded reply
  (\<^verbatim>\<open>libmapiserver_Rop\<dots>_size\<close>); and what the read of
  \<^verbatim>\<open>object->object.ftcontext->stream.position\<close> yields when the object is a sync
  context (it depends on the layout of the two structures).
\<close>

type_synonym cell = "prop_value option \<times> 32 word"
type_synonym table_row = "cell list"
type_synonym recipient_row = "(32 word \<times> prop_value option) list"

record 'r emsmdbp_env = serializer_env +
  registry :: replica_registry
  openchangedb_get_MailboxReplica :: GUID
  exchange_globcnt :: "64 word \<Rightarrow> 64 word"
  nt_time_to_unix :: "64 word \<Rightarrow> 64 word"
  unix_to_nt_time :: "32 word \<Rightarrow> 64 word"
  SPropTagArray_find :: "32 word list \<Rightarrow> 32 word \<Rightarrow> nat option"
  IDSET_parse :: "byte list \<Rightarrow> 'r idset option"
  IDSET_includes_id :: "'r idset option \<Rightarrow> GUID \<Rightarrow> 64 word \<Rightarrow> bool"
  IDSET_merge_idsets :: "'r idset option \<Rightarrow> 'r idset option \<Rightarrow> 'r idset option"
  RAWIDSET_convert_to_idset :: "rawidset \<Rightarrow> 'r idset option"
  ndr_push_idset :: "'r idset option \<Rightarrow> byte list"

section \<open>The store, as the producers see it\<close>

text \<open>
  Modelled from the spec: the mail store is an external collaborator
  (\<^verbatim>\<open>open_table\<close>, \<^verbatim>\<open>table_row_count\<close>, \<^verbatim>\<open>table_get_row\<close>,
  \<^verbatim>\<open>open_message\<close>, \<^verbatim>\<open>open_folder\<close>). What the calls return hangs off the folder
  object they are made on:
  \<^item> a table is the list of its rows (\<^verbatim>\<open>denominator\<close> is its length); what
    \<^verbatim>\<open>emsmdbp_object_table_get_row_props\<close> returns for a row depends on the columns
    set on the table: \<open>None\<close> when it returns NULL and otherwise the
    \<^verbatim>\<open>data_pointers\<close> and \<^verbatim>\<open>retvals\<close> arrays, cell by cell (the attachment table
    is only read with its one fixed set of columns);
  \<^item> \<^verbatim>\<open>emsmdbp_object_message_open\<close> gives, for a message id, \<open>None\<close> when it
    returns NULL (and leaves \<^verbatim>\<open>msg\<close> unset), and otherwise the recipients of
    \<^verbatim>\<open>msg\<close> (\<open>None\<close> when \<^verbatim>\<open>msg\<close> or \<^verbatim>\<open>msg->recipients\<close> is NULL) and the
    attachment table of the message object (\<open>None\<close> when it cannot be opened);
  \<^item> a folder, as the hierarchy walks see it, is the cell that
    \<^verbatim>\<open>emsmdbp_object_get_properties\<close> returns for its child count (\<open>None\<close> when
    the call returns NULL) and its hierarchy table (\<open>None\<close> when it cannot be opened),
    each row of the table coming with the folder that \<^verbatim>\<open>emsmdbp_object_open_folder\<close>
    returns for it;
  \<^item> for the two message tables of a folder, the count cell and the columns that
    \<^verbatim>\<open>emsmdbp_object_table_get_available_properties\<close> reports (\<open>None\<close> when it
    fails).
\<close>

datatype table_type = EMSMDBP_TABLE_FOLDER_TYPE | EMSMDBP_TABLE_MESSAGE_TYPE | EMSMDBP_TABLE_FAI_TYPE

type_synonym stored_row = "32 word list \<Rightarrow> table_row option"

record message_view =
  recipients :: "recipient_row list option"
  attachment_table :: "table_row option list option"

datatype folder_tree =
  Folder_node (child_count: "cell option")
              (hierarchy_table: "(stored_row \<times> folder_tree) list option")

record folder_object =
  folderID :: "64 word"
  folder_is_mapistore :: bool
  message_tables :: "table_type \<Rightarrow> stored_row list option"
  message_counts :: "table_type \<Rightarrow> cell option"
  table_available_properties :: "table_type \<Rightarrow> 32 word list option"
  message_open :: "64 word \<Rightarrow> message_view option"
  hierarchy :: folder_tree

section \<open>Session objects\<close>

text \<open>
  Modelled from the spec: the structures of the session objects are declared in the
  provider's headers, which are not among the files here; the fields are those the code
  uses, and those the spec lists for FtContext and SyncContext (stream buffer, cut-marks
  array, chunk cursor \<open>position\<close>, \<open>next_cutmark_index\<close>, \<open>steps\<close>, \<open>total_steps\<close>,
  pending state-upload property tag and scratch buffer, collector flag). The widths of
  \<open>position\<close>, \<open>steps\<close>, \<open>total_steps\<close> and \<open>next_cutmark_ptr\<close> are not visible;
  they are natural numbers here, and every conversion to a variable whose type the code
  does declare is written out. \<^verbatim>\<open>buffer.data\<close> may be NULL (\<open>None\<close>); otherwise
  \<^verbatim>\<open>buffer.length\<close> is the length of the data.
\<close>

record emsmdbp_stream =
  position :: nat
  buffer :: "byte list option"

definition buffer_length :: "emsmdbp_stream \<Rightarrow> nat" where
  "buffer_length st = (case buffer st of None \<Rightarrow> 0 | Some d \<Rightarrow> length d)"

text \<open>The \<^verbatim>\<open>DATA_BLOB\<close> of a stream: its data, empty when there is none.\<close>

definition stream_data :: "emsmdbp_stream \<Rightarrow> byte list" where
  "stream_data st = (case buffer st of None \<Rightarrow> [] | Some d \<Rightarrow> d)"

record emsmdbp_object_ftcontext =
  stream :: emsmdbp_stream
  cutmarks :: "32 word list"
  next_cutmark_ptr :: nat
  steps :: nat
  total_steps :: nat

record sync_request =
  contents_mode :: bool
  unicode :: bool
  use_cpid :: bool
  recover_mode :: bool
  force_unicode :: bool
  partial_item :: bool
  no_deletions :: bool
  no_soft_deletions :: bool
  ignore_no_longer_in_scope :: bool
  read_state :: bool
  fai :: bool
  normal :: bool
  no_foreign_identifiers :: bool
  best_body :: bool
  ignored_specified_on_fai :: bool
  progress :: bool
  request_eid :: bool
  request_message_size :: bool
  request_cn :: bool
  order_by_delivery_time :: bool

text \<open>
  A sync context has the stream, cut-marks and counters of a transfer context, and the
  session state besides.
\<close>

record 'r emsmdbp_object_synccontext = emsmdbp_object_ftcontext +
  request :: sync_request
  properties :: "32 word list"
  idset_given :: "'r idset option"
  cnset_seen :: "'r idset option"
  state_property :: "32 word"
  state_stream :: emsmdbp_stream
  is_collector :: bool

section \<open>Sync producer\<close>

text \<open>\<^verbatim>\<open>#define oc_version_time 0x4dbb2dbe\<close>\<close>

definition oc_version_time :: "32 word" where
  "oc_version_time = 0x4dbb2dbe"

record oxcfxics_prop_index =
  parent_fid :: nat
  eid :: nat
  precedessor_change_list :: nat
  last_modification_time :: nat
  display_name :: nat
  associated :: nat
  message_size :: nat

text \<open>
  \<^verbatim>\<open>struct oxcfxics_sync_data\<close>: the two push buffers and the accumulators. The field
  \<^verbatim>\<open>table_type\<close> is written just before each call that reads it; it is an argument
  of those calls here.
\<close>

record oxcfxics_sync_data = push_bufs +
  replica_guid :: GUID
  prop_index :: oxcfxics_prop_index
  sd_properties :: "32 word list"
  eid_set :: rawidset
  sd_cnset_seen :: rawidset

text \<open>Reads of the row arrays \<^verbatim>\<open>data_pointers[i]\<close> and \<^verbatim>\<open>retvals[i]\<close>.\<close>

definition get_cell :: "table_row \<Rightarrow> nat \<Rightarrow> c_fault + cell" where
  "get_cell row i = (if i < length row then Inr (row ! i) else Inl Out_of_bounds)"

definition deref_uint64 :: "prop_value option \<Rightarrow> c_fault + 64 word" where
  "deref_uint64 p = (case p of Some (V_uint64 w) \<Rightarrow> Inr w | _ \<Rightarrow> Inl Bad_pointer)"

definition deref_FILETIME :: "prop_value option \<Rightarrow> c_fault + 32 word \<times> 32 word" where
  "deref_FILETIME p = (case p of Some (V_FILETIME lo hi) \<Rightarrow> Inr (lo, hi) | _ \<Rightarrow> Inl Bad_pointer)"

text \<open>
  The entries \<^verbatim>\<open>properties + n\<close>, \<^verbatim>\<open>data_pointers + n\<close>, \<^verbatim>\<open>retvals + n\<close> of a table
  row for the columns from \<open>n\<close> on; a row with fewer cells than columns is read out of
  bounds.
\<close>

definition row_entries :: "32 word list \<Rightarrow> table_row \<Rightarrow> nat \<Rightarrow> c_fault + prop_entry list" where
  "row_entries tags row n =
     (if length row < length tags then Inl Out_of_bounds
      else Inr (map (\<lambda>(t, (p, rv)). (t, p, rv)) (zip (drop n tags) (drop n row))))"

text \<open>
  The last modification time of a row, as both producers compute it: the pointer that
  goes into the header and the time as \<^verbatim>\<open>nt_time_to_unix\<close> returns it (a
  \<^verbatim>\<open>time_t\<close>), before it is stored in \<^verbatim>\<open>unix_time\<close>.
\<close>

definition row_lm_time ::
  "('r, 'e) emsmdbp_env_scheme \<Rightarrow> table_row \<Rightarrow> nat \<Rightarrow> c_fault + prop_value option \<times> 64 word" where
  "row_lm_time E row idx =
     bind_fault (get_cell row idx) (\<lambda>(p, rv).
       if rv \<noteq> 0 then
         (let unix_time = oc_version_time;
              nt_time = unix_to_nt_time E unix_time
          in Inr (Some (V_FILETIME (ucast (nt_time AND 0xffffffff)) (ucast (drop_bit 32 nt_time))),
                  ucast unix_time))
       else
         bind_fault (deref_FILETIME p) (\<lambda>(lo, hi).
           (let nt_time = push_bit 32 (ucast hi :: 64 word) OR ucast lo
            in Inr (p, nt_time_to_unix E nt_time))))"

text \<open>
  \<^verbatim>\<open>cn = ((eid & 0xffff000000000000LL) >> 16) | (exchange_globcnt(unix_time - oc_version_time) >> 16)\<close>
\<close>

definition change_number :: "('r, 'e) emsmdbp_env_scheme \<Rightarrow> 64 word \<Rightarrow> 32 word \<Rightarrow> 64 word" where
  "change_number E eidv unix_time =
     drop_bit 16 (eidv AND 0xffff000000000000)
       OR drop_bit 16 (exchange_globcnt E (ucast (unix_time - oc_version_time)))"

text \<open>
  \<^verbatim>\<open>emsmdbp_replid_to_guid(emsmdbp_ctx, eid & 0xffff, &replica_guid)\<close> with its return
  value ignored: the local variable \<^verbatim>\<open>replica_guid\<close> is written on success only. On
  failure it keeps what an earlier row of the same call left in it; before the first
  success it is not initialised (\<open>None\<close>), and its use is a fault.
\<close>

definition replid_to_guid_var ::
  "('r, 'e) emsmdbp_env_scheme \<Rightarrow> GUID option \<Rightarrow> 64 word \<Rightarrow> c_fault + GUID" where
  "replid_to_guid_var E replica_guid_var eidv =
     (case emsmdbp_replid_to_guid (registry E) (ucast (eidv AND 0xffff)) of
        Some g \<Rightarrow> Inr g
      | None \<Rightarrow> (case replica_guid_var of None \<Rightarrow> Inl Bad_pointer | Some g \<Rightarrow> Inr g))"

text \<open>
  \<^verbatim>\<open>oxcfxics_source_key_from_fmid(\<dots>, fmid, &bin_data)\<close> with its return value
  ignored: \<^verbatim>\<open>bin_data\<close> is written on success only and otherwise keeps the pointer it
  held, the first argument here. \<open>None\<close> is a pointer that is not initialised or whose
  object has been freed with the header of an earlier row; it faults when the serializer
  follows it.
\<close>

definition source_key_var ::
  "('r, 'e) emsmdbp_env_scheme \<Rightarrow> prop_value option \<Rightarrow> 64 word \<Rightarrow> prop_value option" where
  "source_key_var E bin_data fmid =
     (case oxcfxics_source_key_from_fmid (registry E) fmid of
        None \<Rightarrow> bin_data
      | Some sk \<Rightarrow> Some (V_Binary_r sk))"

text \<open>
  The change key and the predecessor change list built from it
  (\<^verbatim>\<open>cb + 1\<close> bytes: the byte \<^verbatim>\<open>cb & 0xff\<close>, then the change key).
\<close>

definition change_key_entries ::
  "mapi_consts \<Rightarrow> GUID \<Rightarrow> 64 word \<Rightarrow> c_fault + prop_entry list" where
  "change_key_entries K guid cn =
     (case oxcfxics_make_gid guid cn of
        None \<Rightarrow> Inl Bad_pointer
      | Some ck \<Rightarrow>
          Inr [(PR_CHANGE_KEY K, Some (V_Binary_r ck), MAPI_E_SUCCESS_val),
               (PR_PREDECESSOR_CHANGE_LIST K,
                Some (V_Binary_r (word_of_nat (length ck) # ck)), MAPI_E_SUCCESS_val)])"

subsection \<open>Contents mode\<close>

text \<open>The loop of \<^verbatim>\<open>oxcfxics_push_messageChange_recipients\<close>, \<open>i\<close> its counter.\<close>

fun push_recipient_rows ::
  "mapi_consts \<Rightarrow> ('r, 'e) emsmdbp_env_scheme \<Rightarrow> nat \<Rightarrow> recipient_row list \<Rightarrow> 'a push_bufs_scheme
     \<Rightarrow> c_fault + 'a push_bufs_scheme" where
  "push_recipient_rows K E i [] s = Inr s"
| "push_recipient_rows K E i (r # rs) s =
     (let s1 = ndr_push (u32_le (PR_START_RECIP K)) (push_cutmark s);
          s2 = ndr_push (u32_le (PR_ROWID K) @ u32_le (word_of_nat i)) (push_cutmark s1)
      in bind_fault
           (oxcfxics_ndr_push_properties K E (map (\<lambda>(t, p). (t, p, MAPI_E_SUCCESS_val)) r) s2)
           (\<lambda>s3. push_recipient_rows K E (Suc i) rs
                    (ndr_push (u32_le (PR_END_RECIP K)) (push_cutmark s3))))"

definition oxcfxics_push_messageChange_recipients ::
  "mapi_consts \<Rightarrow> ('r, 'e) emsmdbp_env_scheme \<Rightarrow> recipient_row list option \<Rightarrow> 'a push_bufs_scheme
     \<Rightarrow> c_fault + 'a push_bufs_scheme" where
  "oxcfxics_push_messageChange_recipients K E recips s =
     (let s1 = ndr_push (u32_le (PR_FX_DEL_PROP K) @ u32_le (PR_MESSAGE_RECIPIENTS K))
                 (push_cutmark s)
      in case recips of
           None \<Rightarrow> Inr s1
         | Some rows \<Rightarrow> push_recipient_rows K E 0 rows s1)"

text \<open>The static array \<^verbatim>\<open>prop_tags\<close> of the attachment table, \<^verbatim>\<open>prop_count = 11\<close>.\<close>

definition attachment_prop_tags :: "mapi_consts \<Rightarrow> 32 word list" where
  "attachment_prop_tags K =
     [PR_ATTACH_METHOD K, PR_ATTACH_TAG K, PR_ATTACH_SIZE K, PR_RECORD_KEY K,
      PR_ATTACH_LONG_FILENAME_UNICODE K, PR_DISPLAY_NAME_UNICODE K,
      PR_ATTACH_CONTENT_ID_UNICODE K, PR_ATTACH_MIME_TAG_UNICODE K, PR_CREATION_TIME K,
      PR_LAST_MODIFICATION_TIME K, PR_ATTACH_DATA_BIN K]"

text \<open>The loop of \<^verbatim>\<open>oxcfxics_push_messageChange_attachments\<close>.\<close>

fun push_attachment_rows ::
  "mapi_consts \<Rightarrow> ('r, 'e) emsmdbp_env_scheme \<Rightarrow> nat \<Rightarrow> table_row option list \<Rightarrow> 'a push_bufs_scheme
     \<Rightarrow> c_fault + 'a push_bufs_scheme" where
  "push_attachment_rows K E i [] s = Inr s"
| "push_attachment_rows K E i (r # rs) s =
     (case r of
        None \<Rightarrow> Inl Abort_called
      | Some row \<Rightarrow>
          (let s1 = ndr_push (u32_le (PR_NEW_ATTACH K) @ u32_le (PR_ATTACH_NUM K)
                              @ u32_le (word_of_nat i)) (push_cutmark s)
           in bind_fault (row_entries (attachment_prop_tags K) row 0) (\<lambda>entries.
              bind_fault (oxcfxics_ndr_push_properties K E entries s1) (\<lambda>s2.
                push_attachment_rows K E (Suc i) rs (ndr_push (u32_le (PR_END_ATTACH K)) s2)))))"

definition oxcfxics_push_messageChange_attachments ::
  "mapi_consts \<Rightarrow> ('r, 'e) emsmdbp_env_scheme \<Rightarrow> table_row option list option \<Rightarrow> 'a push_bufs_scheme
     \<Rightarrow> c_fault + 'a push_bufs_scheme" where
  "oxcfxics_push_messageChange_attachments K E table s =
     (let s1 = ndr_push (u32_le (PR_FX_DEL_PROP K) @ u32_le (PR_MESSAGE_ATTACHMENTS K)) s
      in case table of
           None \<Rightarrow> Inr s1
         | Some rows \<Rightarrow> push_attachment_rows K E 0 rows s1)"

text \<open>
  The body of the row loop of \<^verbatim>\<open>oxcfxics_push_messageChange\<close>, for a row whose
  \<^verbatim>\<open>data_pointers\<close> is not NULL.
\<close>

definition push_messageChange_row ::
  "mapi_consts \<Rightarrow> ('r, 'e) emsmdbp_env_scheme \<Rightarrow> ('r, 'b) emsmdbp_object_synccontext_scheme \<Rightarrow> folder_object
     \<Rightarrow> table_row \<Rightarrow> GUID option \<Rightarrow> oxcfxics_sync_data \<Rightarrow> c_fault + GUID \<times> oxcfxics_sync_data" where
  "push_messageChange_row K E synccontext folder row replica_guid_var sd =
     (let s1 = push_cutmark sd; ix = prop_index sd in
      bind_fault (get_cell row (eid ix)) (\<lambda>(eid_p, eid_rv).
      bind_fault (deref_uint64 eid_p) (\<lambda>eidv.
      bind_fault (replid_to_guid_var E replica_guid_var eidv) (\<lambda>guid.
      let s2 = s1\<lparr>eid_set := RAWIDSET_push_glob (eid_set s1) guid (drop_bit 16 eidv)\<rparr>;
          source_key = source_key_var E None eidv in
      bind_fault (row_lm_time E row (last_modification_time ix)) (\<lambda>(lm_time, t).
      let unix_time0 = (ucast t :: 32 word);
          unix_time = (if unix_time0 < oc_version_time then oc_version_time else unix_time0);
          cn = change_number E eidv unix_time
      in
      if IDSET_includes_id E (cnset_seen synccontext) (replica_guid s2) cn then Inr (guid, s2)
      else
        let s3 = s2\<lparr>sd_cnset_seen := RAWIDSET_push_glob (sd_cnset_seen s2) (replica_guid s2) cn\<rparr> in
        bind_fault (change_key_entries K (replica_guid s3) cn) (\<lambda>key_entries.
        bind_fault (get_cell row (associated ix)) (\<lambda>(assoc_p, assoc_rv).
        bind_fault
          (if request_message_size (request synccontext) then
             bind_fault (get_cell row (message_size ix)) (\<lambda>(size_p, size_rv).
             bind_fault (get_cell row (parent_fid ix)) (\<lambda>(pfid_p, pfid_rv).
               Inr [(PR_MESSAGE_SIZE K,
                     (if pfid_rv \<noteq> 0 then Some (V_uint32 0) else size_p),
                     MAPI_E_SUCCESS_val)]))
           else Inr []) (\<lambda>size_entries.
        let header =
              [(PR_SOURCE_KEY K, source_key, MAPI_E_SUCCESS_val),
               (PR_LAST_MODIFICATION_TIME K, lm_time, MAPI_E_SUCCESS_val)]
              @ key_entries
              @ [(PR_ASSOCIATED K, (if assoc_rv \<noteq> 0 then Some (V_uint8 0) else assoc_p),
                  MAPI_E_SUCCESS_val)]
              @ (if request_eid (request synccontext)
                 then [(PR_MID K, Some (V_uint64 eidv), MAPI_E_SUCCESS_val)] else [])
              @ size_entries
              @ (if request_cn (request synccontext)
                 then [(PR_CHANGE_NUM K, Some (V_uint64 (push_bit 16 cn OR (eidv AND 0xffff))),
                        MAPI_E_SUCCESS_val)]
                 else []);
            s4 = ndr_push (u32_le (PR_INCR_SYNC_CHG K)) s3
        in
        bind_fault (oxcfxics_ndr_push_properties K E header s4) (\<lambda>s5.
        let s6 = ndr_push (u32_le (PR_INCR_SYNC_MSG K)) s5 in
        bind_fault
          (if length (sd_properties s6) > 7 then
             bind_fault (row_entries (sd_properties s6) row 7) (\<lambda>entries.
               oxcfxics_ndr_push_properties K E entries s6)
           else Inr s6) (\<lambda>s7.
        case message_open folder eidv of
          None \<Rightarrow> Inl Bad_pointer
        | Some mv \<Rightarrow>
            bind_fault (oxcfxics_push_messageChange_recipients K E (recipients mv) s7) (\<lambda>s8.
            bind_fault (oxcfxics_push_messageChange_attachments K E (attachment_table mv) s8) (\<lambda>s9.
              Inr (guid, s9)))))))))))))"

text \<open>The row loop, with the local variable \<^verbatim>\<open>replica_guid\<close> as it goes from row to row.\<close>

fun push_messageChange_rows ::
  "mapi_consts \<Rightarrow> ('r, 'e) emsmdbp_env_scheme \<Rightarrow> ('r, 'b) emsmdbp_object_synccontext_scheme \<Rightarrow> folder_object
     \<Rightarrow> stored_row list \<Rightarrow> GUID option \<Rightarrow> oxcfxics_sync_data
     \<Rightarrow> c_fault + oxcfxics_sync_data" where
  "push_messageChange_rows K E synccontext folder [] replica_guid_var sd = Inr sd"
| "push_messageChange_rows K E synccontext folder (r # rs) replica_guid_var sd =
     (case r (sd_properties sd) of
        None \<Rightarrow> Inl Abort_called
      | Some row \<Rightarrow>
          (case push_messageChange_row K E synccontext folder row replica_guid_var sd of
             Inl f \<Rightarrow> Inl f
           | Inr (guid, sd1) \<Rightarrow> push_messageChange_rows K E synccontext folder rs (Some guid) sd1))"

text \<open>
  \<^verbatim>\<open>oxcfxics_push_messageChange\<close>: \<^verbatim>\<open>abort()\<close> when the table cannot be opened or
  a row has no data.
\<close>

definition oxcfxics_push_messageChange ::
  "mapi_consts \<Rightarrow> ('r, 'e) emsmdbp_env_scheme \<Rightarrow> ('r, 'b) emsmdbp_object_synccontext_scheme \<Rightarrow> table_type
     \<Rightarrow> folder_object \<Rightarrow> oxcfxics_sync_data \<Rightarrow> c_fault + oxcfxics_sync_data" where
  "oxcfxics_push_messageChange K E synccontext ttype folder sd =
     (case message_tables folder ttype of
        None \<Rightarrow> Inl Abort_called
      | Some rows \<Rightarrow> push_messageChange_rows K E synccontext folder rows None sd)"

text \<open>
  The index that \<^verbatim>\<open>SPropTagArray_find\<close> leaves in a field of the zero-initialised
  \<^verbatim>\<open>prop_index\<close>.
\<close>

definition found_index :: "('r, 'e) emsmdbp_env_scheme \<Rightarrow> 32 word list \<Rightarrow> 32 word \<Rightarrow> nat" where
  "found_index E props tag = (case SPropTagArray_find E props tag of None \<Rightarrow> 0 | Some i \<Rightarrow> i)"

text \<open>
  Steps 1, 2a and 2b of \<^verbatim>\<open>oxcfxics_prepare_synccontext_with_messageChange\<close>: the sync
  data is set up and the message changes of the normal and of the FAI table are pushed.
\<close>

definition messageChange_sync_data ::
  "mapi_consts \<Rightarrow> ('r, 'e) emsmdbp_env_scheme \<Rightarrow> ('r, 'b) emsmdbp_object_synccontext_scheme
     \<Rightarrow> oxcfxics_sync_data" where
  "messageChange_sync_data K E synccontext =
     \<lparr> ndr = [], str_ascii = False, cutmarks_ndr = [],
       replica_guid = openchangedb_get_MailboxReplica E,
       prop_index =
         \<lparr> parent_fid = 0,
           eid = found_index E (properties synccontext) (PR_MID K),
           precedessor_change_list =
             found_index E (properties synccontext) (PR_PREDECESSOR_CHANGE_LIST K),
           last_modification_time =
             found_index E (properties synccontext) (PR_LAST_MODIFICATION_TIME K),
           display_name = 0,
           associated = found_index E (properties synccontext) (PR_ASSOCIATED K),
           message_size = found_index E (properties synccontext) (PR_MESSAGE_SIZE K) \<rparr>,
       sd_properties = properties synccontext,
       eid_set = RAWIDSET_make False,
       sd_cnset_seen = RAWIDSET_make True \<rparr>"

definition push_messageChanges ::
  "mapi_consts \<Rightarrow> ('r, 'e) emsmdbp_env_scheme \<Rightarrow> ('r, 'b) emsmdbp_object_synccontext_scheme \<Rightarrow> folder_object
     \<Rightarrow> c_fault + oxcfxics_sync_data" where
  "push_messageChanges K E synccontext parent_object =
     bind_fault
       (if normal (request synccontext) then
          oxcfxics_push_messageChange K E synccontext EMSMDBP_TABLE_MESSAGE_TYPE parent_object
            (messageChange_sync_data K E synccontext)
        else Inr (messageChange_sync_data K E synccontext))
       (\<lambda>sd. if fai (request synccontext) then
                oxcfxics_push_messageChange K E synccontext EMSMDBP_TABLE_FAI_TYPE parent_object sd
              else Inr sd)"

text \<open>
  \<^verbatim>\<open>oxcfxics_prepare_synccontext_with_messageChange\<close>: after the message changes, the
  state block, the end marker and the sentinel of the sidecar; the merged sets, the
  stream and the cut-marks are stored on the sync context.
\<close>

definition oxcfxics_prepare_synccontext_with_messageChange ::
  "mapi_consts \<Rightarrow> ('r, 'e) emsmdbp_env_scheme \<Rightarrow> folder_object \<Rightarrow> ('r, 'b) emsmdbp_object_synccontext_scheme
     \<Rightarrow> c_fault + ('r, 'b) emsmdbp_object_synccontext_scheme" where
  "oxcfxics_prepare_synccontext_with_messageChange K E parent_object synccontext =
     bind_fault (push_messageChanges K E synccontext parent_object) (\<lambda>sd.
       let s1 = ndr_push (u32_le (PR_INCR_SYNC_STATE_BEGIN K)) sd;
           given = IDSET_merge_idsets E (idset_given synccontext)
                     (RAWIDSET_convert_to_idset E (eid_set s1));
           seen = IDSET_merge_idsets E (cnset_seen synccontext)
                    (RAWIDSET_convert_to_idset E (sd_cnset_seen s1));
           s2 = ndr_push (u32_le (PidTagCnsetSeen K) @ ndr_push_idset E seen) s1;
           s3 = (if fai (request synccontext)
                 then ndr_push (u32_le (PidTagCnsetSeenFAI K) @ ndr_push_idset E seen) s2
                 else s2);
           s4 = ndr_push (u32_le (PidTagIdsetGiven K) @ ndr_push_idset E given) s3;
           s5 = (if read_state (request synccontext)
                 then ndr_push (u32_le (PidTagCnsetRead K) @ ndr_push_idset E seen) s4
                 else s4);
           s6 = ndr_push (u32_le (PR_INCR_SYNC_STATE_END K)) s5;
           s7 = ndr_push (u32_le (PR_INCR_SYNC_END K)) s6
       in Inr (synccontext
                 \<lparr> idset_given := given,
                   cnset_seen := seen,
                   cutmarks := cutmarks_ndr s7 @ [0xffffffff],
                   stream := (stream synccontext)\<lparr>buffer := Some (ndr s7)\<rparr> \<rparr>))"

subsection \<open>Hierarchy mode\<close>

text \<open>
  The body of the row loop of \<^verbatim>\<open>oxcfxics_push_folderChange\<close> up to the label
  \<^verbatim>\<open>end_row\<close>; \<open>topmost\<close> is \<^verbatim>\<open>folder_object == topmost_folder_object\<close>. Here
  \<^verbatim>\<open>unix_time\<close> is an \<^verbatim>\<open>int32_t\<close> and its comparison is signed.
\<close>

definition push_folderChange_row ::
  "mapi_consts \<Rightarrow> ('r, 'e) emsmdbp_env_scheme \<Rightarrow> ('r, 'b) emsmdbp_object_synccontext_scheme \<Rightarrow> bool
     \<Rightarrow> table_row \<Rightarrow> GUID option \<Rightarrow> oxcfxics_sync_data
     \<Rightarrow> c_fault + GUID \<times> oxcfxics_sync_data" where
  "push_folderChange_row K E synccontext topmost row replica_guid_var sd =
     (let s1 = push_cutmark sd; ix = prop_index sd in
      bind_fault
        (if topmost then Inr (Some (V_Binary_r []))
         else bind_fault (get_cell row (parent_fid ix)) (\<lambda>(pfid_p, pfid_rv).
              bind_fault (deref_uint64 pfid_p) (\<lambda>pfid.
                Inr (source_key_var E None pfid)))) (\<lambda>parent_source_key.
      bind_fault (get_cell row (eid ix)) (\<lambda>(eid_p, eid_rv).
      bind_fault (deref_uint64 eid_p) (\<lambda>eidv.
      bind_fault (replid_to_guid_var E replica_guid_var eidv) (\<lambda>guid.
      let s2 = s1\<lparr>eid_set := RAWIDSET_push_glob (eid_set s1) guid (drop_bit 16 eidv)\<rparr>;
          source_key = source_key_var E parent_source_key eidv in
      bind_fault (row_lm_time E row (last_modification_time ix)) (\<lambda>(lm_time, t).
      let unix_time0 = (ucast t :: 32 word);
          unix_time = (if sint unix_time0 < sint oc_version_time then oc_version_time
                       else unix_time0);
          cn = change_number E eidv unix_time
      in
      if IDSET_includes_id E (cnset_seen synccontext) (replica_guid s2) cn then Inr (guid, s2)
      else
        let s3 = s2\<lparr>sd_cnset_seen := RAWIDSET_push_glob (sd_cnset_seen s2) (replica_guid s2) cn\<rparr> in
        bind_fault (change_key_entries K (replica_guid s3) cn) (\<lambda>key_entries.
        bind_fault (get_cell row (display_name ix)) (\<lambda>(name_p, name_rv).
        bind_fault
          (if no_foreign_identifiers (request synccontext) then
             bind_fault (get_cell row (parent_fid ix)) (\<lambda>(pfid_p, pfid_rv).
               Inr [(PR_PARENT_FID K,
                     (if pfid_rv \<noteq> 0 then Some (V_uint64 0) else pfid_p),
                     MAPI_E_SUCCESS_val)])
           else Inr []) (\<lambda>pfid_entries.
        let header =
              [(PR_PARENT_SOURCE_KEY K, parent_source_key, MAPI_E_SUCCESS_val),
               (PR_SOURCE_KEY K, source_key, MAPI_E_SUCCESS_val),
               (PR_LAST_MODIFICATION_TIME K, lm_time, MAPI_E_SUCCESS_val)]
              @ key_entries
              @ [(PR_DISPLAY_NAME_UNICODE K,
                  (if name_rv \<noteq> 0 then Some (V_string []) else name_p), MAPI_E_SUCCESS_val)]
              @ (if request_eid (request synccontext)
                 then [(PR_FID K, eid_p, MAPI_E_SUCCESS_val)] else [])
              @ pfid_entries;
            s4 = ndr_push (u32_le (PR_INCR_SYNC_CHG K)) s3
        in
        bind_fault (oxcfxics_ndr_push_properties K E header s4) (\<lambda>s5.
        bind_fault
          (if length (sd_properties s5) > 5 then
             bind_fault (row_entries (sd_properties s5) row 5) (\<lambda>entries.
               oxcfxics_ndr_push_properties K E entries s5)
           else Inr s5) (\<lambda>s6.
          Inr (guid, s6))))))))))))"

text \<open>
  \<^verbatim>\<open>oxcfxics_push_folderChange\<close>: a folder without hierarchy table returns at once;
  after each row, whether pushed or skipped, the walk descends into the folder of the
  row. Each call has its own local variable \<^verbatim>\<open>replica_guid\<close>, which goes from row
  to row of its loop.
\<close>

fun oxcfxics_push_folderChange ::
  "mapi_consts \<Rightarrow> ('r, 'e) emsmdbp_env_scheme \<Rightarrow> ('r, 'b) emsmdbp_object_synccontext_scheme \<Rightarrow> bool
     \<Rightarrow> folder_tree \<Rightarrow> oxcfxics_sync_data \<Rightarrow> c_fault + oxcfxics_sync_data"
and push_folderChange_rows ::
  "mapi_consts \<Rightarrow> ('r, 'e) emsmdbp_env_scheme \<Rightarrow> ('r, 'b) emsmdbp_object_synccontext_scheme \<Rightarrow> bool
     \<Rightarrow> (stored_row \<times> folder_tree) list \<Rightarrow> GUID option \<Rightarrow> oxcfxics_sync_data
     \<Rightarrow> c_fault + oxcfxics_sync_data" where
  "oxcfxics_push_folderChange K E synccontext topmost (Folder_node cnt table) sd =
     (case table of
        None \<Rightarrow> Inr sd
      | Some rows \<Rightarrow> push_folderChange_rows K E synccontext topmost rows None sd)"
| "push_folderChange_rows K E synccontext topmost [] replica_guid_var sd = Inr sd"
| "push_folderChange_rows K E synccontext topmost ((r, subfolder) # rest) replica_guid_var sd =
     (case r (sd_properties sd) of
        None \<Rightarrow> Inl Abort_called
      | Some row \<Rightarrow>
          (case push_folderChange_row K E synccontext topmost row replica_guid_var sd of
             Inl f \<Rightarrow> Inl f
           | Inr (guid, sd1) \<Rightarrow>
               (case oxcfxics_push_folderChange K E synccontext False subfolder sd1 of
                  Inl f \<Rightarrow> Inl f
                | Inr sd2 \<Rightarrow>
                    push_folderChange_rows K E synccontext topmost rest (Some guid) sd2)))"

definition folderChange_sync_data ::
  "mapi_consts \<Rightarrow> ('r, 'e) emsmdbp_env_scheme \<Rightarrow> ('r, 'b) emsmdbp_object_synccontext_scheme
     \<Rightarrow> oxcfxics_sync_data" where
  "folderChange_sync_data K E synccontext =
     \<lparr> ndr = [], str_ascii = False, cutmarks_ndr = [],
       replica_guid = openchangedb_get_MailboxReplica E,
       prop_index =
         \<lparr> parent_fid = found_index E (properties synccontext) (PR_PARENT_FID K),
           eid = found_index E (properties synccontext) (PR_FID K),
           precedessor_change_list =
             found_index E (properties synccontext) (PR_PREDECESSOR_CHANGE_LIST K),
           last_modification_time =
             found_index E (properties synccontext) (PR_LAST_MODIFICATION_TIME K),
           display_name = found_index E (properties synccontext) (PR_DISPLAY_NAME_UNICODE K),
           associated = 0,
           message_size = 0 \<rparr>,
       sd_properties = properties synccontext,
       eid_set = RAWIDSET_make False,
       sd_cnset_seen = RAWIDSET_make True \<rparr>"

text \<open>\<^verbatim>\<open>oxcfxics_prepare_synccontext_with_folderChange\<close>.\<close>

definition oxcfxics_prepare_synccontext_with_folderChange ::
  "mapi_consts \<Rightarrow> ('r, 'e) emsmdbp_env_scheme \<Rightarrow> folder_object \<Rightarrow> ('r, 'b) emsmdbp_object_synccontext_scheme
     \<Rightarrow> c_fault + ('r, 'b) emsmdbp_object_synccontext_scheme" where
  "oxcfxics_prepare_synccontext_with_folderChange K E parent_object synccontext =
     bind_fault
       (oxcfxics_push_folderChange K E synccontext True (hierarchy parent_object)
          (folderChange_sync_data K E synccontext)) (\<lambda>sd.
       let s1 = ndr_push (u32_le (PR_INCR_SYNC_STATE_BEGIN K)) sd;
           seen = IDSET_merge_idsets E (cnset_seen synccontext)
                    (RAWIDSET_convert_to_idset E (sd_cnset_seen s1));
           s2 = ndr_push (u32_le (PidTagCnsetSeen K) @ ndr_push_idset E seen) s1;
           given = IDSET_merge_idsets E (idset_given synccontext)
                     (RAWIDSET_convert_to_idset E (eid_set s2));
           s3 = ndr_push (u32_le (PidTagIdsetGiven K) @ ndr_push_idset E given) s2;
           s4 = ndr_push (u32_le (PR_INCR_SYNC_STATE_END K)) s3;
           s5 = ndr_push (u32_le (PR_INCR_SYNC_END K)) s4
       in Inr (synccontext
                 \<lparr> idset_given := given,
                   cnset_seen := seen,
                   cutmarks := cutmarks_ndr s5 @ [0xffffffff],
                   stream := (stream synccontext)\<lparr>buffer := Some (ndr s5)\<rparr> \<rparr>))"

section \<open>Objects, handles and the RPC frame\<close>

datatype MAPISTATUS =
    MAPI_E_SUCCESS
  | MAPI_E_INVALID_OBJECT
  | MAPI_E_INVALID_PARAMETER
  | MAPI_E_NOT_FOUND
  | MAPI_E_NO_SUPPORT
  | MAPI_E_NOT_INITIALIZED

text \<open>
  Modelled from the spec: \<^verbatim>\<open>struct emsmdbp_object\<close> and the handle table are declared
  outside the files here. An object is its \<^verbatim>\<open>type\<close> together with the member of the
  union that the type selects; a sync context object also has its \<^verbatim>\<open>parent_object\<close>,
  the folder it was configured on, and the answer of \<^verbatim>\<open>emsmdbp_is_mapistore\<close> for
  the object itself. The handle table maps a handle to its private data: \<open>None\<close> when
  \<^verbatim>\<open>mapi_handles_search\<close> fails, \<open>Some None\<close> for a handle whose private data is
  NULL.
\<close>

datatype 'r emsmdbp_object =
    Folder_object folder_object
  | FtContext_object emsmdbp_object_ftcontext
  | SyncContext_object (parent_object: folder_object) (object_is_mapistore: bool)
      (synccontext: "'r emsmdbp_object_synccontext")
  | Message_object "64 word"
  | Other_object

type_synonym 'r handles_ctx = "32 word \<Rightarrow> 'r emsmdbp_object option option"

text \<open>The request frame: \<^verbatim>\<open>opnum\<close>, \<^verbatim>\<open>handle_idx\<close> and the member of the union.\<close>

record 'u EcDoRpc_MAPI_REQ =
  opnum :: byte
  handle_idx :: byte
  u_req :: 'u

datatype TransferStatus = TransferStatus_Done | TransferStatus_Partial

text \<open>
  The reply of \<^verbatim>\<open>FastTransferSourceGetBuffer\<close>. The reply structure is declared in the
  protocol description, outside the files: the widths of its counters are not visible
  and the counters are natural numbers here, so no truncation on assignment is modelled.
\<close>

record FastTransferSourceGetBuffer_repl =
  TransferBuffer :: "byte list"
  TotalStepCount :: nat
  InProgressCount :: nat
  TransferStatus :: TransferStatus
  TransferBufferSize :: nat
  Reserved :: byte

text \<open>
  The reply frame. The member of the union is \<open>Untouched\<close> on the paths that do not
  write it.
\<close>

datatype reply_union =
    Untouched
  | GetBuffer_repl FastTransferSourceGetBuffer_repl
  | MessageId_repl "64 word"
  | FolderId_repl "64 word"
  | GetLocalReplicaIds_repl "GUID option" "byte list"

record EcDoRpc_MAPI_REPL =
  repl_opnum :: byte
  error_code :: MAPISTATUS
  repl_handle_idx :: byte
  u_repl :: reply_union

text \<open>
  Calls a handler makes on the store to change it, in the order made: the folder and
  message ids, and the flag or the delete type passed along.
\<close>

datatype store_call =
    Create_message "64 word" "64 word" byte
  | Delete_message "64 word" "64 word" byte
  | Indexing_del_mid "64 word" byte
  | Create_folder "64 word option" "64 word"
  | Set_properties "64 word"
  | Reserve_fmid_range "64 word"

datatype rop =
    RopFastTransferSourceCopyTo
  | RopFastTransferSourceGetBuffer
  | RopSyncConfigure
  | RopSyncImportMessageChange
  | RopSyncImportHierarchyChange
  | RopSyncImportDeletes
  | RopSyncUploadStateStreamBegin
  | RopSyncUploadStateStreamContinue
  | RopSyncUploadStateStreamEnd
  | RopSyncImportMessageMove
  | RopSyncOpenCollector
  | RopGetLocalReplicaIds
  | RopSyncImportReadStateChanges
  | RopSyncGetTransferState
  | RopSetLocalReplicaMidsetDeleted

text \<open>
  Modelled from the spec: what the handlers need of the handle table and of
  libmapiserver, as further parameters: the handle that \<^verbatim>\<open>mapi_handles_add\<close>
  allocates, the encoded size of a reply (\<^verbatim>\<open>libmapiserver_Rop\<dots>_size\<close>), and what
  the read of \<^verbatim>\<open>object->object.ftcontext->stream.position\<close> yields when the object
  is a sync context (line 1137; it depends on the layout of the two structures).
\<close>

record 'r rpc_env = "'r emsmdbp_env" +
  mapi_handles_add :: "'r handles_ctx \<Rightarrow> 32 word \<Rightarrow> 32 word"
  rop_size :: "rop \<Rightarrow> EcDoRpc_MAPI_REPL \<Rightarrow> 16 word"
  ftcontext_view_position :: "'r emsmdbp_object_synccontext \<Rightarrow> nat"

text \<open>What a handler leaves behind when it returns.\<close>

record 'r rpc_out =
  out_repl :: EcDoRpc_MAPI_REPL
  out_ctx :: "'r handles_ctx"
  out_handles :: "byte \<Rightarrow> 32 word"
  out_size :: "16 word"
  out_store_calls :: "store_call list"

text \<open>
  The five \<^verbatim>\<open>OPENCHANGE_RETVAL_IF\<close> lines that open every handler: a NULL pointer
  makes the handler return the given status at once.
\<close>

definition sanity_checks ::
  "'c option \<Rightarrow> 'q option \<Rightarrow> bool \<Rightarrow> 'h option \<Rightarrow> 's option \<Rightarrow> MAPISTATUS + 'c \<times> 'q \<times> 'h \<times> 's" where
  "sanity_checks emsmdbp_ctx mapi_req mapi_repl handles sz =
     (case emsmdbp_ctx of
        None \<Rightarrow> Inl MAPI_E_NOT_INITIALIZED
      | Some c \<Rightarrow>
          (case mapi_req of
             None \<Rightarrow> Inl MAPI_E_INVALID_PARAMETER
           | Some q \<Rightarrow>
               if \<not> mapi_repl then Inl MAPI_E_INVALID_PARAMETER
               else
                 (case handles of
                    None \<Rightarrow> Inl MAPI_E_INVALID_PARAMETER
                  | Some h \<Rightarrow>
                      (case sz of
                         None \<Rightarrow> Inl MAPI_E_INVALID_PARAMETER
                       | Some s \<Rightarrow> Inr (c, q, h, s)))))"

text \<open>
  A handler: the sanity checks, then the body up to the label \<^verbatim>\<open>end\<close>, and
  \<^verbatim>\<open>return MAPI_E_SUCCESS\<close>. A handler that returns on a sanity check has written
  nothing (\<open>None\<close>).
\<close>

definition rpc_handler ::
  "('c \<Rightarrow> 'q \<Rightarrow> 'h \<Rightarrow> 's \<Rightarrow> c_fault + 'o)
     \<Rightarrow> 'c option \<Rightarrow> 'q option \<Rightarrow> bool \<Rightarrow> 'h option \<Rightarrow> 's option
     \<Rightarrow> c_fault + MAPISTATUS \<times> 'o option" where
  "rpc_handler body emsmdbp_ctx mapi_req mapi_repl handles sz =
     (case sanity_checks emsmdbp_ctx mapi_req mapi_repl handles sz of
        Inl status \<Rightarrow> Inr (status, None)
      | Inr (c, q, h, s) \<Rightarrow>
          (case body c q h s of
             Inl f \<Rightarrow> Inl f
           | Inr out \<Rightarrow> Inr (MAPI_E_SUCCESS, Some out)))"

text \<open>The label \<^verbatim>\<open>end\<close>: \<^verbatim>\<open>*size += libmapiserver_Rop\<dots>_size(mapi_repl)\<close>.\<close>

definition rpc_end ::
  "('r, 'e) rpc_env_scheme \<Rightarrow> rop \<Rightarrow> EcDoRpc_MAPI_REPL \<Rightarrow> 'r handles_ctx \<Rightarrow> (byte \<Rightarrow> 32 word)
     \<Rightarrow> 16 word \<Rightarrow> store_call list \<Rightarrow> c_fault + 'r rpc_out" where
  "rpc_end E r repl ctx handles sz calls =
     Inr \<lparr> out_repl = repl, out_ctx = ctx, out_handles = handles,
           out_size = sz + rop_size E r repl, out_store_calls = calls \<rparr>"

section \<open>Stream chunker\<close>

text \<open>
  Modelled from the spec: \<^verbatim>\<open>emsmdbp_stream_read_buffer\<close> is not among the files
  here. By the spec a chunk is a view into the stream that starts at the cursor, is no
  longer than the size asked for and no longer than the remainder, and the cursor only
  advances, by the length of the chunk.
\<close>

definition emsmdbp_stream_read_buffer :: "emsmdbp_stream \<Rightarrow> nat \<Rightarrow> byte list \<times> emsmdbp_stream" where
  "emsmdbp_stream_read_buffer st n =
     (let data = (case buffer st of None \<Rightarrow> [] | Some d \<Rightarrow> d);
          chunk = take n (drop (position st) data)
      in (chunk, st\<lparr>position := position st + length chunk\<rparr>))"

text \<open>
  The loop
  \<^verbatim>\<open>while (cutmarks[mark_ptr] != 0xffffffff && cutmarks[mark_ptr] < max_cutmark) { cutbuffer_pos = cutmarks[mark_ptr]; mark_ptr++; }\<close>
  with its 16-bit \<^verbatim>\<open>mark_ptr\<close>, \<^verbatim>\<open>max_cutmark\<close> and \<^verbatim>\<open>cutbuffer_pos\<close>. A read
  past the end of the array is a fault. The first argument counts the iterations left
  of 65536: after that many, \<^verbatim>\<open>mark_ptr\<close> has taken every value it can and the
  condition held at each, so the loop never ends.
\<close>

fun cutmark_scan ::
  "nat \<Rightarrow> 32 word list \<Rightarrow> 16 word \<Rightarrow> 16 word \<Rightarrow> 16 word \<Rightarrow> c_fault + 16 word" where
  "cutmark_scan 0 marks max_cutmark mark_ptr cutbuffer_pos = Inl Never_returns"
| "cutmark_scan (Suc n) marks max_cutmark mark_ptr cutbuffer_pos =
     (if length marks \<le> unat mark_ptr then Inl Out_of_bounds
      else if marks ! unat mark_ptr \<noteq> 0xffffffff \<and> marks ! unat mark_ptr < ucast max_cutmark
      then cutmark_scan n marks max_cutmark (mark_ptr + 1) (ucast (marks ! unat mark_ptr))
      else Inr cutbuffer_pos)"

text \<open>
  The size of the next chunk, as both branches of the \<^verbatim>\<open>switch\<close> in
  \<^verbatim>\<open>EcDoRpc_RopFastTransferSourceGetBuffer\<close> compute it. The two branches are the
  same text but for the position compared with \<^verbatim>\<open>cutbuffer_pos\<close> after the loop,
  which is the argument \<open>seen_position\<close> here.
\<close>

definition cut_buffer_size ::
  "('a emsmdbp_object_ftcontext_scheme) \<Rightarrow> nat \<Rightarrow> 16 word \<Rightarrow> c_fault + 16 word" where
  "cut_buffer_size ctx seen_position buffer_size =
     (let pos = position (stream ctx);
          cutbuffer_pos = (word_of_nat pos :: 16 word)
      in if unat cutbuffer_pos + unat buffer_size < buffer_length (stream ctx) then
           (let mark_ptr = (word_of_nat (next_cutmark_ptr ctx) :: 16 word);
                max_cutmark = (word_of_nat (pos + unat buffer_size) :: 16 word)
            in bind_fault (cutmark_scan 65536 (cutmarks ctx) max_cutmark mark_ptr cutbuffer_pos)
                 (\<lambda>cutbuffer_pos.
                    if seen_position < unat cutbuffer_pos then
                      (let cutbuffer_size = cutbuffer_pos - word_of_nat pos
                       in if cutbuffer_size > 0 \<and> cutbuffer_size < buffer_size
                          then Inr cutbuffer_size else Inr buffer_size)
                    else Inr buffer_size))
         else Inr buffer_size)"

text \<open>
  The read and the reply, after the size of the chunk is known; the last two
  assignments are those after the \<^verbatim>\<open>switch\<close>.
\<close>

definition read_chunk ::
  "('a emsmdbp_object_ftcontext_scheme) \<Rightarrow> 16 word
     \<Rightarrow> FastTransferSourceGetBuffer_repl \<times> ('a emsmdbp_object_ftcontext_scheme)" where
  "read_chunk ctx buffer_size =
     (let (chunk, st) = emsmdbp_stream_read_buffer (stream ctx) (unat buffer_size);
          finished = (position st = buffer_length st)
      in (\<lparr> TransferBuffer = chunk,
             TotalStepCount = total_steps ctx,
             InProgressCount = (if finished then total_steps ctx else steps ctx),
             TransferStatus = (if finished then TransferStatus_Done else TransferStatus_Partial),
             TransferBufferSize = length chunk,
             Reserved = 0 \<rparr>,
          ctx\<lparr>stream := st\<rparr>))"

text \<open>
  \<^verbatim>\<open>total_steps = (stream.buffer.length / buffer_size) + 1\<close>, with its division.
\<close>

definition start_steps ::
  "('a emsmdbp_object_ftcontext_scheme) \<Rightarrow> 16 word
     \<Rightarrow> c_fault + ('a emsmdbp_object_ftcontext_scheme)" where
  "start_steps ctx buffer_size =
     (if buffer_size = 0 then Inl Division_by_zero
      else Inr (ctx\<lparr>steps := 0,
                    total_steps := buffer_length (stream ctx) div unat buffer_size + 1\<rparr>))"

text \<open>The case \<^verbatim>\<open>EMSMDBP_OBJECT_FTCONTEXT\<close>.\<close>

definition ftcontext_get_buffer ::
  "emsmdbp_object_ftcontext \<Rightarrow> 16 word
     \<Rightarrow> c_fault + FastTransferSourceGetBuffer_repl \<times> emsmdbp_object_ftcontext" where
  "ftcontext_get_buffer ftcontext buffer_size =
     bind_fault
       (if position (stream ftcontext) = 0 then start_steps ftcontext buffer_size
        else Inr ftcontext) (\<lambda>c1.
     let c2 = c1\<lparr>steps := steps c1 + 1\<rparr> in
     bind_fault (cut_buffer_size c2 (position (stream c2)) buffer_size) (\<lambda>buffer_size.
       Inr (read_chunk c2 buffer_size)))"

text \<open>
  The case \<^verbatim>\<open>EMSMDBP_OBJECT_SYNCCONTEXT\<close>: the stream is produced on the first call,
  when \<^verbatim>\<open>stream.buffer.data\<close> is still NULL.
\<close>

definition synccontext_get_buffer ::
  "mapi_consts \<Rightarrow> ('r, 'e) rpc_env_scheme \<Rightarrow> folder_object \<Rightarrow> 'r emsmdbp_object_synccontext
     \<Rightarrow> 16 word \<Rightarrow> c_fault + FastTransferSourceGetBuffer_repl \<times> 'r emsmdbp_object_synccontext" where
  "synccontext_get_buffer K E parent sc buffer_size =
     bind_fault
       (if buffer (stream sc) = None then
          bind_fault
            (if contents_mode (request sc)
             then oxcfxics_prepare_synccontext_with_messageChange K E parent sc
             else oxcfxics_prepare_synccontext_with_folderChange K E parent sc)
            (\<lambda>prepared. start_steps prepared buffer_size)
        else Inr sc) (\<lambda>c1.
     let c2 = c1\<lparr>steps := steps c1 + 1\<rparr> in
     bind_fault (cut_buffer_size c2 (ftcontext_view_position E c2) buffer_size) (\<lambda>buffer_size.
       Inr (read_chunk c2 buffer_size)))"

record FastTransferSourceGetBuffer_req =
  BufferSize :: "16 word"
  MaximumBufferSize :: "16 word"

text \<open>\<^verbatim>\<open>EcDoRpc_RopFastTransferSourceGetBuffer\<close> (0x4e), from the sanity checks on.\<close>

definition RopFastTransferSourceGetBuffer_body ::
  "mapi_consts \<Rightarrow> ('r, 'e) rpc_env_scheme \<Rightarrow> 'r handles_ctx
     \<Rightarrow> FastTransferSourceGetBuffer_req EcDoRpc_MAPI_REQ \<Rightarrow> (byte \<Rightarrow> 32 word) \<Rightarrow> 16 word
     \<Rightarrow> c_fault + 'r rpc_out" where
  "RopFastTransferSourceGetBuffer_body K E ctx mapi_req handles sz =
     (let repl = \<lparr> repl_opnum = opnum mapi_req, error_code = MAPI_E_SUCCESS,
                   repl_handle_idx = handle_idx mapi_req, u_repl = Untouched \<rparr>;
          handle_id = handles (handle_idx mapi_req);
          fail = rpc_end E RopFastTransferSourceGetBuffer
                   (repl\<lparr>error_code := MAPI_E_INVALID_OBJECT\<rparr>) ctx handles sz []
      in case ctx handle_id of
           None \<Rightarrow> fail
         | Some None \<Rightarrow> fail
         | Some (Some object) \<Rightarrow>
             (let request = u_req mapi_req;
                  buffer_size = (if BufferSize request = 0xBABE then MaximumBufferSize request
                                 else BufferSize request)
              in case object of
                   FtContext_object ftcontext \<Rightarrow>
                     bind_fault (ftcontext_get_buffer ftcontext buffer_size) (\<lambda>(response, ft').
                       rpc_end E RopFastTransferSourceGetBuffer
                         (repl\<lparr>u_repl := GetBuffer_repl response\<rparr>)
                         (ctx(handle_id := Some (Some (FtContext_object ft')))) handles sz [])
                 | SyncContext_object parent ms sc \<Rightarrow>
                     bind_fault (synccontext_get_buffer K E parent sc buffer_size)
                       (\<lambda>(response, sc').
                       rpc_end E RopFastTransferSourceGetBuffer
                         (repl\<lparr>u_repl := GetBuffer_repl response\<rparr>)
                         (ctx(handle_id := Some (Some (SyncContext_object parent ms sc'))))
                         handles sz [])
                 | _ \<Rightarrow> fail))"

definition EcDoRpc_RopFastTransferSourceGetBuffer ::
  "mapi_consts \<Rightarrow> ('r, 'e) rpc_env_scheme \<Rightarrow> 'r handles_ctx option
     \<Rightarrow> FastTransferSourceGetBuffer_req EcDoRpc_MAPI_REQ option \<Rightarrow> bool
     \<Rightarrow> (byte \<Rightarrow> 32 word) option \<Rightarrow> 16 word option
     \<Rightarrow> c_fault + MAPISTATUS \<times> 'r rpc_out option" where
  "EcDoRpc_RopFastTransferSourceGetBuffer K E =
     rpc_handler (RopFastTransferSourceGetBuffer_body K E)"

section \<open>State upload\<close>

text \<open>
  What the handlers of a sync context's handle do first: \<^verbatim>\<open>mapi_handles_search\<close>,
  \<^verbatim>\<open>mapi_handles_get_private_data\<close> and the test of the object's type. \<open>None\<close>
  is the path to \<^verbatim>\<open>MAPI_E_INVALID_OBJECT\<close>.
\<close>

definition find_synccontext ::
  "'r handles_ctx \<Rightarrow> 32 word \<Rightarrow> (folder_object \<times> bool \<times> 'r emsmdbp_object_synccontext) option" where
  "find_synccontext ctx handle_id =
     (case ctx handle_id of
        Some (Some (SyncContext_object parent ms sc)) \<Rightarrow> Some (parent, ms, sc)
      | _ \<Rightarrow> None)"

definition reply_to :: "'u EcDoRpc_MAPI_REQ \<Rightarrow> EcDoRpc_MAPI_REPL" where
  "reply_to mapi_req =
     \<lparr> repl_opnum = opnum mapi_req, error_code = MAPI_E_SUCCESS,
       repl_handle_idx = handle_idx mapi_req, u_repl = Untouched \<rparr>"

text \<open>\<^verbatim>\<open>EcDoRpc_RopSyncUploadStateStreamBegin\<close> (0x75).\<close>

definition RopSyncUploadStateStreamBegin_body ::
  "mapi_consts \<Rightarrow> ('r, 'e) rpc_env_scheme \<Rightarrow> 'r handles_ctx
     \<Rightarrow> 32 word EcDoRpc_MAPI_REQ \<Rightarrow> (byte \<Rightarrow> 32 word) \<Rightarrow> 16 word \<Rightarrow> c_fault + 'r rpc_out" where
  "RopSyncUploadStateStreamBegin_body K E ctx mapi_req handles sz =
     (let repl = reply_to mapi_req;
          synccontext_handle = handles (handle_idx mapi_req);
          finish = (\<lambda>repl ctx. rpc_end E RopSyncUploadStateStreamBegin repl ctx handles sz [])
      in case find_synccontext ctx synccontext_handle of
           None \<Rightarrow> finish (repl\<lparr>error_code := MAPI_E_INVALID_OBJECT\<rparr>) ctx
         | Some (parent, ms, sc) \<Rightarrow>
             if state_property sc \<noteq> 0 then finish (repl\<lparr>error_code := MAPI_E_NOT_INITIALIZED\<rparr>) ctx
             else
               (let property = u_req mapi_req
                in if \<not> (property = PidTagIdsetGiven K \<or> property = PidTagCnsetSeen K
                          \<or> property = PidTagCnsetSeenFAI K \<or> property = PidTagCnsetRead K)
                   then finish (repl\<lparr>error_code := MAPI_E_INVALID_PARAMETER\<rparr>) ctx
                   else finish repl
                          (ctx(synccontext_handle := Some (Some (SyncContext_object parent ms
                             (sc\<lparr>state_property := property,
                                  state_stream := \<lparr> position = 0, buffer = Some [] \<rparr>\<rparr>)))))))"

definition EcDoRpc_RopSyncUploadStateStreamBegin ::
  "mapi_consts \<Rightarrow> ('r, 'e) rpc_env_scheme \<Rightarrow> 'r handles_ctx option
     \<Rightarrow> 32 word EcDoRpc_MAPI_REQ option \<Rightarrow> bool \<Rightarrow> (byte \<Rightarrow> 32 word) option \<Rightarrow> 16 word option
     \<Rightarrow> c_fault + MAPISTATUS \<times> 'r rpc_out option" where
  "EcDoRpc_RopSyncUploadStateStreamBegin K E = rpc_handler (RopSyncUploadStateStreamBegin_body K E)"

text \<open>
  Modelled from the spec: \<^verbatim>\<open>emsmdbp_stream_write_buffer\<close> is not among the files
  here. By the spec \<^verbatim>\<open>SyncUploadStateStreamContinue\<close> ``appends bytes to scratch''.
\<close>

definition emsmdbp_stream_write_buffer :: "emsmdbp_stream \<Rightarrow> byte list \<Rightarrow> emsmdbp_stream" where
  "emsmdbp_stream_write_buffer st new_data = st\<lparr>buffer := Some (stream_data st @ new_data)\<rparr>"

record SyncUploadStateStreamContinue_req =
  StreamDataSize :: "32 word"
  StreamData :: "byte list"

text \<open>
  \<^verbatim>\<open>EcDoRpc_RopSyncUploadStateStreamContinue\<close> (0x76). The blob written is
  \<^verbatim>\<open>StreamDataSize\<close> bytes from \<^verbatim>\<open>StreamData\<close>.
\<close>

definition RopSyncUploadStateStreamContinue_body ::
  "('r, 'e) rpc_env_scheme \<Rightarrow> 'r handles_ctx
     \<Rightarrow> SyncUploadStateStreamContinue_req EcDoRpc_MAPI_REQ \<Rightarrow> (byte \<Rightarrow> 32 word) \<Rightarrow> 16 word
     \<Rightarrow> c_fault + 'r rpc_out" where
  "RopSyncUploadStateStreamContinue_body E ctx mapi_req handles sz =
     (let repl = reply_to mapi_req;
          synccontext_handle = handles (handle_idx mapi_req);
          finish = (\<lambda>repl ctx. rpc_end E RopSyncUploadStateStreamContinue repl ctx handles sz [])
      in case find_synccontext ctx synccontext_handle of
           None \<Rightarrow> finish (repl\<lparr>error_code := MAPI_E_INVALID_OBJECT\<rparr>) ctx
         | Some (parent, ms, sc) \<Rightarrow>
             if state_property sc = 0 then finish (repl\<lparr>error_code := MAPI_E_NOT_INITIALIZED\<rparr>) ctx
             else
               (let request = u_req mapi_req
                in if length (StreamData request) < unat (StreamDataSize request)
                   then Inl Out_of_bounds
                   else finish repl
                          (ctx(synccontext_handle := Some (Some (SyncContext_object parent ms
                             (sc\<lparr>state_stream := emsmdbp_stream_write_buffer (state_stream sc)
                                    (take (unat (StreamDataSize request)) (StreamData request))\<rparr>)))))))"

definition EcDoRpc_RopSyncUploadStateStreamContinue ::
  "('r, 'e) rpc_env_scheme \<Rightarrow> 'r handles_ctx option
     \<Rightarrow> SyncUploadStateStreamContinue_req EcDoRpc_MAPI_REQ option \<Rightarrow> bool
     \<Rightarrow> (byte \<Rightarrow> 32 word) option \<Rightarrow> 16 word option
     \<Rightarrow> c_fault + MAPISTATUS \<times> 'r rpc_out option" where
  "EcDoRpc_RopSyncUploadStateStreamContinue E = rpc_handler (RopSyncUploadStateStreamContinue_body E)"

text \<open>
  The \<^verbatim>\<open>switch\<close> of \<^verbatim>\<open>EcDoRpc_RopSyncUploadStateStreamEnd\<close> on the armed property:
  where the parsed set goes. The old set of the slot is freed.
\<close>

definition install_parsed_idset ::
  "mapi_consts \<Rightarrow> 'r idset option \<Rightarrow> 'r emsmdbp_object_synccontext
     \<Rightarrow> c_fault + 'r emsmdbp_object_synccontext" where
  "install_parsed_idset K parsed_idset sc =
     (if state_property sc = PidTagIdsetGiven K then
        (case parsed_idset of
           Some p \<Rightarrow> if range_count p = 0 then Inl Abort_called
                     else Inr (sc\<lparr>idset_given := parsed_idset\<rparr>)
         | None \<Rightarrow> Inr (sc\<lparr>idset_given := parsed_idset\<rparr>))
      else if state_property sc = PidTagCnsetSeen K \<or> state_property sc = PidTagCnsetSeenFAI K
              \<or> state_property sc = PidTagCnsetRead K then
        Inr (sc\<lparr>cnset_seen := map_option (\<lambda>p. p\<lparr>single_flag := True\<rparr>) parsed_idset\<rparr>)
      else Inr sc)"

text \<open>The lines under ``reset synccontext state''.\<close>

definition reset_state_stream :: "'r emsmdbp_object_synccontext \<Rightarrow> 'r emsmdbp_object_synccontext" where
  "reset_state_stream sc =
     (if buffer_length (state_stream sc) > 0
      then sc\<lparr>state_stream := (state_stream sc)\<lparr>buffer := Some []\<rparr>\<rparr>
      else sc)\<lparr>state_property := 0\<rparr>"

text \<open>\<^verbatim>\<open>EcDoRpc_RopSyncUploadStateStreamEnd\<close> (0x77).\<close>

definition RopSyncUploadStateStreamEnd_body ::
  "mapi_consts \<Rightarrow> ('r, 'e) rpc_env_scheme \<Rightarrow> 'r handles_ctx
     \<Rightarrow> unit EcDoRpc_MAPI_REQ \<Rightarrow> (byte \<Rightarrow> 32 word) \<Rightarrow> 16 word \<Rightarrow> c_fault + 'r rpc_out" where
  "RopSyncUploadStateStreamEnd_body K E ctx mapi_req handles sz =
     (let repl = reply_to mapi_req;
          synccontext_handle = handles (handle_idx mapi_req);
          finish = (\<lambda>repl ctx. rpc_end E RopSyncUploadStateStreamEnd repl ctx handles sz [])
      in case find_synccontext ctx synccontext_handle of
           None \<Rightarrow> finish (repl\<lparr>error_code := MAPI_E_INVALID_OBJECT\<rparr>) ctx
         | Some (parent, ms, sc) \<Rightarrow>
             if state_property sc = 0 then finish (repl\<lparr>error_code := MAPI_E_NOT_INITIALIZED\<rparr>) ctx
             else
               (let parsed_idset = IDSET_parse E (stream_data (state_stream sc))
                in bind_fault (install_parsed_idset K parsed_idset sc) (\<lambda>sc'.
                     finish repl
                       (ctx(synccontext_handle := Some (Some (SyncContext_object parent ms
                          (reset_state_stream sc'))))))))"

definition EcDoRpc_RopSyncUploadStateStreamEnd ::
  "mapi_consts \<Rightarrow> ('r, 'e) rpc_env_scheme \<Rightarrow> 'r handles_ctx option
     \<Rightarrow> unit EcDoRpc_MAPI_REQ option \<Rightarrow> bool \<Rightarrow> (byte \<Rightarrow> 32 word) option \<Rightarrow> 16 word option
     \<Rightarrow> c_fault + MAPISTATUS \<times> 'r rpc_out option" where
  "EcDoRpc_RopSyncUploadStateStreamEnd K E = rpc_handler (RopSyncUploadStateStreamEnd_body K E)"

section \<open>Imports\<close>

text \<open>
  Modelled from the spec: the flag bits and enumeration values of the requests, and the
  property tags that only \<^verbatim>\<open>EcDoRpc_RopSyncConfigure\<close> names, are declared in
  headers that are not among the files here; they are parameters.
\<close>

record rop_consts =
  ImportFlag_Associated :: byte
  SyncImportDeletes_Hierarchy :: byte
  SyncImportDeletes_HardDelete :: byte
  MAPISTORE_PERMANENT_DELETE :: byte
  MAPISTORE_SOFT_DELETE :: byte
  Contents :: byte
  FastTransfer_Unicode :: byte
  FastTransfer_UseCpid :: byte
  FastTransfer_RecoverMode :: byte
  FastTransfer_ForceUnicode :: byte
  FastTransfer_PartialItem :: byte
  SynchronizationFlag_Unicode :: "16 word"
  SynchronizationFlag_NoDeletions :: "16 word"
  SynchronizationFlag_NoSoftDeletions :: "16 word"
  SynchronizationFlag_ReadState :: "16 word"
  SynchronizationFlag_FAI :: "16 word"
  SynchronizationFlag_Normal :: "16 word"
  SynchronizationFlag_OnlySpecifiedProperties :: "16 word"
  SynchronizationFlag_NoForeignIdentifiers :: "16 word"
  SynchronizationFlag_BestBody :: "16 word"
  SynchronizationFlag_IgnoreSpecifiedOnFAI :: "16 word"
  SynchronizationFlag_Progress :: "16 word"
  Eid :: "32 word"
  MessageSize :: "32 word"
  Cn :: "32 word"
  OrderByDeliveryTime :: "32 word"
  PR_ROW_TYPE :: "32 word"
  PR_INSTANCE_KEY :: "32 word"
  PR_INSTANCE_NUM :: "32 word"
  PR_INST_ID :: "32 word"
  PR_BODY_HTML :: "32 word"
  PR_BODY_UNICODE :: "32 word"

text \<open>A \<^verbatim>\<open>struct mapi_SPropValue\<close>: the tag and the value.\<close>

type_synonym mapi_SPropValue = "32 word \<times> prop_value"

text \<open>
  Modelled from the spec: the store and the provider's object layer, as the handlers
  below call them (\<^verbatim>\<open>create_message\<close>, \<^verbatim>\<open>open_folder\<close>, \<^verbatim>\<open>create_folder\<close>,
  \<^verbatim>\<open>reserve_fmid_range\<close>, \<^verbatim>\<open>get_available_properties\<close>,
  \<^verbatim>\<open>get_properties\<close> of the spec's store interface), as further parameters. A
  status is 0 for success; \<open>None\<close> is a NULL object, and for
  \<^verbatim>\<open>emsmdbp_object_create_folder\<close> a non-zero status.
  \<^verbatim>\<open>openchangedb_reserve_fmid_range\<close> is what the call leaves in \<^verbatim>\<open>new_id\<close>.
  \<^verbatim>\<open>synccontext_is_mapistore\<close> is the answer of \<^verbatim>\<open>emsmdbp_is_mapistore\<close> for a
  sync context made on the folder.
\<close>

record 'r store_env = "'r rpc_env" +
  mapistore_folder_create_message :: "folder_object \<Rightarrow> 64 word \<Rightarrow> byte \<Rightarrow> int"
  emsmdbp_object_open_folder_by_fid :: "folder_object \<Rightarrow> 64 word \<Rightarrow> folder_object option"
  emsmdbp_object_open_folder :: "folder_object option \<Rightarrow> 64 word \<Rightarrow> folder_object option"
  emsmdbp_object_create_folder ::
    "folder_object option \<Rightarrow> 64 word \<Rightarrow> mapi_SPropValue list \<Rightarrow> folder_object option"
  emsmdbp_object_set_properties :: "folder_object \<Rightarrow> mapi_SPropValue list \<Rightarrow> int"
  openchangedb_reserve_fmid_range :: "64 word \<Rightarrow> 64 word"
  emsmdbp_object_get_available_properties :: "'r emsmdbp_object option \<Rightarrow> 32 word list option"
  emsmdbp_object_get_properties :: "'r emsmdbp_object option \<Rightarrow> 32 word list \<Rightarrow> cell list option"
  SPropTagArray_delete :: "32 word list \<Rightarrow> 32 word \<Rightarrow> 32 word list"
  SPropTagArray_add :: "32 word list \<Rightarrow> 32 word \<Rightarrow> 32 word list"
  emsmdbp_object_ftcontext_init :: "'r emsmdbp_object option \<Rightarrow> emsmdbp_object_ftcontext option"
  emsmdbp_object_synccontext_init :: "folder_object \<Rightarrow> 'r emsmdbp_object_synccontext option"
  synccontext_is_mapistore :: "folder_object \<Rightarrow> bool"

text \<open>
  \<^verbatim>\<open>lpProps[i].value.bin\<close> and \<^verbatim>\<open>lpProps[i].value.MVbin\<close>: the member of the
  union is read whatever the tag says, and the array is not checked for its length.
\<close>

definition lpProps_bin :: "mapi_SPropValue list \<Rightarrow> nat \<Rightarrow> c_fault + byte list" where
  "lpProps_bin lpProps i =
     (if length lpProps \<le> i then Inl Out_of_bounds
      else case snd (lpProps ! i) of
             V_Binary_r lpb \<Rightarrow> Inr lpb
           | _ \<Rightarrow> Inl Bad_pointer)"

definition lpProps_MVbin :: "mapi_SPropValue list \<Rightarrow> nat \<Rightarrow> c_fault + byte list list" where
  "lpProps_MVbin lpProps i =
     (if length lpProps \<le> i then Inl Out_of_bounds
      else case snd (lpProps ! i) of
             V_BinaryArray_r bins \<Rightarrow> Inr bins
           | _ \<Rightarrow> Inl Bad_pointer)"

text \<open>
  The members of the request union that carry the index at which the handle of the
  object made by the call is stored (\<^verbatim>\<open>request->handle_idx\<close>).
\<close>

record new_handle_req =
  req_handle_idx :: byte

record SyncImportMessageChange_req = new_handle_req +
  ImportFlag :: byte
  PropertyValues :: "mapi_SPropValue list"

text \<open>\<^verbatim>\<open>EcDoRpc_RopSyncImportMessageChange\<close> (0x72).\<close>

definition RopSyncImportMessageChange_body ::
  "rop_consts \<Rightarrow> ('r, 'e) store_env_scheme \<Rightarrow> 'r handles_ctx
     \<Rightarrow> SyncImportMessageChange_req EcDoRpc_MAPI_REQ \<Rightarrow> (byte \<Rightarrow> 32 word) \<Rightarrow> 16 word
     \<Rightarrow> c_fault + 'r rpc_out" where
  "RopSyncImportMessageChange_body F E ctx mapi_req handles sz =
     (let request = u_req mapi_req;
          repl = \<lparr> repl_opnum = opnum mapi_req, error_code = MAPI_E_SUCCESS,
                   repl_handle_idx = req_handle_idx request, u_repl = Untouched \<rparr>;
          synccontext_handle_id = handles (handle_idx mapi_req);
          finish = (\<lambda>repl ctx handles calls.
                      rpc_end E RopSyncImportMessageChange repl ctx handles sz calls)
      in case find_synccontext ctx synccontext_handle_id of
           None \<Rightarrow> finish (repl\<lparr>error_code := MAPI_E_INVALID_OBJECT\<rparr>) ctx handles []
         | Some (parent, ms, sc) \<Rightarrow>
             if \<not> folder_is_mapistore parent
             then finish (repl\<lparr>error_code := MAPI_E_NO_SUPPORT\<rparr>) ctx handles []
             else
               bind_fault (lpProps_bin (PropertyValues request) 0) (\<lambda>source_key.
               bind_fault (oxcfxics_fmid_from_source_key (registry E) source_key) (\<lambda>fmid.
                 case fmid of
                   None \<Rightarrow> finish (repl\<lparr>error_code := MAPI_E_NOT_FOUND\<rparr>) ctx handles []
                 | Some messageID \<Rightarrow>
                     (let message_handle_id = handles (handle_idx mapi_req);
                          message_object_handle = mapi_handles_add E ctx message_handle_id;
                          ctx1 = ctx(message_object_handle := Some None);
                          handles1 = handles(repl_handle_idx repl := message_object_handle);
                          opened = ctx1(message_object_handle
                                          := Some (Some (Message_object messageID)))
                      in case message_open parent messageID of
                           Some msg \<Rightarrow> finish (repl\<lparr>u_repl := MessageId_repl 0\<rparr>) opened handles1 []
                         | None \<Rightarrow>
                             (let associated = ImportFlag request AND ImportFlag_Associated F;
                                  calls = [Create_message (folderID parent) messageID associated]
                              in if mapistore_folder_create_message E parent messageID associated \<noteq> 0
                                 then finish (repl\<lparr>error_code := MAPI_E_NOT_FOUND\<rparr>)
                                        (ctx1(message_object_handle := None)) handles1 calls
                                 else finish (repl\<lparr>u_repl := MessageId_repl 0\<rparr>)
                                        opened handles1 calls)))))"

definition EcDoRpc_RopSyncImportMessageChange ::
  "rop_consts \<Rightarrow> ('r, 'e) store_env_scheme \<Rightarrow> 'r handles_ctx option
     \<Rightarrow> SyncImportMessageChange_req EcDoRpc_MAPI_REQ option \<Rightarrow> bool
     \<Rightarrow> (byte \<Rightarrow> 32 word) option \<Rightarrow> 16 word option
     \<Rightarrow> c_fault + MAPISTATUS \<times> 'r rpc_out option" where
  "EcDoRpc_RopSyncImportMessageChange F E = rpc_handler (RopSyncImportMessageChange_body F E)"

record SyncImportHierarchyChange_req =
  HierarchyValues :: "mapi_SPropValue list"
  FolderPropertyValues :: "mapi_SPropValue list"

text \<open>
  \<^verbatim>\<open>EcDoRpc_RopSyncImportHierarchyChange\<close> (0x73). \<open>FolderPropertyValues\<close> is the
  request's \<^verbatim>\<open>PropertyValues\<close>; \<^verbatim>\<open>cast_SPropValue\<close> copies a value as it is.
\<close>

definition RopSyncImportHierarchyChange_body ::
  "('r, 'e) store_env_scheme \<Rightarrow> 'r handles_ctx
     \<Rightarrow> SyncImportHierarchyChange_req EcDoRpc_MAPI_REQ \<Rightarrow> (byte \<Rightarrow> 32 word) \<Rightarrow> 16 word
     \<Rightarrow> c_fault + 'r rpc_out" where
  "RopSyncImportHierarchyChange_body E ctx mapi_req handles sz =
     (let repl = reply_to mapi_req;
          synccontext_handle_id = handles (handle_idx mapi_req);
          finish = (\<lambda>repl calls. rpc_end E RopSyncImportHierarchyChange repl ctx handles sz calls)
      in case find_synccontext ctx synccontext_handle_id of
           None \<Rightarrow> finish (repl\<lparr>error_code := MAPI_E_INVALID_OBJECT\<rparr>) []
         | Some (parent, ms, sc) \<Rightarrow>
             (let request = u_req mapi_req in
              bind_fault (lpProps_bin (HierarchyValues request) 0) (\<lambda>parent_key.
              bind_fault (oxcfxics_fmid_from_source_key (registry E) parent_key) (\<lambda>parent_fmid.
                case parent_fmid of
                  None \<Rightarrow> finish (repl\<lparr>error_code := MAPI_E_NOT_FOUND\<rparr>) []
                | Some parentFolderID \<Rightarrow>
                    bind_fault (lpProps_bin (HierarchyValues request) 1) (\<lambda>folder_key.
                    bind_fault (oxcfxics_fmid_from_source_key (registry E) folder_key) (\<lambda>folder_fmid.
                      case folder_fmid of
                        None \<Rightarrow> finish (repl\<lparr>error_code := MAPI_E_NOT_FOUND\<rparr>) []
                      | Some fid \<Rightarrow>
                          (let aRow = HierarchyValues request @ FolderPropertyValues request;
                               parent_folder =
                                 (if folderID parent = parentFolderID then Some parent
                                  else emsmdbp_object_open_folder_by_fid E parent parentFolderID);
                               set_props = (\<lambda>folder_object calls.
                                  if emsmdbp_object_set_properties E folder_object aRow \<noteq> 0
                                  then finish (repl\<lparr>error_code := MAPI_E_NO_SUPPORT\<rparr>)
                                         (calls @ [Set_properties fid])
                                  else finish (repl\<lparr>u_repl := FolderId_repl 0\<rparr>)
                                         (calls @ [Set_properties fid]))
                           in case emsmdbp_object_open_folder E parent_folder fid of
                                Some folder_object \<Rightarrow> set_props folder_object []
                              | None \<Rightarrow>
                                  (case emsmdbp_object_create_folder E parent_folder fid aRow of
                                     None \<Rightarrow> finish (repl\<lparr>error_code := MAPI_E_NO_SUPPORT\<rparr>)
                                               [Create_folder (map_option folderID parent_folder) fid]
                                   | Some folder_object \<Rightarrow>
                                       set_props folder_object
                                         [Create_folder (map_option folderID parent_folder) fid]))))))))"

definition EcDoRpc_RopSyncImportHierarchyChange ::
  "('r, 'e) store_env_scheme \<Rightarrow> 'r handles_ctx option
     \<Rightarrow> SyncImportHierarchyChange_req EcDoRpc_MAPI_REQ option \<Rightarrow> bool
     \<Rightarrow> (byte \<Rightarrow> 32 word) option \<Rightarrow> 16 word option
     \<Rightarrow> c_fault + MAPISTATUS \<times> 'r rpc_out option" where
  "EcDoRpc_RopSyncImportHierarchyChange E = rpc_handler (RopSyncImportHierarchyChange_body E)"

record SyncImportDeletes_req =
  Flags :: byte
  DeletePropertyValues :: "mapi_SPropValue list"

text \<open>
  The loop of \<^verbatim>\<open>EcDoRpc_RopSyncImportDeletes\<close> over the source keys: a key that
  does not resolve is passed over; the results of the two calls on the store are only
  logged.
\<close>

fun import_deletes ::
  "replica_registry \<Rightarrow> 64 word \<Rightarrow> byte \<Rightarrow> byte list list \<Rightarrow> c_fault + store_call list" where
  "import_deletes reg fid delete_type [] = Inr []"
| "import_deletes reg fid delete_type (bin # bins) =
     bind_fault (oxcfxics_fmid_from_source_key reg bin) (\<lambda>fmid.
     bind_fault (import_deletes reg fid delete_type bins) (\<lambda>calls.
       Inr ((case fmid of
               None \<Rightarrow> []
             | Some objectID \<Rightarrow> [Delete_message fid objectID delete_type,
                                  Indexing_del_mid objectID delete_type]) @ calls)))"

text \<open>
  \<^verbatim>\<open>EcDoRpc_RopSyncImportDeletes\<close> (0x74). \<open>DeletePropertyValues\<close> is the request's
  \<^verbatim>\<open>PropertyValues\<close>.
\<close>

definition RopSyncImportDeletes_body ::
  "rop_consts \<Rightarrow> ('r, 'e) store_env_scheme \<Rightarrow> 'r handles_ctx
     \<Rightarrow> SyncImportDeletes_req EcDoRpc_MAPI_REQ \<Rightarrow> (byte \<Rightarrow> 32 word) \<Rightarrow> 16 word
     \<Rightarrow> c_fault + 'r rpc_out" where
  "RopSyncImportDeletes_body F E ctx mapi_req handles sz =
     (let repl = reply_to mapi_req;
          synccontext_handle_id = handles (handle_idx mapi_req);
          finish = (\<lambda>repl calls. rpc_end E RopSyncImportDeletes repl ctx handles sz calls)
      in case find_synccontext ctx synccontext_handle_id of
           None \<Rightarrow> finish (repl\<lparr>error_code := MAPI_E_INVALID_OBJECT\<rparr>) []
         | Some (parent, ms, sc) \<Rightarrow>
             (let request = u_req mapi_req in
              if Flags request AND SyncImportDeletes_Hierarchy F \<noteq> 0
              then finish (repl\<lparr>error_code := MAPI_E_INVALID_OBJECT\<rparr>) []
              else
                (let delete_type =
                       (if Flags request AND SyncImportDeletes_HardDelete F \<noteq> 0
                        then MAPISTORE_PERMANENT_DELETE F else MAPISTORE_SOFT_DELETE F)
                 in if \<not> ms then finish (repl\<lparr>error_code := MAPI_E_INVALID_OBJECT\<rparr>) []
                    else
                      bind_fault (lpProps_MVbin (DeletePropertyValues request) 0) (\<lambda>object_array.
                      bind_fault (import_deletes (registry E) (folderID parent) delete_type
                                    object_array) (\<lambda>calls.
                        finish repl calls)))))"

definition EcDoRpc_RopSyncImportDeletes ::
  "rop_consts \<Rightarrow> ('r, 'e) store_env_scheme \<Rightarrow> 'r handles_ctx option
     \<Rightarrow> SyncImportDeletes_req EcDoRpc_MAPI_REQ option \<Rightarrow> bool
     \<Rightarrow> (byte \<Rightarrow> 32 word) option \<Rightarrow> 16 word option
     \<Rightarrow> c_fault + MAPISTATUS \<times> 'r rpc_out option" where
  "EcDoRpc_RopSyncImportDeletes F E = rpc_handler (RopSyncImportDeletes_body F E)"

section \<open>Setting up a transfer\<close>

record property_tags_req = new_handle_req +
  PropertyTags :: "32 word list"

record FastTransferSourceCopyTo_req = property_tags_req +
  Level :: byte

text \<open>
  \<^verbatim>\<open>EcDoRpc_RopFastTransferSourceCopyTo\<close> (0x4d). The object behind the handle is
  used whatever its type, NULL included. The new handle is in the table from
  \<^verbatim>\<open>mapi_handles_add\<close> on, also when the transfer context cannot be made.
\<close>

definition RopFastTransferSourceCopyTo_body ::
  "mapi_consts \<Rightarrow> ('r, 'e) store_env_scheme \<Rightarrow> 'r handles_ctx
     \<Rightarrow> FastTransferSourceCopyTo_req EcDoRpc_MAPI_REQ \<Rightarrow> (byte \<Rightarrow> 32 word) \<Rightarrow> 16 word
     \<Rightarrow> c_fault + 'r rpc_out" where
  "RopFastTransferSourceCopyTo_body K E ctx mapi_req handles sz =
     (let request = u_req mapi_req;
          repl = \<lparr> repl_opnum = opnum mapi_req, error_code = MAPI_E_SUCCESS,
                   repl_handle_idx = req_handle_idx request, u_repl = Untouched \<rparr>;
          parent_handle_id = handles (handle_idx mapi_req);
          finish = (\<lambda>repl ctx handles.
                      rpc_end E RopFastTransferSourceCopyTo repl ctx handles sz [])
      in case ctx parent_handle_id of
           None \<Rightarrow> finish (repl\<lparr>error_code := MAPI_E_INVALID_OBJECT\<rparr>) ctx handles
         | Some parent \<Rightarrow>
             if Level request > 0
             then finish (repl\<lparr>error_code := MAPI_E_INVALID_OBJECT\<rparr>) ctx handles
             else
               (case emsmdbp_object_get_available_properties E parent of
                  None \<Rightarrow> finish repl ctx handles
                | Some available \<Rightarrow>
                    if available = [] then finish repl ctx handles
                    else
                      (let needed_properties =
                             foldl (SPropTagArray_delete E) available (PropertyTags request)
                       in case emsmdbp_object_get_properties E parent needed_properties of
                            None \<Rightarrow> finish (repl\<lparr>error_code := MAPI_E_INVALID_OBJECT\<rparr>) ctx handles
                          | Some cells \<Rightarrow>
                              bind_fault (row_entries needed_properties cells 0) (\<lambda>entries.
                              bind_fault (oxcfxics_ndr_push_properties K E entries
                                            \<lparr> ndr = [], str_ascii = False, cutmarks_ndr = [] \<rparr>) (\<lambda>s.
                                let object_handle = mapi_handles_add E ctx parent_handle_id;
                                    ctx1 = ctx(object_handle := Some None)
                                in case emsmdbp_object_ftcontext_init E parent of
                                     None \<Rightarrow>
                                       finish (repl\<lparr>error_code := MAPI_E_INVALID_OBJECT\<rparr>)
                                         ctx1 handles
                                   | Some ftcontext \<Rightarrow>
                                       finish repl
                                         (ctx1(object_handle := Some (Some (FtContext_object
                                            (ftcontext
                                               \<lparr> cutmarks := cutmarks_ndr s @ [0xffffffff],
                                                 stream := (stream ftcontext)
                                                   \<lparr>buffer := Some (ndr s)\<rparr> \<rparr>)))))
                                         (handles(repl_handle_idx repl := object_handle)))))))"

definition EcDoRpc_RopFastTransferSourceCopyTo ::
  "mapi_consts \<Rightarrow> ('r, 'e) store_env_scheme \<Rightarrow> 'r handles_ctx option
     \<Rightarrow> FastTransferSourceCopyTo_req EcDoRpc_MAPI_REQ option \<Rightarrow> bool
     \<Rightarrow> (byte \<Rightarrow> 32 word) option \<Rightarrow> 16 word option
     \<Rightarrow> c_fault + MAPISTATUS \<times> 'r rpc_out option" where
  "EcDoRpc_RopFastTransferSourceCopyTo K E = rpc_handler (RopFastTransferSourceCopyTo_body K E)"

subsection \<open>SyncConfigure\<close>

record SyncConfigure_req = property_tags_req +
  SynchronizationType :: byte
  SendOptions :: byte
  SynchronizationFlag :: "16 word"
  SynchronizationExtraFlags :: "32 word"

text \<open>
  What a handler of a folder's handle does first; \<open>None\<close> is the path to
  \<^verbatim>\<open>MAPI_E_INVALID_OBJECT\<close>.
\<close>

definition find_folder :: "'r handles_ctx \<Rightarrow> 32 word \<Rightarrow> folder_object option" where
  "find_folder ctx handle_id =
     (case ctx handle_id of
        Some (Some (Folder_object folder)) \<Rightarrow> Some folder
      | _ \<Rightarrow> None)"

text \<open>The request flags as the handler stores them, line by line.\<close>

definition configured_request :: "rop_consts \<Rightarrow> SyncConfigure_req \<Rightarrow> sync_request" where
  "configured_request F req =
     \<lparr> contents_mode = (SynchronizationType req = Contents F),
       unicode = (SendOptions req AND FastTransfer_Unicode F \<noteq> 0),
       use_cpid = (SendOptions req AND FastTransfer_UseCpid F \<noteq> 0),
       recover_mode = (SendOptions req AND FastTransfer_RecoverMode F \<noteq> 0),
       force_unicode = (SendOptions req AND FastTransfer_ForceUnicode F \<noteq> 0),
       partial_item = (SendOptions req AND FastTransfer_PartialItem F \<noteq> 0),
       no_deletions = (SynchronizationFlag req AND SynchronizationFlag_NoDeletions F \<noteq> 0),
       no_soft_deletions =
         (SynchronizationFlag req AND SynchronizationFlag_NoSoftDeletions F \<noteq> 0),
       ignore_no_longer_in_scope =
         (SynchronizationFlag req AND SynchronizationFlag_NoSoftDeletions F \<noteq> 0),
       read_state = (SynchronizationFlag req AND SynchronizationFlag_ReadState F \<noteq> 0),
       fai = (SynchronizationFlag req AND SynchronizationFlag_FAI F \<noteq> 0),
       normal = (SynchronizationFlag req AND SynchronizationFlag_Normal F \<noteq> 0),
       no_foreign_identifiers =
         (SynchronizationFlag req AND SynchronizationFlag_NoForeignIdentifiers F \<noteq> 0),
       best_body = (SynchronizationFlag req AND SynchronizationFlag_BestBody F \<noteq> 0),
       ignored_specified_on_fai =
         (SynchronizationFlag req AND SynchronizationFlag_IgnoreSpecifiedOnFAI F \<noteq> 0),
       progress = (SynchronizationFlag req AND SynchronizationFlag_Progress F \<noteq> 0),
       request_eid = (SynchronizationExtraFlags req AND Eid F \<noteq> 0),
       request_message_size = (SynchronizationExtraFlags req AND MessageSize F \<noteq> 0),
       request_cn = (SynchronizationExtraFlags req AND Cn F \<noteq> 0),
       order_by_delivery_time =
         (SynchronizationExtraFlags req AND OrderByDeliveryTime F \<noteq> 0) \<rparr>"

text \<open>
  The index into \<^verbatim>\<open>properties_exclusion\<close>, an array of 65536 flags:
  \<^verbatim>\<open>(tag & 0xffff0000) >> 16\<close>, and \<^verbatim>\<open>TAG >> 16\<close> for the named tags.
\<close>

definition prop_id :: "32 word \<Rightarrow> 16 word" where
  "prop_id tag = ucast (drop_bit 16 (tag AND 0xffff0000))"

text \<open>The mandatory properties, in the order in which they are added.\<close>

definition mandatory_properties ::
  "mapi_consts \<Rightarrow> ('r, 'e) store_env_scheme \<Rightarrow> bool \<Rightarrow> 32 word list" where
  "mandatory_properties K E contents =
     foldl (SPropTagArray_add E) []
       ((if contents
         then [PR_MID K, PR_ASSOCIATED K, PR_MESSAGE_SIZE K, PR_CHANGE_NUM K]
         else [PR_PARENT_FID K, PR_FID K])
        @ [PR_CHANGE_KEY K, PR_LAST_MODIFICATION_TIME K, PR_DISPLAY_NAME_UNICODE K])"

text \<open>
  The flags after the loop over the mandatory properties and the nine explicit
  exclusions.
\<close>

definition initial_exclusion ::
  "mapi_consts \<Rightarrow> rop_consts \<Rightarrow> 32 word list \<Rightarrow> 16 word \<Rightarrow> bool" where
  "initial_exclusion K F props =
     foldl (\<lambda>excl tag. excl(prop_id tag := True)) (\<lambda>i. False)
       (props @ [PR_ROW_TYPE F, PR_INSTANCE_KEY F, PR_INSTANCE_NUM F, PR_INST_ID F,
                 PR_FID K, PR_MID K, PR_SOURCE_KEY K, PR_PARENT_SOURCE_KEY K, PR_PARENT_FID K])"

text \<open>
  The loop
  \<^verbatim>\<open>for (j = 0; j < n; j++) { i = (tag[j] & 0xffff0000) >> 16; if (!properties_exclusion[i]) { properties_exclusion[i] = true; \<dots> SPropTagArray_add \<dots> } }\<close>
  over the requested tags (which are added when \<open>include\<close> holds) and over the
  available properties of a table (which are always added).
\<close>

fun add_unexcluded ::
  "('r, 'e) store_env_scheme \<Rightarrow> bool \<Rightarrow> 32 word list \<Rightarrow> (16 word \<Rightarrow> bool) \<times> 32 word list
     \<Rightarrow> (16 word \<Rightarrow> bool) \<times> 32 word list" where
  "add_unexcluded E include [] (excl, props) = (excl, props)"
| "add_unexcluded E include (tag # tags) (excl, props) =
     (if \<not> excl (prop_id tag)
      then add_unexcluded E include tags
             (excl(prop_id tag := True), if include then SPropTagArray_add E props tag else props)
      else add_unexcluded E include tags (excl, props))"

text \<open>
  The counter \<^verbatim>\<open>j\<close> of these loops is a \<^verbatim>\<open>uint16_t\<close>; against a count that is
  a \<^verbatim>\<open>uint32_t\<close> of 65536 or more it wraps around before it reaches the count.
\<close>

definition uint16_loop :: "nat \<Rightarrow> 'a \<Rightarrow> c_fault + 'a" where
  "uint16_loop cValues result = (if cValues < 65536 then Inr result else Inl Never_returns)"

text \<open>
  Whether \<^verbatim>\<open>emsmdbp_folder_open_table\<close> gives a table, and the block that adds the
  available properties of a table of the folder, with its \<^verbatim>\<open>abort()\<close>.
\<close>

definition folder_table_opens :: "folder_object \<Rightarrow> table_type \<Rightarrow> bool" where
  "folder_table_opens folder ttype =
     (case ttype of
        EMSMDBP_TABLE_FOLDER_TYPE \<Rightarrow> hierarchy_table (hierarchy folder) \<noteq> None
      | _ \<Rightarrow> message_tables folder ttype \<noteq> None)"

definition add_available_properties ::
  "('r, 'e) store_env_scheme \<Rightarrow> folder_object \<Rightarrow> table_type \<Rightarrow> (16 word \<Rightarrow> bool) \<times> 32 word list
     \<Rightarrow> c_fault + (16 word \<Rightarrow> bool) \<times> 32 word list" where
  "add_available_properties E folder ttype state =
     (if \<not> folder_table_opens folder ttype then Inl Abort_called
      else case table_available_properties folder ttype of
             None \<Rightarrow> Inr state
           | Some available \<Rightarrow>
               uint16_loop (length available) (add_unexcluded E True available state))"

text \<open>``Building the real properties array'': from the mandatory properties to the end.\<close>

definition configured_properties ::
  "mapi_consts \<Rightarrow> rop_consts \<Rightarrow> ('r, 'e) store_env_scheme \<Rightarrow> folder_object \<Rightarrow> SyncConfigure_req
     \<Rightarrow> sync_request \<Rightarrow> c_fault + 32 word list" where
  "configured_properties K F E folder req flags =
     (let props0 = mandatory_properties K E (contents_mode flags) in
      bind_fault (uint16_loop (length props0) (initial_exclusion K F props0)) (\<lambda>excl0.
      let include_props =
            (SynchronizationFlag req AND SynchronizationFlag_OnlySpecifiedProperties F \<noteq> 0);
          (excl1, props1) = add_unexcluded E include_props (PropertyTags req) (excl0, props0);
          excl2 = (if \<not> include_props
                      \<and> SynchronizationFlag req AND SynchronizationFlag_BestBody F \<noteq> 0
                   then excl1(prop_id (PR_BODY_HTML F) := False,
                              prop_id (PR_BODY_UNICODE F) := False)
                   else excl1)
      in
      if include_props then Inr props1
      else if contents_mode flags then
        bind_fault
          (if normal flags
           then add_available_properties E folder EMSMDBP_TABLE_MESSAGE_TYPE (excl2, props1)
           else Inr (excl2, props1)) (\<lambda>state.
        bind_fault
          (if fai flags
           then add_available_properties E folder EMSMDBP_TABLE_FAI_TYPE state
           else Inr state) (\<lambda>(excl, props). Inr props))
      else
        bind_fault (add_available_properties E folder EMSMDBP_TABLE_FOLDER_TYPE (excl2, props1))
          (\<lambda>(excl, props). Inr props)))"

text \<open>
  \<^verbatim>\<open>EcDoRpc_RopSyncConfigure\<close> (0x70). A NULL from
  \<^verbatim>\<open>emsmdbp_object_synccontext_init\<close> is followed at once.
\<close>

definition RopSyncConfigure_body ::
  "mapi_consts \<Rightarrow> rop_consts \<Rightarrow> ('r, 'e) store_env_scheme \<Rightarrow> 'r handles_ctx
     \<Rightarrow> SyncConfigure_req EcDoRpc_MAPI_REQ \<Rightarrow> (byte \<Rightarrow> 32 word) \<Rightarrow> 16 word
     \<Rightarrow> c_fault + 'r rpc_out" where
  "RopSyncConfigure_body K F E ctx mapi_req handles sz =
     (let request = u_req mapi_req;
          repl = \<lparr> repl_opnum = opnum mapi_req, error_code = MAPI_E_SUCCESS,
                   repl_handle_idx = req_handle_idx request, u_repl = Untouched \<rparr>;
          folder_handle = handles (handle_idx mapi_req);
          finish = (\<lambda>repl ctx handles. rpc_end E RopSyncConfigure repl ctx handles sz [])
      in case find_folder ctx folder_handle of
           None \<Rightarrow> finish (repl\<lparr>error_code := MAPI_E_INVALID_OBJECT\<rparr>) ctx handles
         | Some folder \<Rightarrow>
             (case emsmdbp_object_synccontext_init E folder of
                None \<Rightarrow> Inl Bad_pointer
              | Some sc \<Rightarrow>
                  (let flags = configured_request F request in
                   if unicode flags
                      \<and> \<not> (SynchronizationFlag request AND SynchronizationFlag_Unicode F \<noteq> 0)
                   then finish (repl\<lparr>error_code := MAPI_E_INVALID_PARAMETER\<rparr>) ctx handles
                   else
                     bind_fault (configured_properties K F E folder request flags) (\<lambda>props.
                       let synccontext_rec = mapi_handles_add E ctx folder_handle
                       in finish repl
                            (ctx(synccontext_rec := Some (Some (SyncContext_object folder
                               (synccontext_is_mapistore E folder)
                               (sc\<lparr>request := flags, properties := props\<rparr>)))))
                            (handles(repl_handle_idx repl := synccontext_rec))))))"

definition EcDoRpc_RopSyncConfigure ::
  "mapi_consts \<Rightarrow> rop_consts \<Rightarrow> ('r, 'e) store_env_scheme \<Rightarrow> 'r handles_ctx option
     \<Rightarrow> SyncConfigure_req EcDoRpc_MAPI_REQ option \<Rightarrow> bool
     \<Rightarrow> (byte \<Rightarrow> 32 word) option \<Rightarrow> 16 word option
     \<Rightarrow> c_fault + MAPISTATUS \<times> 'r rpc_out option" where
  "EcDoRpc_RopSyncConfigure K F E = rpc_handler (RopSyncConfigure_body K F E)"

subsection \<open>Collector, replica ids and the stubs\<close>

record SyncOpenCollector_req = new_handle_req +
  IsContentsCollector :: byte

text \<open>\<^verbatim>\<open>EcDoRpc_RopSyncOpenCollector\<close> (0x7e).\<close>

definition RopSyncOpenCollector_body ::
  "('r, 'e) store_env_scheme \<Rightarrow> 'r handles_ctx
     \<Rightarrow> SyncOpenCollector_req EcDoRpc_MAPI_REQ \<Rightarrow> (byte \<Rightarrow> 32 word) \<Rightarrow> 16 word
     \<Rightarrow> c_fault + 'r rpc_out" where
  "RopSyncOpenCollector_body E ctx mapi_req handles sz =
     (let req = u_req mapi_req;
          repl = \<lparr> repl_opnum = opnum mapi_req, error_code = MAPI_E_SUCCESS,
                   repl_handle_idx = req_handle_idx req, u_repl = Untouched \<rparr>;
          folder_handle = handles (handle_idx mapi_req);
          finish = (\<lambda>repl ctx handles. rpc_end E RopSyncOpenCollector repl ctx handles sz [])
      in case find_folder ctx folder_handle of
           None \<Rightarrow> finish (repl\<lparr>error_code := MAPI_E_INVALID_OBJECT\<rparr>) ctx handles
         | Some folder \<Rightarrow>
             (let synccontext_rec = mapi_handles_add E ctx folder_handle
              in case emsmdbp_object_synccontext_init E folder of
                   None \<Rightarrow> Inl Bad_pointer
                 | Some sc \<Rightarrow>
                     finish repl
                       (ctx(synccontext_rec := Some (Some (SyncContext_object folder
                          (synccontext_is_mapistore E folder)
                          (sc\<lparr>is_collector := True,
                               request := (request sc)
                                 \<lparr>contents_mode := (IsContentsCollector req \<noteq> 0)\<rparr>\<rparr>)))))
                       (handles(repl_handle_idx repl := synccontext_rec))))"

definition EcDoRpc_RopSyncOpenCollector ::
  "('r, 'e) store_env_scheme \<Rightarrow> 'r handles_ctx option
     \<Rightarrow> SyncOpenCollector_req EcDoRpc_MAPI_REQ option \<Rightarrow> bool
     \<Rightarrow> (byte \<Rightarrow> 32 word) option \<Rightarrow> 16 word option
     \<Rightarrow> c_fault + MAPISTATUS \<times> 'r rpc_out option" where
  "EcDoRpc_RopSyncOpenCollector E = rpc_handler (RopSyncOpenCollector_body E)"

text \<open>
  \<^verbatim>\<open>EcDoRpc_RopGetLocalReplicaIds\<close> (0x7f); the request is its \<^verbatim>\<open>IdCount\<close>.
  \<^verbatim>\<open>ReplGuid\<close> is written only when replica id 1 resolves.
\<close>

definition RopGetLocalReplicaIds_body ::
  "('r, 'e) store_env_scheme \<Rightarrow> 'r handles_ctx
     \<Rightarrow> 32 word EcDoRpc_MAPI_REQ \<Rightarrow> (byte \<Rightarrow> 32 word) \<Rightarrow> 16 word
     \<Rightarrow> c_fault + 'r rpc_out" where
  "RopGetLocalReplicaIds_body E ctx mapi_req handles sz =
     (let repl = reply_to mapi_req;
          handle_id = handles (handle_idx mapi_req)
      in case ctx handle_id of
           None \<Rightarrow> rpc_end E RopGetLocalReplicaIds (repl\<lparr>error_code := MAPI_E_INVALID_OBJECT\<rparr>)
                     ctx handles sz []
         | Some data \<Rightarrow>
             (let IdCount = u_req mapi_req;
                  new_id = openchangedb_reserve_fmid_range E (ucast IdCount)
              in rpc_end E RopGetLocalReplicaIds
                   (repl\<lparr>u_repl := GetLocalReplicaIds_repl
                                      (emsmdbp_replid_to_guid (registry E) 0x0001)
                                      (id_bytes 6 (drop_bit 16 new_id))\<rparr>)
                   ctx handles sz [Reserve_fmid_range (ucast IdCount)]))"

definition EcDoRpc_RopGetLocalReplicaIds ::
  "('r, 'e) store_env_scheme \<Rightarrow> 'r handles_ctx option
     \<Rightarrow> 32 word EcDoRpc_MAPI_REQ option \<Rightarrow> bool
     \<Rightarrow> (byte \<Rightarrow> 32 word) option \<Rightarrow> 16 word option
     \<Rightarrow> c_fault + MAPISTATUS \<times> 'r rpc_out option" where
  "EcDoRpc_RopGetLocalReplicaIds E = rpc_handler (RopGetLocalReplicaIds_body E)"

text \<open>
  The three stubs: \<^verbatim>\<open>EcDoRpc_RopSyncImportMessageMove\<close> (0x78),
  \<^verbatim>\<open>EcDoRpc_RopSyncImportReadStateChanges\<close> (0x80) and
  \<^verbatim>\<open>EcDoRpc_RopSetLocalReplicaMidsetDeleted\<close> (0x93). Each ends with
  \<^verbatim>\<open>handles[mapi_repl->handle_idx] = handles[mapi_req->handle_idx]\<close>.
\<close>

definition stub_body ::
  "('r, 'e) rpc_env_scheme \<Rightarrow> rop \<Rightarrow> reply_union \<Rightarrow> 'r handles_ctx
     \<Rightarrow> 'u EcDoRpc_MAPI_REQ \<Rightarrow> (byte \<Rightarrow> 32 word) \<Rightarrow> 16 word \<Rightarrow> c_fault + 'r rpc_out" where
  "stub_body E r response ctx mapi_req handles sz =
     (let repl = (reply_to mapi_req)\<lparr>u_repl := response\<rparr>
      in rpc_end E r repl ctx
           (handles(repl_handle_idx repl := handles (handle_idx mapi_req))) sz [])"

definition EcDoRpc_RopSyncImportMessageMove ::
  "('r, 'e) rpc_env_scheme \<Rightarrow> 'r handles_ctx option \<Rightarrow> 'u EcDoRpc_MAPI_REQ option \<Rightarrow> bool
     \<Rightarrow> (byte \<Rightarrow> 32 word) option \<Rightarrow> 16 word option
     \<Rightarrow> c_fault + MAPISTATUS \<times> 'r rpc_out option" where
  "EcDoRpc_RopSyncImportMessageMove E =
     rpc_handler (stub_body E RopSyncImportMessageMove (MessageId_repl 0))"

definition EcDoRpc_RopSyncImportReadStateChanges ::
  "('r, 'e) rpc_env_scheme \<Rightarrow> 'r handles_ctx option \<Rightarrow> 'u EcDoRpc_MAPI_REQ option \<Rightarrow> bool
     \<Rightarrow> (byte \<Rightarrow> 32 word) option \<Rightarrow> 16 word option
     \<Rightarrow> c_fault + MAPISTATUS \<times> 'r rpc_out option" where
  "EcDoRpc_RopSyncImportReadStateChanges E =
     rpc_handler (stub_body E RopSyncImportReadStateChanges Untouched)"

definition EcDoRpc_RopSetLocalReplicaMidsetDeleted ::
  "('r, 'e) rpc_env_scheme \<Rightarrow> 'r handles_ctx option \<Rightarrow> 'u EcDoRpc_MAPI_REQ option \<Rightarrow> bool
     \<Rightarrow> (byte \<Rightarrow> 32 word) option \<Rightarrow> 16 word option
     \<Rightarrow> c_fault + MAPISTATUS \<times> 'r rpc_out option" where
  "EcDoRpc_RopSetLocalReplicaMidsetDeleted E =
     rpc_handler (stub_body E RopSetLocalReplicaMidsetDeleted Untouched)"

section \<open>Transfer state\<close>

definition deref_uint32 :: "prop_value option \<Rightarrow> c_fault + 32 word" where
  "deref_uint32 p = (case p of Some (V_uint32 w) \<Rightarrow> Inr w | _ \<Rightarrow> Inl Bad_pointer)"

text \<open>
  The count query that opens \<^verbatim>\<open>oxcfxics_fill_transfer_state_arrays\<close>:
  \<^verbatim>\<open>abort()\<close> unless the property came back with status 0; the result is
  \<^verbatim>\<open>nr_eid\<close>.
\<close>

definition count_query :: "cell option \<Rightarrow> c_fault + 32 word" where
  "count_query counted =
     (case counted of
        None \<Rightarrow> Inl Abort_called
      | Some (p, rv) \<Rightarrow> if rv = 0 then deref_uint32 p else Inl Abort_called)"

text \<open>
  The body of the row loop of \<^verbatim>\<open>oxcfxics_fill_transfer_state_arrays\<close> for a row
  that has data, up to the recursive call. The columns are the id and the last
  modification time, cells 0 and 1.
\<close>

definition fill_transfer_state_row ::
  "('r, 'e) emsmdbp_env_scheme \<Rightarrow> table_row \<Rightarrow> GUID option \<Rightarrow> oxcfxics_sync_data
     \<Rightarrow> c_fault + GUID \<times> oxcfxics_sync_data" where
  "fill_transfer_state_row E row replica_guid_var sd =
     bind_fault (get_cell row 0) (\<lambda>(eid_p, eid_rv).
     bind_fault (deref_uint64 eid_p) (\<lambda>eidv.
     bind_fault (replid_to_guid_var E replica_guid_var eidv) (\<lambda>guid.
     let s1 = sd\<lparr>eid_set := RAWIDSET_push_glob (eid_set sd) guid (drop_bit 16 eidv)\<rparr> in
     bind_fault (get_cell row 1) (\<lambda>(lm_p, lm_rv).
     bind_fault
       (if lm_rv \<noteq> 0 then Inr oc_version_time
        else bind_fault (deref_FILETIME lm_p) (\<lambda>(lo, hi).
               let nt_time = push_bit 32 (ucast hi :: 64 word) OR ucast lo
               in Inr (ucast (nt_time_to_unix E nt_time) :: 32 word))) (\<lambda>unix_time0.
     let unix_time = (if unix_time0 < oc_version_time then oc_version_time else unix_time0);
         cn = change_number E eidv unix_time
     in Inr (guid,
             s1\<lparr>sd_cnset_seen := RAWIDSET_push_glob (sd_cnset_seen s1) (replica_guid s1) cn\<rparr>))))))"

text \<open>
  \<^verbatim>\<open>oxcfxics_fill_transfer_state_arrays\<close> on a message table: the count query, and
  when the count is not 0 the loop over the rows of the table; a row without data is
  passed over.
\<close>

fun fill_message_rows ::
  "('r, 'e) emsmdbp_env_scheme \<Rightarrow> stored_row list \<Rightarrow> GUID option \<Rightarrow> oxcfxics_sync_data
     \<Rightarrow> c_fault + oxcfxics_sync_data" where
  "fill_message_rows E [] replica_guid_var sd = Inr sd"
| "fill_message_rows E (r # rs) replica_guid_var sd =
     (case r (sd_properties sd) of
        None \<Rightarrow> fill_message_rows E rs replica_guid_var sd
      | Some row \<Rightarrow>
          (case fill_transfer_state_row E row replica_guid_var sd of
             Inl f \<Rightarrow> Inl f
           | Inr (guid, sd1) \<Rightarrow> fill_message_rows E rs (Some guid) sd1))"

definition fill_transfer_state_messages ::
  "('r, 'e) emsmdbp_env_scheme \<Rightarrow> table_type \<Rightarrow> folder_object \<Rightarrow> oxcfxics_sync_data
     \<Rightarrow> c_fault + oxcfxics_sync_data" where
  "fill_transfer_state_messages E ttype folder sd =
     bind_fault (count_query (message_counts folder ttype)) (\<lambda>nr_eid.
       if nr_eid = 0 then Inr sd
       else case message_tables folder ttype of
              None \<Rightarrow> Inl Abort_called
            | Some rows \<Rightarrow> fill_message_rows E rows None sd)"

text \<open>
  The same on the hierarchy table, where after each row that has data the function
  calls itself on the folder of the row.
\<close>

fun fill_transfer_state_folders ::
  "('r, 'e) emsmdbp_env_scheme \<Rightarrow> folder_tree \<Rightarrow> oxcfxics_sync_data
     \<Rightarrow> c_fault + oxcfxics_sync_data"
and fill_folder_rows ::
  "('r, 'e) emsmdbp_env_scheme \<Rightarrow> (stored_row \<times> folder_tree) list \<Rightarrow> GUID option
     \<Rightarrow> oxcfxics_sync_data \<Rightarrow> c_fault + oxcfxics_sync_data" where
  "fill_transfer_state_folders E (Folder_node counted table) sd =
     (case count_query counted of
        Inl f \<Rightarrow> Inl f
      | Inr nr_eid \<Rightarrow>
          if nr_eid = 0 then Inr sd
          else case table of
                 None \<Rightarrow> Inl Abort_called
               | Some rows \<Rightarrow> fill_folder_rows E rows None sd)"
| "fill_folder_rows E [] replica_guid_var sd = Inr sd"
| "fill_folder_rows E ((r, subfolder) # rest) replica_guid_var sd =
     (case r (sd_properties sd) of
        None \<Rightarrow> fill_folder_rows E rest replica_guid_var sd
      | Some row \<Rightarrow>
          (case fill_transfer_state_row E row replica_guid_var sd of
             Inl f \<Rightarrow> Inl f
           | Inr (guid, sd1) \<Rightarrow>
               (case fill_transfer_state_folders E subfolder sd1 of
                  Inl f \<Rightarrow> Inl f
                | Inr sd2 \<Rightarrow> fill_folder_rows E rest (Some guid) sd2)))"

text \<open>
  The sync data of \<^verbatim>\<open>oxcfxics_ndr_push_transfer_state\<close>, whose stream is the
  caller's \<open>ndr\<close>, a buffer that its one caller has just set up; of \<^verbatim>\<open>prop_index\<close> only \<^verbatim>\<open>eid\<close> and
  \<^verbatim>\<open>last_modification_time\<close> are set.
\<close>

definition transfer_state_sync_data ::
  "mapi_consts \<Rightarrow> ('r, 'e) emsmdbp_env_scheme \<Rightarrow> bool \<Rightarrow> byte list \<Rightarrow> oxcfxics_sync_data" where
  "transfer_state_sync_data K E contents stream_bytes =
     \<lparr> ndr = stream_bytes, str_ascii = False, cutmarks_ndr = [],
       replica_guid = openchangedb_get_MailboxReplica E,
       prop_index =
         \<lparr> parent_fid = 0, eid = 0, precedessor_change_list = 0, last_modification_time = 1,
           display_name = 0, associated = 0, message_size = 0 \<rparr>,
       sd_properties = [if contents then PR_MID K else PR_FID K, PR_LAST_MODIFICATION_TIME K],
       eid_set = RAWIDSET_make False,
       sd_cnset_seen = RAWIDSET_make True \<rparr>"

text \<open>
  \<^verbatim>\<open>oxcfxics_ndr_push_transfer_state\<close>: the bytes pushed onto \<open>ndr\<close> and the sync
  context with its merged sets.
\<close>

definition oxcfxics_ndr_push_transfer_state ::
  "mapi_consts \<Rightarrow> ('r, 'e) emsmdbp_env_scheme \<Rightarrow> folder_object \<Rightarrow> 'r emsmdbp_object_synccontext
     \<Rightarrow> c_fault + byte list \<times> 'r emsmdbp_object_synccontext" where
  "oxcfxics_ndr_push_transfer_state K E parent sc =
     (let contents = contents_mode (request sc);
          sd0 = transfer_state_sync_data K E contents (u32_le (PR_INCR_SYNC_STATE_BEGIN K))
      in bind_fault
           (if contents then
              bind_fault
                (if normal (request sc)
                 then fill_transfer_state_messages E EMSMDBP_TABLE_MESSAGE_TYPE parent sd0
                 else Inr sd0) (\<lambda>sd1.
                if fai (request sc)
                then fill_transfer_state_messages E EMSMDBP_TABLE_FAI_TYPE parent sd1
                else Inr sd1)
            else fill_transfer_state_folders E (hierarchy parent) sd0) (\<lambda>sd.
         let seen = IDSET_merge_idsets E (cnset_seen sc)
                      (RAWIDSET_convert_to_idset E (sd_cnset_seen sd));
             s2 = ndr_push (u32_le (PidTagCnsetSeen K) @ ndr_push_idset E seen) sd;
             s3 = (if contents \<and> fai (request sc)
                   then ndr_push (u32_le (PidTagCnsetSeenFAI K) @ ndr_push_idset E seen) s2
                   else s2);
             given = IDSET_merge_idsets E (idset_given sc)
                       (RAWIDSET_convert_to_idset E (eid_set s3));
             s4 = ndr_push (u32_le (PidTagIdsetGiven K) @ ndr_push_idset E given) s3;
             s5 = (if contents \<and> read_state (request sc)
                   then ndr_push (u32_le (PidTagCnsetRead K) @ ndr_push_idset E seen) s4
                   else s4);
             s6 = ndr_push (u32_le (PR_INCR_SYNC_STATE_END K)) s5
         in Inr (ndr s6, sc\<lparr>cnset_seen := seen, idset_given := given\<rparr>)))"

text \<open>
  \<^verbatim>\<open>EcDoRpc_RopSyncGetTransferState\<close> (0x82). A NULL from
  \<^verbatim>\<open>emsmdbp_object_ftcontext_init\<close> is followed at once.
\<close>

definition RopSyncGetTransferState_body ::
  "mapi_consts \<Rightarrow> ('r, 'e) store_env_scheme \<Rightarrow> 'r handles_ctx
     \<Rightarrow> new_handle_req EcDoRpc_MAPI_REQ \<Rightarrow> (byte \<Rightarrow> 32 word) \<Rightarrow> 16 word
     \<Rightarrow> c_fault + 'r rpc_out" where
  "RopSyncGetTransferState_body K E ctx mapi_req handles sz =
     (let repl = \<lparr> repl_opnum = opnum mapi_req, error_code = MAPI_E_SUCCESS,
                   repl_handle_idx = req_handle_idx (u_req mapi_req), u_repl = Untouched \<rparr>;
          synccontext_handle_id = handles (handle_idx mapi_req)
      in case find_synccontext ctx synccontext_handle_id of
           None \<Rightarrow> rpc_end E RopSyncGetTransferState (repl\<lparr>error_code := MAPI_E_INVALID_OBJECT\<rparr>)
                     ctx handles sz []
         | Some (parent, ms, sc) \<Rightarrow>
             bind_fault (oxcfxics_ndr_push_transfer_state K E parent sc) (\<lambda>(stream_bytes, sc').
               let ctx1 = ctx(synccontext_handle_id
                                := Some (Some (SyncContext_object parent ms sc')));
                   ftcontext_handle = mapi_handles_add E ctx1 synccontext_handle_id
               in case emsmdbp_object_ftcontext_init E
                         (Some (SyncContext_object parent ms sc')) of
                    None \<Rightarrow> Inl Bad_pointer
                  | Some ftcontext \<Rightarrow>
                      rpc_end E RopSyncGetTransferState repl
                        (ctx1(ftcontext_handle := Some (Some (FtContext_object
                           (ftcontext\<lparr> stream := (stream ftcontext)\<lparr>buffer := Some stream_bytes\<rparr>,
                                       cutmarks := [0xffffffff] \<rparr>)))))
                        (handles(repl_handle_idx repl := ftcontext_handle)) sz []))"

definition EcDoRpc_RopSyncGetTransferState ::
  "mapi_consts \<Rightarrow> ('r, 'e) store_env_scheme \<Rightarrow> 'r handles_ctx option
     \<Rightarrow> new_handle_req EcDoRpc_MAPI_REQ option \<Rightarrow> bool
     \<Rightarrow> (byte \<Rightarrow> 32 word) option \<Rightarrow> 16 word option
     \<Rightarrow> c_fault + MAPISTATUS \<times> 'r rpc_out option" where
  "EcDoRpc_RopSyncGetTransferState K E = rpc_handler (RopSyncGetTransferState_body K E)"

section \<open>Notions used to state the properties\<close>

text \<open>
  The cut-mark loop starts at \<^verbatim>\<open>next_cutmark_ptr\<close> (as a \<^verbatim>\<open>uint16_t\<close>) and must
  meet the sentinel before its 16-bit index wraps around.
\<close>

definition sentinel_reachable :: "'a emsmdbp_object_ftcontext_scheme \<Rightarrow> bool" where
  "sentinel_reachable c \<longleftrightarrow>
     0xffffffff \<in> set (take (65536 - next_cutmark_ptr c mod 65536)
                          (drop (next_cutmark_ptr c mod 65536) (cutmarks c)))"

text \<open>The buffer size a request asks for, after the substitution for \<open>0xBABE\<close>.\<close>

definition effective_buffer_size :: "FastTransferSourceGetBuffer_req EcDoRpc_MAPI_REQ \<Rightarrow> 16 word" where
  "effective_buffer_size q =
     (if BufferSize (u_req q) = 0xBABE then MaximumBufferSize (u_req q) else BufferSize (u_req q))"

text \<open>
  The stream, cut-marks and counters with which the first
  \<^verbatim>\<open>FastTransferSourceGetBuffer\<close> on an object starts: those of a transfer context,
  those of a sync context that has its stream, or those that the producer stores on a
  sync context that has none yet. \<open>None\<close> for any other object, and when the producer
  ends in a fault.
\<close>

definition transfer_start ::
  "mapi_consts \<Rightarrow> ('r, 'e) rpc_env_scheme \<Rightarrow> 'r emsmdbp_object \<Rightarrow> emsmdbp_object_ftcontext option" where
  "transfer_start K E object =
     (case object of
        FtContext_object ftcontext \<Rightarrow> Some ftcontext
      | SyncContext_object parent ms sc \<Rightarrow>
          if buffer (stream sc) = None then
            (case (if contents_mode (request sc)
                   then oxcfxics_prepare_synccontext_with_messageChange K E parent sc
                   else oxcfxics_prepare_synccontext_with_folderChange K E parent sc) of
               Inl f \<Rightarrow> None
             | Inr prepared \<Rightarrow> Some (emsmdbp_object_ftcontext.truncate prepared))
          else Some (emsmdbp_object_ftcontext.truncate sc)
      | _ \<Rightarrow> None)"

text \<open>
  Whether a call on the object computes \<^verbatim>\<open>total_steps\<close>: a transfer context at
  position 0, a sync context that has no stream yet.
\<close>

definition counts_steps :: "'r emsmdbp_object \<Rightarrow> bool" where
  "counts_steps object =
     (case object of
        FtContext_object ftcontext \<Rightarrow> position (stream ftcontext) = 0
      | SyncContext_object parent ms sc \<Rightarrow> buffer (stream sc) = None
      | _ \<Rightarrow> False)"

text \<open>
  A sequence of \<^verbatim>\<open>FastTransferSourceGetBuffer\<close> calls, each with non-NULL arguments,
  on the state that the call before it left: the status and the reply of each call.
\<close>

fun getbuffer_calls ::
  "mapi_consts \<Rightarrow> ('r, 'e) rpc_env_scheme \<Rightarrow> 'r handles_ctx \<Rightarrow> (byte \<Rightarrow> 32 word) \<Rightarrow> 16 word
     \<Rightarrow> FastTransferSourceGetBuffer_req EcDoRpc_MAPI_REQ list
     \<Rightarrow> c_fault + (MAPISTATUS \<times> EcDoRpc_MAPI_REPL option) list" where
  "getbuffer_calls K E ctx handles sz [] = Inr []"
| "getbuffer_calls K E ctx handles sz (q # qs) =
     (case EcDoRpc_RopFastTransferSourceGetBuffer K E (Some ctx) (Some q) True (Some handles) (Some sz) of
        Inl f \<Rightarrow> Inl f
      | Inr (status, None) \<Rightarrow> Inr [(status, None)]
      | Inr (status, Some out) \<Rightarrow>
          (case getbuffer_calls K E (out_ctx out) (out_handles out) (out_size out) qs of
             Inl f \<Rightarrow> Inl f
           | Inr rest \<Rightarrow> Inr ((status, Some (out_repl out)) # rest)))"

text \<open>The \<^verbatim>\<open>FastTransferSourceGetBuffer\<close> member of a reply, when it was written.\<close>

definition get_buffer_reply ::
  "MAPISTATUS \<times> EcDoRpc_MAPI_REPL option \<Rightarrow> FastTransferSourceGetBuffer_repl option" where
  "get_buffer_reply call =
     (case snd call of
        None \<Rightarrow> None
      | Some repl \<Rightarrow> (case u_repl repl of GetBuffer_repl r \<Rightarrow> Some r | _ \<Rightarrow> None))"

text \<open>
  The part that the two branches of the \<^verbatim>\<open>switch\<close> share: one more step, the
  size of the chunk, the read and the reply.
\<close>

definition chunk_step ::
  "'a emsmdbp_object_ftcontext_scheme \<Rightarrow> nat \<Rightarrow> 16 word
     \<Rightarrow> c_fault + FastTransferSourceGetBuffer_repl \<times> 'a emsmdbp_object_ftcontext_scheme" where
  "chunk_step c seen_position buffer_size =
     (let c2 = c\<lparr>steps := steps c + 1\<rparr>
      in bind_fault (cut_buffer_size c2 seen_position buffer_size)
           (\<lambda>buffer_size. Inr (read_chunk c2 buffer_size)))"

text \<open>
  Chunks that lie in \<open>data\<close> one after the other from offset \<open>p\<close> on: each starts
  where the one before it ended, and is marked \<^verbatim>\<open>Done\<close> exactly when it ends where
  the data ends.
\<close>

fun chunks_from :: "byte list \<Rightarrow> nat \<Rightarrow> FastTransferSourceGetBuffer_repl list \<Rightarrow> bool" where
  "chunks_from data p [] = True"
| "chunks_from data p (r # rs) =
     (TransferBuffer r = take (length (TransferBuffer r)) (drop p data)
      \<and> (TransferStatus r = TransferStatus_Done) = (p + length (TransferBuffer r) = length data)
      \<and> chunks_from data (p + length (TransferBuffer r)) rs)"

text \<open>Such chunks make progress when each is empty only if nothing is left.\<close>

fun chunks_progress :: "byte list \<Rightarrow> nat \<Rightarrow> FastTransferSourceGetBuffer_repl list \<Rightarrow> bool" where
  "chunks_progress data p [] = True"
| "chunks_progress data p (r # rs) =
     ((TransferBuffer r = [] \<longrightarrow> length data \<le> p)
      \<and> chunks_progress data (p + length (TransferBuffer r)) rs)"

text \<open>The spec's \<open>ceil(len / size)\<close>.\<close>

definition ceil_div :: "nat \<Rightarrow> nat \<Rightarrow> nat" where
  "ceil_div a b = (a + b - 1) div b"

text \<open>The \<^verbatim>\<open>TotalStepCount\<close> that a call reports.\<close>

definition reported_total_steps :: "c_fault + MAPISTATUS \<times> 'r rpc_out option \<Rightarrow> nat option" where
  "reported_total_steps result =
     (case result of
        Inr (status, Some out) \<Rightarrow>
          (case u_repl (out_repl out) of
             GetBuffer_repl r \<Rightarrow> Some (TotalStepCount r)
           | _ \<Rightarrow> None)
      | _ \<Rightarrow> None)"

text \<open>
  What one call does to the stream state \<open>t\<close> of the object it is made on, with the
  reply \<open>r\<close> it gives: \<open>restart\<close> says whether the call computes
  \<^verbatim>\<open>total_steps\<close>.
\<close>

definition step_result ::
  "emsmdbp_object_ftcontext \<Rightarrow> bool \<Rightarrow> 16 word \<Rightarrow> FastTransferSourceGetBuffer_repl
     \<Rightarrow> emsmdbp_object_ftcontext \<Rightarrow> bool" where
  "step_result t restart bs r t' \<longleftrightarrow>
     buffer (stream t') = buffer (stream t)
     \<and> cutmarks t' = cutmarks t
     \<and> next_cutmark_ptr t' = next_cutmark_ptr t
     \<and> total_steps t' = (if restart then length (stream_data (stream t)) div unat bs + 1
                         else total_steps t)
     \<and> TotalStepCount r = total_steps t'
     \<and> position (stream t') = position (stream t) + length (TransferBuffer r)
     \<and> TransferBuffer r =
           take (length (TransferBuffer r)) (drop (position (stream t)) (stream_data (stream t)))
     \<and> (TransferStatus r = TransferStatus_Done) =
           (position (stream t') = length (stream_data (stream t)))"

text \<open>
  What a caller sees of a handler that returned after its sanity checks: the value
  returned and the reply's \<^verbatim>\<open>error_code\<close>; and the object that a handle leads to
  afterwards.
\<close>

definition rpc_status ::
  "c_fault + MAPISTATUS \<times> ('r, 'a) rpc_out_scheme option \<Rightarrow> (MAPISTATUS \<times> MAPISTATUS) option" where
  "rpc_status res =
     (case res of
        Inr (status, Some out) \<Rightarrow> Some (status, error_code (out_repl out))
      | _ \<Rightarrow> None)"

definition object_after ::
  "c_fault + MAPISTATUS \<times> 'r rpc_out option \<Rightarrow> 32 word \<Rightarrow> 'r emsmdbp_object option" where
  "object_after res h =
     (case res of
        Inr (status, Some out) \<Rightarrow> (case out_ctx out h of Some (Some obj) \<Rightarrow> Some obj | _ \<Rightarrow> None)
      | _ \<Rightarrow> None)"

text \<open>
  The three properties that \<^verbatim>\<open>EcDoRpc_RopSyncUploadStateStreamEnd\<close> handles under
  one group of \<^verbatim>\<open>case\<close> labels, and the two facts about the labels that the
  language and the handlers rely on: a \<^verbatim>\<open>switch\<close> has no two equal labels, and no
  state property is 0, the value of \<^verbatim>\<open>state_property\<close> when no upload is pending.
\<close>

definition cnset_properties :: "mapi_consts \<Rightarrow> 32 word set" where
  "cnset_properties K = {PidTagCnsetSeen K, PidTagCnsetSeenFAI K, PidTagCnsetRead K}"

definition state_properties_ok :: "mapi_consts \<Rightarrow> bool" where
  "state_properties_ok K \<longleftrightarrow>
     PidTagIdsetGiven K \<notin> cnset_properties K \<and> 0 \<notin> cnset_properties K \<and> PidTagIdsetGiven K \<noteq> 0"

text \<open>The requests of a state upload on the handle at index \<open>idx\<close>.\<close>

definition begin_request :: "byte \<Rightarrow> 32 word \<Rightarrow> 32 word EcDoRpc_MAPI_REQ" where
  "begin_request idx property = \<lparr> opnum = 0x75, handle_idx = idx, u_req = property \<rparr>"

definition continue_request :: "byte \<Rightarrow> byte list \<Rightarrow> SyncUploadStateStreamContinue_req EcDoRpc_MAPI_REQ" where
  "continue_request idx bytes =
     \<lparr> opnum = 0x76, handle_idx = idx,
       u_req = \<lparr> StreamDataSize = word_of_nat (length bytes), StreamData = bytes \<rparr> \<rparr>"

definition end_request :: "byte \<Rightarrow> unit EcDoRpc_MAPI_REQ" where
  "end_request idx = \<lparr> opnum = 0x77, handle_idx = idx, u_req = () \<rparr>"

text \<open>
  One call after another on the same session: the second is made on what the first
  left behind.
\<close>

definition then_rpc ::
  "c_fault + MAPISTATUS \<times> 'r rpc_out option
     \<Rightarrow> ('r handles_ctx \<Rightarrow> 16 word \<Rightarrow> c_fault + MAPISTATUS \<times> 'r rpc_out option)
     \<Rightarrow> c_fault + MAPISTATUS \<times> 'r rpc_out option" where
  "then_rpc res next_call =
     (case res of
        Inr (status, Some out) \<Rightarrow> next_call (out_ctx out) (out_size out)
      | _ \<Rightarrow> res)"

text \<open>
  A whole state upload: \<^verbatim>\<open>SyncUploadStateStreamBegin\<close> for the property,
  \<^verbatim>\<open>SyncUploadStateStreamContinue\<close> with the bytes, and
  \<^verbatim>\<open>SyncUploadStateStreamEnd\<close>.
\<close>

definition state_upload ::
  "mapi_consts \<Rightarrow> ('r, 'e) rpc_env_scheme \<Rightarrow> (byte \<Rightarrow> 32 word) \<Rightarrow> byte \<Rightarrow> 32 word \<Rightarrow> byte list
     \<Rightarrow> 'r handles_ctx \<Rightarrow> 16 word \<Rightarrow> c_fault + MAPISTATUS \<times> 'r rpc_out option" where
  "state_upload K E handles idx property bytes ctx sz =
     then_rpc
       (then_rpc
          (EcDoRpc_RopSyncUploadStateStreamBegin K E (Some ctx)
             (Some (begin_request idx property)) True (Some handles) (Some sz))
          (\<lambda>ctx sz. EcDoRpc_RopSyncUploadStateStreamContinue E (Some ctx)
             (Some (continue_request idx bytes)) True (Some handles) (Some sz)))
       (\<lambda>ctx sz. EcDoRpc_RopSyncUploadStateStreamEnd K E (Some ctx)
          (Some (end_request idx)) True (Some handles) (Some sz))"

text \<open>A parsed set as it is stored in the change-number slot.\<close>

definition as_single :: "'r idset option \<Rightarrow> 'r idset option" where
  "as_single parsed = map_option (\<lambda>p. p\<lparr>single_flag := True\<rparr>) parsed"

text \<open>
  The end of a contents-mode stream in the spec's words:
  \<^verbatim>\<open>u32 PR_INCR_SYNC_STATE_BEGIN\<close>,
  \<^verbatim>\<open>u32 PidTagCnsetSeen || serialize(merged cnset_seen)\<close>,
  \<^verbatim>\<open>[u32 PidTagCnsetSeenFAI || same serialized bytes]\<close> if FAI,
  \<^verbatim>\<open>u32 PidTagIdsetGiven || serialize(merged idset_given)\<close>,
  \<^verbatim>\<open>[u32 PidTagCnsetRead || same serialized bytes]\<close> if read_state,
  \<^verbatim>\<open>u32 PR_INCR_SYNC_STATE_END\<close>, \<^verbatim>\<open>u32 PR_INCR_SYNC_END\<close>.
\<close>

definition spec_contents_state_block ::
  "mapi_consts \<Rightarrow> ('r, 'e) emsmdbp_env_scheme \<Rightarrow> bool \<Rightarrow> bool \<Rightarrow> 'r idset option \<Rightarrow> 'r idset option
     \<Rightarrow> byte list" where
  "spec_contents_state_block K E with_fai with_read_state merged_cnset_seen merged_idset_given =
     u32_le (PR_INCR_SYNC_STATE_BEGIN K)
     @ u32_le (PidTagCnsetSeen K) @ ndr_push_idset E merged_cnset_seen
     @ (if with_fai then u32_le (PidTagCnsetSeenFAI K) @ ndr_push_idset E merged_cnset_seen else [])
     @ u32_le (PidTagIdsetGiven K) @ ndr_push_idset E merged_idset_given
     @ (if with_read_state then u32_le (PidTagCnsetRead K) @ ndr_push_idset E merged_cnset_seen
        else [])
     @ u32_le (PR_INCR_SYNC_STATE_END K)
     @ u32_le (PR_INCR_SYNC_END K)"

text \<open>
  The C return value of a handler, when it returns; \<open>None\<close> when it does not
  (\<^verbatim>\<open>abort()\<close> or another fault).
\<close>

definition returned_status :: "c_fault + MAPISTATUS \<times> 'o \<Rightarrow> MAPISTATUS option" where
  "returned_status res = (case res of Inl f \<Rightarrow> None | Inr (status, out) \<Rightarrow> Some status)"

text \<open>
  A call of one of the fifteen handlers of the module with non-NULL arguments: the
  request, which selects the handler. The stubs do not look at the member of the request
  union.
\<close>

datatype fxics_call =
    Call_FastTransferSourceCopyTo "FastTransferSourceCopyTo_req EcDoRpc_MAPI_REQ"
  | Call_FastTransferSourceGetBuffer "FastTransferSourceGetBuffer_req EcDoRpc_MAPI_REQ"
  | Call_SyncConfigure "SyncConfigure_req EcDoRpc_MAPI_REQ"
  | Call_SyncImportMessageChange "SyncImportMessageChange_req EcDoRpc_MAPI_REQ"
  | Call_SyncImportHierarchyChange "SyncImportHierarchyChange_req EcDoRpc_MAPI_REQ"
  | Call_SyncImportDeletes "SyncImportDeletes_req EcDoRpc_MAPI_REQ"
  | Call_SyncUploadStateStreamBegin "32 word EcDoRpc_MAPI_REQ"
  | Call_SyncUploadStateStreamContinue "SyncUploadStateStreamContinue_req EcDoRpc_MAPI_REQ"
  | Call_SyncUploadStateStreamEnd "unit EcDoRpc_MAPI_REQ"
  | Call_SyncImportMessageMove "unit EcDoRpc_MAPI_REQ"
  | Call_SyncOpenCollector "SyncOpenCollector_req EcDoRpc_MAPI_REQ"
  | Call_GetLocalReplicaIds "32 word EcDoRpc_MAPI_REQ"
  | Call_SyncImportReadStateChanges "unit EcDoRpc_MAPI_REQ"
  | Call_SyncGetTransferState "new_handle_req EcDoRpc_MAPI_REQ"
  | Call_SetLocalReplicaMidsetDeleted "unit EcDoRpc_MAPI_REQ"

definition fxics_handler ::
  "mapi_consts \<Rightarrow> rop_consts \<Rightarrow> ('r, 'e) store_env_scheme \<Rightarrow> fxics_call \<Rightarrow> 'r handles_ctx
     \<Rightarrow> (byte \<Rightarrow> 32 word) \<Rightarrow> 16 word \<Rightarrow> c_fault + MAPISTATUS \<times> 'r rpc_out option" where
  "fxics_handler K F E call ctx handles sz =
     (case call of
        Call_FastTransferSourceCopyTo q \<Rightarrow>
          EcDoRpc_RopFastTransferSourceCopyTo K E (Some ctx) (Some q) True (Some handles) (Some sz)
      | Call_FastTransferSourceGetBuffer q \<Rightarrow>
          EcDoRpc_RopFastTransferSourceGetBuffer K E (Some ctx) (Some q) True (Some handles) (Some sz)
      | Call_SyncConfigure q \<Rightarrow>
          EcDoRpc_RopSyncConfigure K F E (Some ctx) (Some q) True (Some handles) (Some sz)
      | Call_SyncImportMessageChange q \<Rightarrow>
          EcDoRpc_RopSyncImportMessageChange F E (Some ctx) (Some q) True (Some handles) (Some sz)
      | Call_SyncImportHierarchyChange q \<Rightarrow>
          EcDoRpc_RopSyncImportHierarchyChange E (Some ctx) (Some q) True (Some handles) (Some sz)
      | Call_SyncImportDeletes q \<Rightarrow>
          EcDoRpc_RopSyncImportDeletes F E (Some ctx) (Some q) True (Some handles) (Some sz)
      | Call_SyncUploadStateStreamBegin q \<Rightarrow>
          EcDoRpc_RopSyncUploadStateStreamBegin K E (Some ctx) (Some q) True (Some handles) (Some sz)
      | Call_SyncUploadStateStreamContinue q \<Rightarrow>
          EcDoRpc_RopSyncUploadStateStreamContinue E (Some ctx) (Some q) True (Some handles) (Some sz)
      | Call_SyncUploadStateStreamEnd q \<Rightarrow>
          EcDoRpc_RopSyncUploadStateStreamEnd K E (Some ctx) (Some q) True (Some handles) (Some sz)
      | Call_SyncImportMessageMove q \<Rightarrow>
          EcDoRpc_RopSyncImportMessageMove E (Some ctx) (Some q) True (Some handles) (Some sz)
      | Call_SyncOpenCollector q \<Rightarrow>
          EcDoRpc_RopSyncOpenCollector E (Some ctx) (Some q) True (Some handles) (Some sz)
      | Call_GetLocalReplicaIds q \<Rightarrow>
          EcDoRpc_RopGetLocalReplicaIds E (Some ctx) (Some q) True (Some handles) (Some sz)
      | Call_SyncImportReadStateChanges q \<Rightarrow>
          EcDoRpc_RopSyncImportReadStateChanges E (Some ctx) (Some q) True (Some handles) (Some sz)
      | Call_SyncGetTransferState q \<Rightarrow>
          EcDoRpc_RopSyncGetTransferState K E (Some ctx) (Some q) True (Some handles) (Some sz)
      | Call_SetLocalReplicaMidsetDeleted q \<Rightarrow>
          EcDoRpc_RopSetLocalReplicaMidsetDeleted E (Some ctx) (Some q) True (Some handles) (Some sz))"

text \<open>The \<^verbatim>\<open>handle_idx\<close> of the request of a call, and the three stubs.\<close>

definition call_handle_idx :: "fxics_call \<Rightarrow> byte" where
  "call_handle_idx call =
     (case call of
        Call_FastTransferSourceCopyTo q \<Rightarrow> handle_idx q
      | Call_FastTransferSourceGetBuffer q \<Rightarrow> handle_idx q
      | Call_SyncConfigure q \<Rightarrow> handle_idx q
      | Call_SyncImportMessageChange q \<Rightarrow> handle_idx q
      | Call_SyncImportHierarchyChange q \<Rightarrow> handle_idx q
      | Call_SyncImportDeletes q \<Rightarrow> handle_idx q
      | Call_SyncUploadStateStreamBegin q \<Rightarrow> handle_idx q
      | Call_SyncUploadStateStreamContinue q \<Rightarrow> handle_idx q
      | Call_SyncUploadStateStreamEnd q \<Rightarrow> handle_idx q
      | Call_SyncImportMessageMove q \<Rightarrow> handle_idx q
      | Call_SyncOpenCollector q \<Rightarrow> handle_idx q
      | Call_GetLocalReplicaIds q \<Rightarrow> handle_idx q
      | Call_SyncImportReadStateChanges q \<Rightarrow> handle_idx q
      | Call_SyncGetTransferState q \<Rightarrow> handle_idx q
      | Call_SetLocalReplicaMidsetDeleted q \<Rightarrow> handle_idx q)"

definition is_stub :: "fxics_call \<Rightarrow> bool" where
  "is_stub call =
     (case call of
        Call_SyncImportMessageMove q \<Rightarrow> True
      | Call_SyncImportReadStateChanges q \<Rightarrow> True
      | Call_SetLocalReplicaMidsetDeleted q \<Rightarrow> True
      | _ \<Rightarrow> False)"

text \<open>
  The cut-marks sidecar in the spec's words: a strictly increasing sequence whose
  entries other than the final one are strictly less than the stream length, and whose
  final element is the sentinel 0xffffffff.
\<close>

definition spec_cutmarks :: "32 word list \<Rightarrow> nat \<Rightarrow> bool" where
  "spec_cutmarks marks stream_length \<longleftrightarrow>
     marks \<noteq> [] \<and> last marks = 0xffffffff \<and> sorted_wrt (<) marks
     \<and> list_all (\<lambda>m. unat m < stream_length) (butlast marks)"

text \<open>
  What holds of the sidecars that the code produces: the entries before the sentinel
  never decrease, and none of them is beyond the end of the stream (in a sync stream,
  which ends with the state block, each is before the end).
\<close>

definition cutmarks_in_stream :: "bool \<Rightarrow> 32 word list \<Rightarrow> nat \<Rightarrow> bool" where
  "cutmarks_in_stream before_end marks stream_length \<longleftrightarrow>
     marks \<noteq> [] \<and> last marks = 0xffffffff \<and> sorted (butlast marks)
     \<and> list_all (\<lambda>m. if before_end then unat m < stream_length else unat m \<le> stream_length)
          (butlast marks)"

text \<open>
  The same of a pair of push buffers while they are written, and how a later state of
  the buffers relates to an earlier one: the stream has not shrunk, and if it is still
  shorter than \<open>2^32\<close> bytes (\<^verbatim>\<open>ndr->offset\<close> is a \<^verbatim>\<open>uint32_t\<close>) the marks are
  as sound as they were.
\<close>

definition marks_sound :: "'a push_bufs_scheme \<Rightarrow> bool" where
  "marks_sound s \<longleftrightarrow>
     sorted (cutmarks_ndr s) \<and> list_all (\<lambda>m. unat m \<le> length (ndr s)) (cutmarks_ndr s)"

definition extends_ok :: "'a push_bufs_scheme \<Rightarrow> 'b push_bufs_scheme \<Rightarrow> bool" where
  "extends_ok s s' \<longleftrightarrow>
     length (ndr s) \<le> length (ndr s')
     \<and> (length (ndr s') < 2 ^ 32 \<longrightarrow> marks_sound s \<longrightarrow> marks_sound s')"

text \<open>
  The cut-marks and the stream of a transfer context or sync context, and those of the
  object that a call has put behind a handle: \<open>None\<close> when the call did not return,
  when it left the handle as it was, and when the object is of another type.
\<close>

definition transfer_of :: "'r emsmdbp_object \<Rightarrow> (32 word list \<times> byte list) option" where
  "transfer_of object =
     (case object of
        FtContext_object ftcontext \<Rightarrow> Some (cutmarks ftcontext, stream_data (stream ftcontext))
      | SyncContext_object parent ms sc \<Rightarrow> Some (cutmarks sc, stream_data (stream sc))
      | _ \<Rightarrow> None)"

definition new_transfer ::
  "'r handles_ctx \<Rightarrow> c_fault + MAPISTATUS \<times> 'r rpc_out option \<Rightarrow> 32 word
     \<Rightarrow> (32 word list \<times> byte list) option" where
  "new_transfer ctx res h =
     (case res of
        Inr (status, Some out) \<Rightarrow>
          if out_ctx out h = ctx h then None
          else (case out_ctx out h of Some (Some object) \<Rightarrow> transfer_of object | _ \<Rightarrow> None)
      | _ \<Rightarrow> None)"

section \<open>Concrete instances\<close>

text \<open>A registry that knows one replica: id 1 with the GUID \<open>aa \<dots> aa\<close>.\<close>

definition example_guid :: GUID where
  "example_guid = Abs_GUID (replicate 16 0xAA)"

definition example_registry :: replica_registry where
  "example_registry =
     \<lparr> emsmdbp_guid_to_replid = (\<lambda>g. if g = example_guid then Some 1 else None),
       emsmdbp_replid_to_guid = (\<lambda>r. if r = 1 then Some example_guid else None) \<rparr>"

text \<open>A source key of 23 bytes: the known GUID, global counter 1, and one byte more.\<close>

definition long_source_key :: "byte list" where
  "long_source_key = replicate 16 0xAA @ [1, 0, 0, 0, 0, 0, 9]"

text \<open>
  The constants with the values that the protocol documents give them, and an
  environment with simple stand-ins for the external collaborators: an idset is a list of
  (GUID, id) points here, and its wire form is a GUID followed by six bytes of id, or
  a GUID alone for a set without ranges.
\<close>

definition example_consts :: mapi_consts where
  "example_consts =
     \<lparr> PT_I2 = 0x0002, PT_LONG = 0x0003, PT_ERROR = 0x000A, PT_OBJECT = 0x000D,
       PT_DOUBLE = 0x0005, PT_I8 = 0x0014, PT_BOOLEAN = 0x000B, PT_STRING8 = 0x001E,
       PT_UNICODE = 0x001F, PT_SVREID = 0x00FB, PT_BINARY = 0x0102, PT_CLSID = 0x0048,
       PT_SYSTIME = 0x0040, MV_FLAG = 0x1000,
       PR_INCR_SYNC_CHG = 0x40120003, PR_INCR_SYNC_MSG = 0x40150003,
       PR_INCR_SYNC_STATE_BEGIN = 0x403A0003, PR_INCR_SYNC_STATE_END = 0x403B0003,
       PR_INCR_SYNC_END = 0x40140003, PR_FX_DEL_PROP = 0x40160003,
       PR_MESSAGE_RECIPIENTS = 0x0E12000D, PR_MESSAGE_ATTACHMENTS = 0x0E13000D,
       PR_START_RECIP = 0x40030003, PR_END_RECIP = 0x40040003, PR_ROWID = 0x30000003,
       PR_NEW_ATTACH = 0x40000003, PR_ATTACH_NUM = 0x0E210003, PR_END_ATTACH = 0x400E0003,
       PidTagIdsetGiven = 0x40170003, PidTagCnsetSeen = 0x67960102,
       PidTagCnsetSeenFAI = 0x67DA0102, PidTagCnsetRead = 0x67D20102,
       PR_SOURCE_KEY = 0x65E00102, PR_PARENT_SOURCE_KEY = 0x65E10102,
       PR_LAST_MODIFICATION_TIME = 0x30080040, PR_CHANGE_KEY = 0x65E20102,
       PR_PREDECESSOR_CHANGE_LIST = 0x65E30102, PR_ASSOCIATED = 0x67AA000B,
       PR_MID = 0x674A0014, PR_FID = 0x67480014, PR_PARENT_FID = 0x67490014,
       PR_MESSAGE_SIZE = 0x0E080003, PR_CHANGE_NUM = 0x67A40014,
       PR_DISPLAY_NAME_UNICODE = 0x3001001F, PR_ATTACH_METHOD = 0x37050003,
       PR_ATTACH_TAG = 0x370A0102, PR_ATTACH_SIZE = 0x0E200003, PR_RECORD_KEY = 0x0FF90102,
       PR_ATTACH_LONG_FILENAME_UNICODE = 0x3707001F,
       PR_ATTACH_CONTENT_ID_UNICODE = 0x3712001F, PR_ATTACH_MIME_TAG_UNICODE = 0x370E001F,
       PR_CREATION_TIME = 0x30070040, PR_ATTACH_DATA_BIN = 0x37010102 \<rparr>"

type_synonym points = "(GUID \<times> 64 word) list"

fun tag_index :: "32 word list \<Rightarrow> 32 word \<Rightarrow> nat option" where
  "tag_index [] tag = None"
| "tag_index (t # ts) tag = (if t = tag then Some 0 else map_option Suc (tag_index ts tag))"

definition points_idset :: "bool \<Rightarrow> points \<Rightarrow> points idset" where
  "points_idset single ps =
     \<lparr> single_flag = single, range_count = word_of_nat (length ps), ranges = ps \<rparr>"

definition points_merge :: "points idset option \<Rightarrow> points idset option \<Rightarrow> points idset option" where
  "points_merge a b =
     (case a of
        None \<Rightarrow> b
      | Some x \<Rightarrow>
          (case b of
             None \<Rightarrow> Some x
           | Some y \<Rightarrow> Some (points_idset (single_flag x) (ranges x @ ranges y))))"

definition points_parse :: "byte list \<Rightarrow> points idset option" where
  "points_parse bs =
     (if length bs = 22
      then Some (points_idset False [(Abs_GUID (take 16 bs), word_of_nat (le_value (drop 16 bs)))])
      else if length bs = 16 then Some (points_idset False [])
      else None)"

definition points_bytes :: "points idset option \<Rightarrow> byte list" where
  "points_bytes s =
     (case s of
        None \<Rightarrow> []
      | Some x \<Rightarrow> concat (map (\<lambda>(g, i). Rep_GUID g @ id_bytes 6 i) (ranges x)))"

definition example_env :: "points rpc_env" where
  "example_env =
     \<lparr> mapistore_namedprops_get_nameid = (\<lambda>propID. None),
       utf16_units = map ucast,
       registry = example_registry,
       openchangedb_get_MailboxReplica = example_guid,
       exchange_globcnt = (\<lambda>x. push_bit 16 x),
       nt_time_to_unix = (\<lambda>t. t),
       unix_to_nt_time = ucast,
       SPropTagArray_find = tag_index,
       IDSET_parse = points_parse,
       IDSET_includes_id =
         (\<lambda>s g i. case s of None \<Rightarrow> False | Some x \<Rightarrow> (g, i) \<in> set (ranges x)),
       IDSET_merge_idsets = points_merge,
       RAWIDSET_convert_to_idset = (\<lambda>raw. Some (points_idset (raw_single raw) (globs raw))),
       ndr_push_idset = points_bytes,
       mapi_handles_add = (\<lambda>ctx parent. parent + 1),
       rop_size = (\<lambda>r repl. 6),
       ftcontext_view_position = (\<lambda>sc. position (stream sc)) \<rparr>"

text \<open>
  A transfer context on a stream of ten bytes with cut-marks at 4 and 8, reached
  through handle 7, and requests for it.
\<close>

definition example_ftcontext :: emsmdbp_object_ftcontext where
  "example_ftcontext =
     \<lparr> stream = \<lparr> position = 0, buffer = Some [1, 2, 3, 4, 5, 6, 7, 8, 9, 10] \<rparr>,
       cutmarks = [4, 8, 0xffffffff],
       next_cutmark_ptr = 0, steps = 0, total_steps = 0 \<rparr>"

definition example_ft_handles :: "points handles_ctx" where
  "example_ft_handles = (\<lambda>h. if h = 7 then Some (Some (FtContext_object example_ftcontext)) else None)"

definition getbuffer_request :: "16 word \<Rightarrow> FastTransferSourceGetBuffer_req EcDoRpc_MAPI_REQ" where
  "getbuffer_request n =
     \<lparr> opnum = 0x4e, handle_idx = 0, u_req = \<lparr> BufferSize = n, MaximumBufferSize = 0 \<rparr> \<rparr>"

text \<open>
  A sync context in contents mode on an empty folder, with both of its sets uploaded
  before, reached through handle 9; and the same with an upload of
  \<^verbatim>\<open>PidTagCnsetSeen\<close> pending, three bytes received.
\<close>

definition example_folder :: folder_object where
  "example_folder =
     \<lparr> folderID = 0x10001, folder_is_mapistore = True,
       message_tables = (\<lambda>t. Some []),
       message_counts = (\<lambda>t. Some (Some (V_uint32 0), 0)),
       table_available_properties = (\<lambda>t. Some []),
       message_open = (\<lambda>m. None),
       hierarchy = Folder_node None None \<rparr>"

definition example_request :: sync_request where
  "example_request =
     \<lparr> contents_mode = True, unicode = True, use_cpid = False, recover_mode = False,
       force_unicode = False, partial_item = False, no_deletions = False,
       no_soft_deletions = False, ignore_no_longer_in_scope = False, read_state = False,
       fai = False, normal = True, no_foreign_identifiers = False, best_body = False,
       ignored_specified_on_fai = False, progress = False, request_eid = False,
       request_message_size = False, request_cn = False, order_by_delivery_time = False \<rparr>"

definition example_synccontext :: "points emsmdbp_object_synccontext" where
  "example_synccontext =
     \<lparr> stream = \<lparr> position = 0, buffer = None \<rparr>, cutmarks = [],
       next_cutmark_ptr = 0, steps = 0, total_steps = 0,
       request = example_request, properties = [],
       idset_given = Some (points_idset False [(example_guid, 5)]),
       cnset_seen = Some (points_idset True [(example_guid, 9)]),
       state_property = 0, state_stream = \<lparr> position = 0, buffer = None \<rparr>,
       is_collector = False \<rparr>"

definition example_sync_handles :: "points handles_ctx" where
  "example_sync_handles =
     (\<lambda>h. if h = 9 then Some (Some (SyncContext_object example_folder True example_synccontext))
          else None)"

definition armed_synccontext :: "points emsmdbp_object_synccontext" where
  "armed_synccontext =
     example_synccontext\<lparr>state_property := 0x67960102,
                          state_stream := \<lparr> position = 0, buffer = Some [1, 2, 3] \<rparr>\<rparr>"

definition armed_handles :: "points handles_ctx" where
  "armed_handles =
     (\<lambda>h. if h = 9 then Some (Some (SyncContext_object example_folder True armed_synccontext))
          else None)"

text \<open>Two well-formed state streams for the stand-in parser: one point each.\<close>

definition state_bytes :: "byte \<Rightarrow> byte list" where
  "state_bytes n = replicate 16 0xAA @ [n, 0, 0, 0, 0, 0]"

text \<open>
  The flag bits with the values that the protocol documents give them, and the
  environment above with stand-ins for the store: no folder can be opened by id,
  messages and folders can be created, property 0x3001001F is all an object has.
\<close>

definition example_rop_consts :: rop_consts where
  "example_rop_consts =
     \<lparr> ImportFlag_Associated = 0x10, SyncImportDeletes_Hierarchy = 0x01,
       SyncImportDeletes_HardDelete = 0x02, MAPISTORE_PERMANENT_DELETE = 2,
       MAPISTORE_SOFT_DELETE = 1, Contents = 1,
       FastTransfer_Unicode = 0x01, FastTransfer_UseCpid = 0x02,
       FastTransfer_RecoverMode = 0x04, FastTransfer_ForceUnicode = 0x08,
       FastTransfer_PartialItem = 0x10,
       SynchronizationFlag_Unicode = 0x0001, SynchronizationFlag_NoDeletions = 0x0002,
       SynchronizationFlag_NoSoftDeletions = 0x0004, SynchronizationFlag_ReadState = 0x0008,
       SynchronizationFlag_FAI = 0x0010, SynchronizationFlag_Normal = 0x0020,
       SynchronizationFlag_OnlySpecifiedProperties = 0x0080,
       SynchronizationFlag_NoForeignIdentifiers = 0x0100,
       SynchronizationFlag_BestBody = 0x2000, SynchronizationFlag_IgnoreSpecifiedOnFAI = 0x4000,
       SynchronizationFlag_Progress = 0x8000,
       Eid = 1, MessageSize = 2, Cn = 4, OrderByDeliveryTime = 8,
       PR_ROW_TYPE = 0x0FF50003, PR_INSTANCE_KEY = 0x0FF60102, PR_INSTANCE_NUM = 0x674E0003,
       PR_INST_ID = 0x674D0014, PR_BODY_HTML = 0x10130102, PR_BODY_UNICODE = 0x1000001F \<rparr>"

definition empty_ftcontext :: emsmdbp_object_ftcontext where
  "empty_ftcontext =
     \<lparr> stream = \<lparr> position = 0, buffer = None \<rparr>, cutmarks = [],
       next_cutmark_ptr = 0, steps = 0, total_steps = 0 \<rparr>"

definition empty_request :: sync_request where
  "empty_request =
     \<lparr> contents_mode = False, unicode = False, use_cpid = False, recover_mode = False,
       force_unicode = False, partial_item = False, no_deletions = False,
       no_soft_deletions = False, ignore_no_longer_in_scope = False, read_state = False,
       fai = False, normal = False, no_foreign_identifiers = False, best_body = False,
       ignored_specified_on_fai = False, progress = False, request_eid = False,
       request_message_size = False, request_cn = False, order_by_delivery_time = False \<rparr>"

definition empty_synccontext :: "points emsmdbp_object_synccontext" where
  "empty_synccontext =
     \<lparr> stream = \<lparr> position = 0, buffer = None \<rparr>, cutmarks = [],
       next_cutmark_ptr = 0, steps = 0, total_steps = 0,
       request = empty_request, properties = [],
       idset_given = None, cnset_seen = None,
       state_property = 0, state_stream = \<lparr> position = 0, buffer = Some [] \<rparr>,
       is_collector = False \<rparr>"

definition example_store_env :: "points store_env" where
  "example_store_env =
     \<lparr> mapistore_namedprops_get_nameid = (\<lambda>propID. None),
       utf16_units = map ucast,
       registry = example_registry,
       openchangedb_get_MailboxReplica = example_guid,
       exchange_globcnt = (\<lambda>x. push_bit 16 x),
       nt_time_to_unix = (\<lambda>t. t),
       unix_to_nt_time = ucast,
       SPropTagArray_find = tag_index,
       IDSET_parse = points_parse,
       IDSET_includes_id =
         (\<lambda>s g i. case s of None \<Rightarrow> False | Some x \<Rightarrow> (g, i) \<in> set (ranges x)),
       IDSET_merge_idsets = points_merge,
       RAWIDSET_convert_to_idset = (\<lambda>raw. Some (points_idset (raw_single raw) (globs raw))),
       ndr_push_idset = points_bytes,
       mapi_handles_add = (\<lambda>ctx parent. parent + 1),
       rop_size = (\<lambda>r repl. 6),
       ftcontext_view_position = (\<lambda>sc. position (stream sc)),
       mapistore_folder_create_message = (\<lambda>folder mid associated. 0),
       emsmdbp_object_open_folder_by_fid = (\<lambda>folder fid. None),
       emsmdbp_object_open_folder = (\<lambda>folder fid. None),
       emsmdbp_object_create_folder =
         (\<lambda>folder fid row. map_option (\<lambda>f. f\<lparr>folderID := fid\<rparr>) folder),
       emsmdbp_object_set_properties = (\<lambda>folder row. 0),
       openchangedb_reserve_fmid_range = (\<lambda>n. 0x50001),
       emsmdbp_object_get_available_properties = (\<lambda>object. Some [0x3001001F]),
       emsmdbp_object_get_properties =
         (\<lambda>object tags. Some (map (\<lambda>t. (Some (V_string [0x49, 0x6E]), 0)) tags)),
       SPropTagArray_delete = (\<lambda>tags tag. filter (\<lambda>t. t \<noteq> tag) tags),
       SPropTagArray_add = (\<lambda>tags tag. tags @ [tag]),
       emsmdbp_object_ftcontext_init = (\<lambda>object. Some empty_ftcontext),
       emsmdbp_object_synccontext_init = (\<lambda>folder. Some empty_synccontext),
       synccontext_is_mapistore = folder_is_mapistore \<rparr>"

text \<open>
  Two imports on the handle at index 0: one whose source key names a replica that the
  registry does not know (GUID \<open>bb \<dots> bb\<close>), and one for message 2 of the known
  replica.
\<close>

definition import_request :: "byte list \<Rightarrow> SyncImportMessageChange_req EcDoRpc_MAPI_REQ" where
  "import_request source_key =
     \<lparr> opnum = 0x72, handle_idx = 0,
       u_req = \<lparr> req_handle_idx = 1, ImportFlag = 0,
                 PropertyValues = [(0x65E00102, V_Binary_r source_key)] \<rparr> \<rparr>"

definition foreign_source_key :: "byte list" where
  "foreign_source_key = replicate 16 0xBB @ [1, 0, 0, 0, 0, 0]"

text \<open>
  The sync context with an upload of \<^verbatim>\<open>PidTagIdsetGiven\<close> pending and sixteen bytes
  received: a set without ranges.
\<close>

definition armed_given_synccontext :: "points emsmdbp_object_synccontext" where
  "armed_given_synccontext =
     example_synccontext\<lparr>state_property := 0x40170003,
                          state_stream := \<lparr> position = 0, buffer = Some (replicate 16 0xAA) \<rparr>\<rparr>"

definition armed_given_handles :: "points handles_ctx" where
  "armed_given_handles =
     (\<lambda>h. if h = 9 then Some (Some (SyncContext_object example_folder True armed_given_synccontext))
          else None)"

text \<open>
  A store whose objects have two properties, both named properties (tags above
  0x80000000) whose names the registry of names does not know; a request to copy all
  properties of the object behind the handle at index 0; and the sync context above in
  hierarchy mode.
\<close>

definition named_store_env :: "points store_env" where
  "named_store_env =
     example_store_env
       \<lparr>emsmdbp_object_get_available_properties := (\<lambda>object. Some [0x80010003, 0x80020003])\<rparr>"

definition copy_request :: "FastTransferSourceCopyTo_req EcDoRpc_MAPI_REQ" where
  "copy_request =
     \<lparr> opnum = 0x4d, handle_idx = 0,
       u_req = \<lparr> req_handle_idx = 1, PropertyTags = [], Level = 0 \<rparr> \<rparr>"

definition hierarchy_synccontext :: "points emsmdbp_object_synccontext" where
  "hierarchy_synccontext =
     example_synccontext\<lparr>request := example_request\<lparr>contents_mode := False\<rparr>\<rparr>"

text \<open>
  A folder with two messages and a sync context configured on it in contents mode with
  the seven mandatory columns. The first message, id 2 of replica 1, was last modified
  nine seconds after \<^verbatim>\<open>oc_version_time\<close>, which gives it the change number 9 that
  the session has seen already; the second, id 3, three seconds after it.
\<close>

definition message_row :: "64 word \<Rightarrow> 32 word \<Rightarrow> stored_row" where
  "message_row mid seconds =
     (\<lambda>columns. Some [(Some (V_uint64 mid), 0), (Some (V_uint8 0), 0), (Some (V_uint32 100), 0),
                      (None, 0x8004010F), (None, 0x8004010F),
                      (Some (V_FILETIME (0x4dbb2dbe + seconds) 0), 0),
                      (Some (V_string [0x48, 0x69]), 0)])"

definition inbox_folder :: folder_object where
  "inbox_folder =
     example_folder
       \<lparr>message_tables := (\<lambda>t. if t = EMSMDBP_TABLE_MESSAGE_TYPE
                                then Some [message_row 0x20001 9, message_row 0x30001 3]
                                else Some []),
        message_counts := (\<lambda>t. Some (Some (V_uint32 (if t = EMSMDBP_TABLE_MESSAGE_TYPE then 2 else 0)), 0)),
        message_open := (\<lambda>m. Some \<lparr> recipients = None, attachment_table = None \<rparr>)\<rparr>"

definition inbox_synccontext :: "points emsmdbp_object_synccontext" where
  "inbox_synccontext =
     example_synccontext
       \<lparr>properties := [0x674A0014, 0x67AA000B, 0x0E080003, 0x67A40014, 0x65E20102,
                        0x30080040, 0x3001001F]\<rparr>"

text \<open>
  A folder with two subfolders, ids 4 and 5 of replica 1, neither with folders of its
  own, and the sync context in hierarchy mode with the five mandatory columns. The
  first subfolder has the change number 9 that the session has seen already.
\<close>

definition folder_row :: "64 word \<Rightarrow> 32 word \<Rightarrow> stored_row" where
  "folder_row fid seconds =
     (\<lambda>columns. Some [(Some (V_uint64 0x10001), 0), (Some (V_uint64 fid), 0),
                      (None, 0x8004010F),
                      (Some (V_FILETIME (0x4dbb2dbe + seconds) 0), 0),
                      (Some (V_string [0x48, 0x69]), 0)])"

definition tree_folder :: folder_object where
  "tree_folder =
     example_folder
       \<lparr>hierarchy :=
          Folder_node None
            (Some [(folder_row 0x40001 9, Folder_node None None),
                   (folder_row 0x50001 3, Folder_node None None)])\<rparr>"

definition tree_synccontext :: "points emsmdbp_object_synccontext" where
  "tree_synccontext =
     hierarchy_synccontext
       \<lparr>properties := [0x67490014, 0x67480014, 0x65E20102, 0x30080040, 0x3001001F]\<rparr>"

text \<open>
  A store whose objects have a \<^verbatim>\<open>PT_STRING8\<close> property (tag 0x3A00001E) and a
  \<^verbatim>\<open>PT_UNICODE\<close> property (tag 0x3001001F), both with the value \<^verbatim>\<open>"In"\<close>.
\<close>

definition string8_store_env :: "points store_env" where
  "string8_store_env =
     example_store_env
       \<lparr>emsmdbp_object_get_available_properties := (\<lambda>object. Some [0x3A00001E, 0x3001001F])\<rparr>"

section \<open>Properties of the ID codec\<close>

lemma and_ff: "(w :: 64 word) AND 0xff = take_bit 8 w"
proof -
  have "(0xff :: 64 word) = mask 8" by (simp add: mask_eq_exp_minus_1)
  then show ?thesis by (simp add: take_bit_eq_mask)
qed

lemma and_ffff: "(w :: 64 word) AND 0xffff = take_bit 16 w"
proof -
  have "(0xffff :: 64 word) = mask 16" by (simp add: mask_eq_exp_minus_1)
  then show ?thesis by (simp add: take_bit_eq_mask)
qed

lemma take_bit_split8:
  "take_bit (8 + m) (w :: 64 word) = take_bit 8 w OR push_bit 8 (take_bit m (drop_bit 8 w))"
proof (rule bit_word_eqI)
  fix i assume i: "i < LENGTH(64)"
  show "bit (take_bit (8 + m) w) i = bit (take_bit 8 w OR push_bit 8 (take_bit m (drop_bit 8 w))) i"
  proof (cases "i < 8")
    case True
    then show ?thesis by (simp add: bit_simps)
  next
    case False
    then have "8 + (i - 8) = i" by simp
    with False i show ?thesis by (auto simp add: bit_simps)
  qed
qed

text \<open>Reading back the bytes that the writer's loop produced gives the low \<open>8 n\<close> bits.\<close>

lemma fmid_loop_id_bytes:
  "fmid_loop (id_bytes n gc) acc (push_bit k 1) = acc OR push_bit k (take_bit (8 * n) gc)"
proof (induction n arbitrary: gc acc k)
  case 0
  show ?case by simp
next
  case (Suc n)
  have u: "(ucast (ucast (take_bit 8 gc) :: byte) :: 64 word) = take_bit 8 gc"
    by (rule bit_word_eqI) (auto simp add: bit_simps)
  have m: "(ucast (ucast (gc AND 0xff) :: byte) :: 64 word) * push_bit k 1 = push_bit k (take_bit 8 gc)"
    by (simp add: push_bit_eq_mult and_ff u)
  have s: "push_bit 8 (push_bit k (1 :: 64 word)) = push_bit (8 + k) 1"
    by (simp only: push_bit_push_bit)
  have t: "take_bit (8 * Suc n) gc = take_bit 8 gc OR push_bit 8 (take_bit (8 * n) (drop_bit 8 gc))"
    using take_bit_split8 [of "8 * n" gc] by simp
  show ?case
    by (simp only: id_bytes.simps fmid_loop.simps m s Suc.IH t push_bit_or push_bit_push_bit
        or.assoc add.commute)
qed

lemma fmid_roundtrip_bits:
  "push_bit 16 (take_bit 48 (drop_bit 16 (f :: 64 word))) OR ucast (ucast (f AND 0xffff) :: 16 word) = f"
  unfolding and_ffff by (rule bit_word_eqI) (auto simp add: bit_simps)

lemma id_bytes_length: "length (id_bytes n gc) = n"
  by (induction n arbitrary: gc) simp_all

lemma le_value_bound: "le_value bs < 256 ^ length bs"
proof (induction bs)
  case Nil
  show ?case by simp
next
  case (Cons b bs)
  have "unat b < 256" using unsigned_less [of b, where ?'a = nat] by simp
  with Cons.IH show ?case by simp
qed

lemma byte_or_push8:
  "(ucast (b :: byte) :: 64 word) + push_bit 8 x = ucast b OR push_bit 8 x"
proof (rule disjunctive_add)
  fix n
  show "\<not> bit (ucast b :: 64 word) n \<or> \<not> bit (push_bit 8 x :: 64 word) n"
    by (cases "n < 8") (auto simp add: bit_simps dest: bit_imp_le_length)
qed

text \<open>The reader's loop computes the little-endian value of the bytes it is run over.\<close>

lemma fmid_loop_value:
  "fmid_loop bs acc (push_bit k 1) = acc OR push_bit k (word_of_nat (le_value bs))"
proof (induction bs arbitrary: acc k)
  case Nil
  show ?case by simp
next
  case (Cons b bs)
  have m: "(ucast b :: 64 word) * push_bit k 1 = push_bit k (ucast b)"
    by (simp add: push_bit_eq_mult)
  have s: "push_bit 8 (push_bit k (1 :: 64 word)) = push_bit (8 + k) 1"
    by (simp only: push_bit_push_bit)
  have v: "(word_of_nat (le_value (b # bs)) :: 64 word) = ucast b OR push_bit 8 (word_of_nat (le_value bs))"
  proof -
    have "(word_of_nat (le_value (b # bs)) :: 64 word) = ucast b + push_bit 8 (word_of_nat (le_value bs))"
      by (simp add: push_bit_eq_mult)
    then show ?thesis by (simp only: byte_or_push8)
  qed
  show ?case
    by (simp only: fmid_loop.simps m s Cons.IH v push_bit_or push_bit_push_bit or.assoc add.commute)
qed

lemma example_registry_consistent: "registry_consistent example_registry"
  by (simp add: registry_consistent_def example_registry_def)

lemma example_guid_bytes: "Rep_GUID example_guid = replicate 16 0xAA"
  by (simp add: example_guid_def Abs_GUID_inverse)

text \<open>
  C1. For every FMID \<open>f\<close> whose low 16 bits resolve to a known replica GUID, in a
  registry that maps ids one-to-one to GUIDs, \<^verbatim>\<open>oxcfxics_source_key_from_fmid\<close>
  returns a 22-byte source key, and \<^verbatim>\<open>oxcfxics_fmid_from_source_key\<close> on that key
  succeeds and returns exactly \<open>f\<close>.
\<close>

theorem source_key_roundtrip:
  assumes "registry_consistent reg"
    and "emsmdbp_replid_to_guid reg (ucast (f AND 0xffff)) = Some g"
  shows "\<exists>sk. oxcfxics_source_key_from_fmid reg f = Some sk \<and> length sk = 22
           \<and> oxcfxics_fmid_from_source_key reg sk = Inr (Some f)"
proof -
  let ?sk = "Rep_GUID g @ id_bytes 6 (drop_bit 16 f)"
  have lg: "length (Rep_GUID g) = 16" using Rep_GUID [of g] by simp
  have sk: "oxcfxics_source_key_from_fmid reg f = Some ?sk"
    using assms(2) by (simp add: oxcfxics_source_key_from_fmid_def)
  have len: "length ?sk = 22" by (simp add: lg id_bytes_length)
  have rid: "emsmdbp_guid_to_replid reg g = Some (ucast (f AND 0xffff))"
    using assms by (simp add: registry_consistent_def)
  have loop: "fmid_loop (id_bytes 6 (drop_bit 16 f)) 0 1 = take_bit 48 (drop_bit 16 f)"
    using fmid_loop_id_bytes [of 6 "drop_bit 16 f" 0 0] by simp
  have "oxcfxics_fmid_from_source_key reg ?sk = Inr (Some f)"
    unfolding oxcfxics_fmid_from_source_key_def
    by (simp add: lg id_bytes_length Rep_GUID_inverse rid loop fmid_roundtrip_bits)
  with sk len show ?thesis by blast
qed

theorem source_key_roundtrip_witness:
  "registry_consistent example_registry
   \<and> emsmdbp_replid_to_guid example_registry (ucast ((0x2A0001 :: 64 word) AND 0xffff)) = Some example_guid
   \<and> (\<exists>sk. oxcfxics_source_key_from_fmid example_registry 0x2A0001 = Some sk \<and> length sk = 22
           \<and> oxcfxics_fmid_from_source_key example_registry sk = Inr (Some 0x2A0001))"
proof -
  have k: "emsmdbp_replid_to_guid example_registry (ucast ((0x2A0001 :: 64 word) AND 0xffff)) = Some example_guid"
    by (simp add: example_registry_def)
  show ?thesis
    using source_key_roundtrip [OF example_registry_consistent k] example_registry_consistent k
    by blast
qed

text \<open>
  C7, as stated, fails: the function does not validate the length of the source key. A
  key of 23 bytes with a known GUID prefix is accepted, and the extra byte is ignored.
\<close>

theorem fmid_from_long_source_key:
  "length long_source_key \<noteq> 22
   \<and> oxcfxics_fmid_from_source_key example_registry long_source_key = Inr (Some 0x10001)"
  by (simp add: long_source_key_def oxcfxics_fmid_from_source_key_def example_registry_def
      example_guid_def)

text \<open>
  C7, amended. \<^verbatim>\<open>oxcfxics_fmid_from_source_key\<close> does not look at the length of the
  source key. On any key of at least 22 bytes it returns \<^verbatim>\<open>MAPISTORE_ERROR\<close> when
  the registry does not know the 16-byte GUID prefix, and otherwise succeeds with
  \<open>(gc << 16) | replica_id\<close>, where \<open>gc\<close> is the little-endian value of bytes 16 to 21,
  a 48-bit integer; bytes from index 22 on are ignored.
\<close>

theorem fmid_from_source_key_result:
  assumes "22 \<le> length lpb"
  shows "oxcfxics_fmid_from_source_key reg lpb =
           Inr (case emsmdbp_guid_to_replid reg (Abs_GUID (take 16 lpb)) of
                  None \<Rightarrow> None
                | Some replid \<Rightarrow>
                    Some (push_bit 16 (word_of_nat (le_value (take 6 (drop 16 lpb)))) OR ucast replid))
         \<and> le_value (take 6 (drop 16 lpb)) < 2 ^ 48"
proof -
  have "fmid_loop (take 6 (drop 16 lpb)) 0 1 = word_of_nat (le_value (take 6 (drop 16 lpb)))"
    using fmid_loop_value [of "take 6 (drop 16 lpb)" 0 0] by simp
  then have "oxcfxics_fmid_from_source_key reg lpb =
           Inr (case emsmdbp_guid_to_replid reg (Abs_GUID (take 16 lpb)) of
                  None \<Rightarrow> None
                | Some replid \<Rightarrow>
                    Some (push_bit 16 (word_of_nat (le_value (take 6 (drop 16 lpb)))) OR ucast replid))"
    using assms by (simp add: oxcfxics_fmid_from_source_key_def split: option.split)
  moreover have "le_value (take 6 (drop 16 lpb)) < 2 ^ 48"
  proof -
    have "length (take 6 (drop 16 lpb)) = 6" using assms by simp
    then have "le_value (take 6 (drop 16 lpb)) < 256 ^ 6"
      using le_value_bound [of "take 6 (drop 16 lpb)"] by simp
    then show ?thesis by simp
  qed
  ultimately show ?thesis by blast
qed

theorem fmid_from_source_key_result_witness:
  "22 \<le> length long_source_key
   \<and> oxcfxics_fmid_from_source_key example_registry long_source_key = Inr (Some 0x10001)
   \<and> le_value (take 6 (drop 16 long_source_key)) = 1"
proof -
  have l: "22 \<le> length long_source_key" by (simp add: long_source_key_def)
  have v: "le_value (take 6 (drop 16 long_source_key)) = 1" by (simp add: long_source_key_def)
  have g: "emsmdbp_guid_to_replid example_registry (Abs_GUID (take 16 long_source_key)) = Some 1"
    by (simp add: long_source_key_def example_registry_def example_guid_def)
  show ?thesis
    using fmid_from_source_key_result [OF l, of example_registry] l
    by (simp add: v g)
qed

section \<open>Properties of the stream chunker\<close>

lemma bind_fault_Inr: "bind_fault m g = Inr y \<longleftrightarrow> (\<exists>x. m = Inr x \<and> g x = Inr y)"
  by (cases m) simp_all

lemma buffer_length_data: "buffer_length st = length (stream_data st)"
  by (simp add: buffer_length_def stream_data_def split: option.split)

subsection \<open>The cut-mark loop ends at the sentinel\<close>

lemma cutmark_scan_returns:
  assumes "unat mp \<le> i" "i < length marks" "i < unat mp + n" "i < 65536"
    and "marks ! i = 0xffffffff"
  shows "\<exists>r. cutmark_scan n marks mx mp cb = Inr r"
  using assms
proof (induction n arbitrary: mp cb)
  case 0
  then show ?case by simp
next
  case (Suc n)
  show ?case
  proof (cases "marks ! unat mp \<noteq> 0xffffffff \<and> marks ! unat mp < ucast mx")
    case False
    with Suc.prems show ?thesis by auto
  next
    case True
    with Suc.prems have ne: "i \<noteq> unat mp" by auto
    with Suc.prems have lt: "unat mp < i" by simp
    with Suc.prems have "unat mp + 1 < 65536" by simp
    then have u: "unat (mp + 1) = unat mp + 1"
      by (simp add: unat_word_ariths)
    have "\<exists>r. cutmark_scan n marks mx (mp + 1) (ucast (marks ! unat mp)) = Inr r"
      using Suc.prems lt u by (intro Suc.IH) simp_all
    with True Suc.prems show ?thesis by auto
  qed
qed

lemma cutmark_scan_pos:
  "0 < n \<Longrightarrow> cutmark_scan n marks mx mp cb =
     (if length marks \<le> unat mp then Inl Out_of_bounds
      else if marks ! unat mp \<noteq> 0xffffffff \<and> marks ! unat mp < ucast mx
      then cutmark_scan (n - 1) marks mx (mp + 1) (ucast (marks ! unat mp))
      else Inr cb)"
  by (cases n) simp_all

lemma sentinel_reachable_index:
  assumes "sentinel_reachable c"
  shows "\<exists>i. next_cutmark_ptr c mod 65536 \<le> i \<and> i < length (cutmarks c) \<and> i < 65536
           \<and> cutmarks c ! i = 0xffffffff"
proof -
  let ?p = "next_cutmark_ptr c mod 65536"
  from assms obtain j where j: "j < length (take (65536 - ?p) (drop ?p (cutmarks c)))"
      and v: "take (65536 - ?p) (drop ?p (cutmarks c)) ! j = 0xffffffff"
    unfolding sentinel_reachable_def in_set_conv_nth by blast
  from j have j1: "j < 65536 - ?p" and j2: "j < length (cutmarks c) - ?p" by simp_all
  from v j1 j2 have "cutmarks c ! (?p + j) = 0xffffffff" by simp
  moreover from j1 have "?p + j < 65536" by linarith
  moreover from j2 have "?p + j < length (cutmarks c)" by linarith
  ultimately show ?thesis by (intro exI [of _ "?p + j"]) simp
qed

lemma cut_buffer_size_returns:
  assumes "sentinel_reachable c"
  shows "\<exists>b. cut_buffer_size c seen bs = Inr b"
proof -
  from sentinel_reachable_index [OF assms] obtain i where
    i: "next_cutmark_ptr c mod 65536 \<le> i" "i < length (cutmarks c)" "i < 65536"
       "cutmarks c ! i = 0xffffffff" by blast
  have u: "unat (word_of_nat (next_cutmark_ptr c) :: 16 word) = next_cutmark_ptr c mod 65536"
    by (simp add: unat_of_nat)
  obtain r where "cutmark_scan 65536 (cutmarks c)
      (word_of_nat (position (stream c) + unat bs))
      (word_of_nat (next_cutmark_ptr c)) (word_of_nat (position (stream c))) = Inr r"
    using cutmark_scan_returns [of "word_of_nat (next_cutmark_ptr c) :: 16 word" i "cutmarks c" 65536]
      i u by auto
  then show ?thesis
    by (auto simp add: cut_buffer_size_def Let_def)
qed

text \<open>Cutting never enlarges the requested size, and never makes it zero.\<close>

lemma cut_buffer_size_bounds:
  assumes "cut_buffer_size c seen bs = Inr bs'"
  shows "bs' \<le> bs \<and> (bs \<noteq> 0 \<longrightarrow> bs' \<noteq> 0)"
  using assms
  by (auto simp add: cut_buffer_size_def Let_def word_greater_zero_iff
      split: if_splits sum.splits elim!: bind_fault.elims)

lemma sentinel_reachable_steps [simp]:
  "sentinel_reachable (c\<lparr>steps := n\<rparr>) = sentinel_reachable c"
  "sentinel_reachable (c\<lparr>total_steps := n\<rparr>) = sentinel_reachable c"
  "sentinel_reachable (c\<lparr>stream := st\<rparr>) = sentinel_reachable c"
  by (simp_all add: sentinel_reachable_def)

subsection \<open>One chunk\<close>

lemma chunk_step_returns:
  assumes "sentinel_reachable c"
  shows "\<exists>r c'. chunk_step c seen bs = Inr (r, c')"
proof -
  obtain b where "cut_buffer_size (c\<lparr>steps := steps c + 1\<rparr>) seen bs = Inr b"
    using cut_buffer_size_returns [of "c\<lparr>steps := steps c + 1\<rparr>"] assms by auto
  then show ?thesis
    by (simp add: chunk_step_def Let_def)
qed

lemma read_chunk_effect:
  assumes "read_chunk c b = (r, c')"
  shows "TransferBuffer r = take (unat b) (drop (position (stream c)) (stream_data (stream c)))"
    and "c' = c\<lparr>stream := (stream c)\<lparr>position := position (stream c) + length (TransferBuffer r)\<rparr>\<rparr>"
    and "TotalStepCount r = total_steps c"
    and "TransferStatus r = TransferStatus_Done \<longleftrightarrow>
           position (stream c) + length (TransferBuffer r) = length (stream_data (stream c))"
  using assms
  by (auto simp add: read_chunk_def emsmdbp_stream_read_buffer_def Let_def stream_data_def
        buffer_length_def split: option.splits if_splits)

lemma take_length_take: "take (length (take n ys)) ys = take n ys"
  by (simp add: min_def)

lemma chunk_step_effect:
  assumes "chunk_step c seen bs = Inr (r, c')"
  shows "buffer (stream c') = buffer (stream c)"
    and "cutmarks c' = cutmarks c"
    and "next_cutmark_ptr c' = next_cutmark_ptr c"
    and "total_steps c' = total_steps c"
    and "TotalStepCount r = total_steps c"
    and "position (stream c') = position (stream c) + length (TransferBuffer r)"
    and "TransferBuffer r =
           take (length (TransferBuffer r)) (drop (position (stream c)) (stream_data (stream c)))"
    and "TransferStatus r = TransferStatus_Done \<longleftrightarrow>
           position (stream c') = length (stream_data (stream c))"
    and "bs \<noteq> 0 \<Longrightarrow> position (stream c) < length (stream_data (stream c)) \<Longrightarrow> TransferBuffer r \<noteq> []"
    and "emsmdbp_object_ftcontext.more c' = emsmdbp_object_ftcontext.more c"
proof -
  from assms obtain b where b: "cut_buffer_size (c\<lparr>steps := steps c + 1\<rparr>) seen bs = Inr b"
    and rc: "read_chunk (c\<lparr>steps := steps c + 1\<rparr>) b = (r, c')"
    by (auto simp add: chunk_step_def Let_def bind_fault_Inr)
  from cut_buffer_size_bounds [OF b] have nz: "bs \<noteq> 0 \<Longrightarrow> b \<noteq> 0" by simp
  note e = read_chunk_effect [OF rc]
  have tb: "TransferBuffer r = take (unat b) (drop (position (stream c)) (stream_data (stream c)))"
    using e(1) by simp
  have c': "c' = c\<lparr>steps := steps c + 1,
      stream := (stream c)\<lparr>position := position (stream c) + length (TransferBuffer r)\<rparr>\<rparr>"
    using e(2) by simp
  show "buffer (stream c') = buffer (stream c)" by (simp add: c')
  show "cutmarks c' = cutmarks c" by (simp add: c')
  show "next_cutmark_ptr c' = next_cutmark_ptr c" by (simp add: c')
  show "total_steps c' = total_steps c" by (simp add: c')
  show "TotalStepCount r = total_steps c" using e(3) by simp
  show p: "position (stream c') = position (stream c) + length (TransferBuffer r)" by (simp add: c')
  show "TransferBuffer r =
           take (length (TransferBuffer r)) (drop (position (stream c)) (stream_data (stream c)))"
    unfolding tb by (rule take_length_take [symmetric])
  show "TransferStatus r = TransferStatus_Done \<longleftrightarrow>
           position (stream c') = length (stream_data (stream c))"
    using e(4) p by simp
  show "emsmdbp_object_ftcontext.more c' = emsmdbp_object_ftcontext.more c" by (simp add: c')
  assume "bs \<noteq> 0" and lt: "position (stream c) < length (stream_data (stream c))"
  with nz have "unat b \<noteq> 0" by (simp add: unat_eq_zero)
  with lt show "TransferBuffer r \<noteq> []" by (simp add: tb)
qed

lemma truncate_ftcontext [simp]:
  "emsmdbp_object_ftcontext.truncate (ft :: emsmdbp_object_ftcontext) = ft"
  by (simp add: emsmdbp_object_ftcontext.truncate_def)

lemma truncate_fields [simp]:
  "stream (emsmdbp_object_ftcontext.truncate c) = stream c"
  "cutmarks (emsmdbp_object_ftcontext.truncate c) = cutmarks c"
  "next_cutmark_ptr (emsmdbp_object_ftcontext.truncate c) = next_cutmark_ptr c"
  "steps (emsmdbp_object_ftcontext.truncate c) = steps c"
  "total_steps (emsmdbp_object_ftcontext.truncate c) = total_steps c"
  by (simp_all add: emsmdbp_object_ftcontext.truncate_def)

lemma sentinel_reachable_truncate [simp]:
  "sentinel_reachable (emsmdbp_object_ftcontext.truncate c) = sentinel_reachable c"
  by (simp add: sentinel_reachable_def)

lemma chunk_step_result:
  assumes "chunk_step c seen bs = Inr (r, c')"
  shows "step_result (emsmdbp_object_ftcontext.truncate c) False bs r
           (emsmdbp_object_ftcontext.truncate c')"
  unfolding step_result_def
  using chunk_step_effect(1-8) [OF assms]
  by (simp add: stream_data_def)

lemma step_result_restart:
  assumes "step_result (emsmdbp_object_ftcontext.truncate
             (c\<lparr>steps := 0, total_steps := length (stream_data (stream c)) div unat bs + 1\<rparr>))
             False bs r t'"
  shows "step_result (emsmdbp_object_ftcontext.truncate c) True bs r t'"
  using assms by (simp add: step_result_def)

lemma start_steps_Inr:
  "start_steps c bs = Inr c1 \<longleftrightarrow>
     bs \<noteq> 0 \<and> c1 = c\<lparr>steps := 0, total_steps := length (stream_data (stream c)) div unat bs + 1\<rparr>"
  by (auto simp add: start_steps_def buffer_length_data)

subsection \<open>One call\<close>

lemma ftcontext_get_buffer_eq:
  "ftcontext_get_buffer ft bs =
     bind_fault (if position (stream ft) = 0 then start_steps ft bs else Inr ft)
       (\<lambda>c1. chunk_step c1 (position (stream c1)) bs)"
  by (simp add: ftcontext_get_buffer_def chunk_step_def Let_def)

lemma synccontext_get_buffer_eq:
  "synccontext_get_buffer K E parent sc bs =
     bind_fault
       (if buffer (stream sc) = None then
          bind_fault
            (if contents_mode (request sc)
             then oxcfxics_prepare_synccontext_with_messageChange K E parent sc
             else oxcfxics_prepare_synccontext_with_folderChange K E parent sc)
            (\<lambda>prepared. start_steps prepared bs)
        else Inr sc)
       (\<lambda>c1. chunk_step c1 (ftcontext_view_position E (c1\<lparr>steps := steps c1 + 1\<rparr>)) bs)"
  by (simp add: synccontext_get_buffer_def chunk_step_def Let_def)

lemma prepare_messageChange_buffer:
  assumes "oxcfxics_prepare_synccontext_with_messageChange K E parent sc = Inr p"
  shows "buffer (stream p) \<noteq> None"
  using assms
  by (auto simp add: oxcfxics_prepare_synccontext_with_messageChange_def Let_def bind_fault_Inr)

lemma prepare_folderChange_buffer:
  assumes "oxcfxics_prepare_synccontext_with_folderChange K E parent sc = Inr p"
  shows "buffer (stream p) \<noteq> None"
  using assms
  by (auto simp add: oxcfxics_prepare_synccontext_with_folderChange_def Let_def bind_fault_Inr)

lemma handler_nonnull:
  "EcDoRpc_RopFastTransferSourceGetBuffer K E (Some ctx) (Some q) True (Some handles) (Some sz) =
     (case RopFastTransferSourceGetBuffer_body K E ctx q handles sz of
        Inl f \<Rightarrow> Inl f
      | Inr out \<Rightarrow> Inr (MAPI_E_SUCCESS, Some out))"
  by (simp add: EcDoRpc_RopFastTransferSourceGetBuffer_def rpc_handler_def sanity_checks_def)

lemma body_ftcontext:
  assumes "ctx (handles (handle_idx q)) = Some (Some (FtContext_object ft))"
  shows "RopFastTransferSourceGetBuffer_body K E ctx q handles sz =
     bind_fault (ftcontext_get_buffer ft (effective_buffer_size q)) (\<lambda>(response, ft').
       rpc_end E RopFastTransferSourceGetBuffer
         \<lparr> repl_opnum = opnum q, error_code = MAPI_E_SUCCESS,
           repl_handle_idx = handle_idx q, u_repl = GetBuffer_repl response \<rparr>
         (ctx(handles (handle_idx q) := Some (Some (FtContext_object ft')))) handles sz [])"
  using assms
  by (simp add: RopFastTransferSourceGetBuffer_body_def Let_def effective_buffer_size_def)

lemma body_synccontext:
  assumes "ctx (handles (handle_idx q)) = Some (Some (SyncContext_object parent ms sc))"
  shows "RopFastTransferSourceGetBuffer_body K E ctx q handles sz =
     bind_fault (synccontext_get_buffer K E parent sc (effective_buffer_size q)) (\<lambda>(response, sc').
       rpc_end E RopFastTransferSourceGetBuffer
         \<lparr> repl_opnum = opnum q, error_code = MAPI_E_SUCCESS,
           repl_handle_idx = handle_idx q, u_repl = GetBuffer_repl response \<rparr>
         (ctx(handles (handle_idx q) := Some (Some (SyncContext_object parent ms sc')))) handles sz [])"
  using assms
  by (simp add: RopFastTransferSourceGetBuffer_body_def Let_def effective_buffer_size_def)

text \<open>
  A call that returns, on an object that holds a stream: what it returns and what it
  leaves behind.
\<close>

lemma getbuffer_step:
  assumes obj: "ctx (handles (handle_idx q)) = Some (Some obj)"
    and start: "transfer_start K E obj = Some t"
    and call: "EcDoRpc_RopFastTransferSourceGetBuffer K E (Some ctx) (Some q) True
                 (Some handles) (Some sz) = Inr res"
  shows "\<exists>out r obj' t'.
           res = (MAPI_E_SUCCESS, Some out)
           \<and> out_handles out = handles
           \<and> out_ctx out = ctx(handles (handle_idx q) := Some (Some obj'))
           \<and> error_code (out_repl out) = MAPI_E_SUCCESS
           \<and> u_repl (out_repl out) = GetBuffer_repl r
           \<and> transfer_start K E obj' = Some t'
           \<and> counts_steps obj' = (position (stream t') = 0 \<and> (\<exists>ft. obj' = FtContext_object ft))
           \<and> (\<exists>ft. obj' = FtContext_object ft) = (\<exists>ft. obj = FtContext_object ft)
           \<and> step_result t (counts_steps obj) (effective_buffer_size q) r t'
           \<and> (effective_buffer_size q \<noteq> 0 \<longrightarrow> position (stream t) < length (stream_data (stream t))
                \<longrightarrow> TransferBuffer r \<noteq> [])
           \<and> (counts_steps obj \<longrightarrow> effective_buffer_size q \<noteq> 0)"
proof -
  let ?bs = "effective_buffer_size q"
  from call obtain out where body: "RopFastTransferSourceGetBuffer_body K E ctx q handles sz = Inr out"
    and res: "res = (MAPI_E_SUCCESS, Some out)"
    by (auto simp add: handler_nonnull split: sum.splits)
  show ?thesis
  proof (cases obj)
    case (FtContext_object ft)
    with start have t: "t = ft" by (simp add: transfer_start_def)
    from body obj FtContext_object obtain r c' where g: "ftcontext_get_buffer ft ?bs = Inr (r, c')"
      and out: "out = \<lparr> out_repl = \<lparr> repl_opnum = opnum q, error_code = MAPI_E_SUCCESS,
                      repl_handle_idx = handle_idx q, u_repl = GetBuffer_repl r \<rparr>,
          out_ctx = ctx(handles (handle_idx q) := Some (Some (FtContext_object c'))),
          out_handles = handles,
          out_size = sz + rop_size E RopFastTransferSourceGetBuffer
             \<lparr> repl_opnum = opnum q, error_code = MAPI_E_SUCCESS,
               repl_handle_idx = handle_idx q, u_repl = GetBuffer_repl r \<rparr>,
          out_store_calls = [] \<rparr>"
      by (auto simp add: body_ftcontext bind_fault_Inr rpc_end_def)
    from g obtain c1 where
      s1: "(if position (stream ft) = 0 then start_steps ft ?bs else Inr ft) = Inr c1"
      and cs: "chunk_step c1 (position (stream c1)) ?bs = Inr (r, c')"
      by (auto simp add: ftcontext_get_buffer_eq bind_fault_Inr)
    from s1 have c1: "c1 = (if position (stream ft) = 0
        then ft\<lparr>steps := 0, total_steps := length (stream_data (stream ft)) div unat ?bs + 1\<rparr>
        else ft)"
      by (auto simp add: start_steps_Inr split: if_splits)
    have sr: "step_result t (counts_steps obj) ?bs r c'"
    proof (cases "position (stream ft) = 0")
      case True
      with chunk_step_result [OF cs] c1 have "step_result (emsmdbp_object_ftcontext.truncate
             (ft\<lparr>steps := 0, total_steps := length (stream_data (stream ft)) div unat ?bs + 1\<rparr>))
             False ?bs r c'" by simp
      from step_result_restart [OF this] True show ?thesis
        by (simp add: t FtContext_object counts_steps_def)
    next
      case False
      with chunk_step_result [OF cs] c1 show ?thesis
        by (simp add: t FtContext_object counts_steps_def)
    qed
    have pr: "?bs \<noteq> 0 \<longrightarrow> position (stream t) < length (stream_data (stream t))
                \<longrightarrow> TransferBuffer r \<noteq> []"
      using chunk_step_effect(9) [OF cs] c1 t by (auto simp add: stream_data_def split: if_splits)
    have nz: "counts_steps obj \<longrightarrow> ?bs \<noteq> 0"
      using s1 by (auto simp add: FtContext_object counts_steps_def start_steps_Inr)
    show ?thesis
      apply (rule exI [of _ out], rule exI [of _ r], rule exI [of _ "FtContext_object c'"],
          rule exI [of _ c'])
      using res sr pr nz
      by (simp add: out transfer_start_def counts_steps_def FtContext_object)
  next
    case (SyncContext_object parent ms sc)
    from body obj SyncContext_object obtain r c' where
      g: "synccontext_get_buffer K E parent sc ?bs = Inr (r, c')"
      and out: "out = \<lparr> out_repl = \<lparr> repl_opnum = opnum q, error_code = MAPI_E_SUCCESS,
                      repl_handle_idx = handle_idx q, u_repl = GetBuffer_repl r \<rparr>,
          out_ctx = ctx(handles (handle_idx q) := Some (Some (SyncContext_object parent ms c'))),
          out_handles = handles,
          out_size = sz + rop_size E RopFastTransferSourceGetBuffer
             \<lparr> repl_opnum = opnum q, error_code = MAPI_E_SUCCESS,
               repl_handle_idx = handle_idx q, u_repl = GetBuffer_repl r \<rparr>,
          out_store_calls = [] \<rparr>"
      by (auto simp add: body_synccontext bind_fault_Inr rpc_end_def)
    have main: "step_result t (counts_steps obj) ?bs r (emsmdbp_object_ftcontext.truncate c')
        \<and> buffer (stream c') \<noteq> None
        \<and> (?bs \<noteq> 0 \<longrightarrow> position (stream t) < length (stream_data (stream t))
                \<longrightarrow> TransferBuffer r \<noteq> [])
        \<and> (counts_steps obj \<longrightarrow> ?bs \<noteq> 0)"
    proof (cases "buffer (stream sc) = None")
      case True
      let ?prep = "if contents_mode (request sc)
                   then oxcfxics_prepare_synccontext_with_messageChange K E parent sc
                   else oxcfxics_prepare_synccontext_with_folderChange K E parent sc"
      from start True SyncContext_object obtain p where p: "?prep = Inr p"
        and t: "t = emsmdbp_object_ftcontext.truncate p"
        by (auto simp add: transfer_start_def split: sum.splits)
      have pb: "buffer (stream p) \<noteq> None"
        using p prepare_messageChange_buffer prepare_folderChange_buffer
        by (auto split: if_splits)
      let ?c1 = "p\<lparr>steps := 0, total_steps := length (stream_data (stream p)) div unat ?bs + 1\<rparr>"
      from g True p have
        cs: "chunk_step ?c1 (ftcontext_view_position E (?c1\<lparr>steps := steps ?c1 + 1\<rparr>)) ?bs = Inr (r, c')"
        and nz: "?bs \<noteq> 0"
        by (auto simp add: synccontext_get_buffer_eq bind_fault_Inr start_steps_Inr)
      from step_result_restart [OF chunk_step_result [OF cs]]
      have "step_result t True ?bs r (emsmdbp_object_ftcontext.truncate c')" by (simp add: t)
      moreover have "buffer (stream c') \<noteq> None"
        using chunk_step_effect(1) [OF cs] pb by simp
      moreover have "?bs \<noteq> 0 \<longrightarrow> position (stream t) < length (stream_data (stream t))
                \<longrightarrow> TransferBuffer r \<noteq> []"
        using chunk_step_effect(9) [OF cs] t by (simp add: stream_data_def)
      ultimately show ?thesis using True nz by (simp add: SyncContext_object counts_steps_def)
    next
      case False
      with start SyncContext_object have t: "t = emsmdbp_object_ftcontext.truncate sc"
        by (simp add: transfer_start_def)
      from g False have
        cs: "chunk_step sc (ftcontext_view_position E (sc\<lparr>steps := steps sc + 1\<rparr>)) ?bs = Inr (r, c')"
        by (auto simp add: synccontext_get_buffer_eq)
      have "step_result t False ?bs r (emsmdbp_object_ftcontext.truncate c')"
        using chunk_step_result [OF cs] by (simp add: t)
      moreover have "buffer (stream c') \<noteq> None"
        using chunk_step_effect(1) [OF cs] False by simp
      moreover have "?bs \<noteq> 0 \<longrightarrow> position (stream t) < length (stream_data (stream t))
                \<longrightarrow> TransferBuffer r \<noteq> []"
        using chunk_step_effect(9) [OF cs] t by (simp add: stream_data_def)
      ultimately show ?thesis using False by (auto simp add: SyncContext_object counts_steps_def)
    qed
    show ?thesis
      apply (rule exI [of _ out], rule exI [of _ r],
          rule exI [of _ "SyncContext_object parent ms c'"],
          rule exI [of _ "emsmdbp_object_ftcontext.truncate c'"])
      using res main
      by (auto simp add: out transfer_start_def counts_steps_def SyncContext_object)
  qed (use start in \<open>simp_all add: transfer_start_def\<close>)
qed

text \<open>
  A call with a non-zero buffer size returns, when the cut-mark loop can reach the
  sentinel.
\<close>

lemma getbuffer_step_returns:
  assumes obj: "ctx (handles (handle_idx q)) = Some (Some obj)"
    and start: "transfer_start K E obj = Some t"
    and sent: "sentinel_reachable t"
    and bs: "effective_buffer_size q \<noteq> 0"
  shows "\<exists>res. EcDoRpc_RopFastTransferSourceGetBuffer K E (Some ctx) (Some q) True
                  (Some handles) (Some sz) = Inr res"
proof -
  let ?bs = "effective_buffer_size q"
  have "\<exists>out. RopFastTransferSourceGetBuffer_body K E ctx q handles sz = Inr out"
  proof (cases obj)
    case (FtContext_object ft)
    with start have t: "t = ft" by (simp add: transfer_start_def)
    let ?c1 = "if position (stream ft) = 0
               then ft\<lparr>steps := 0, total_steps := length (stream_data (stream ft)) div unat ?bs + 1\<rparr>
               else ft"
    have s1: "(if position (stream ft) = 0 then start_steps ft ?bs else Inr ft) = Inr ?c1"
      using bs by (simp add: start_steps_Inr)
    have "sentinel_reachable ?c1" using sent t by simp
    from chunk_step_returns [OF this, of "position (stream ?c1)" ?bs]
    obtain r c' where "chunk_step ?c1 (position (stream ?c1)) ?bs = Inr (r, c')" by blast
    with s1 have "ftcontext_get_buffer ft ?bs = Inr (r, c')"
      unfolding ftcontext_get_buffer_eq by simp
    with obj FtContext_object show ?thesis
      by (simp add: body_ftcontext rpc_end_def)
  next
    case (SyncContext_object parent ms sc)
    show ?thesis
    proof (cases "buffer (stream sc) = None")
      case True
      let ?prep = "if contents_mode (request sc)
                   then oxcfxics_prepare_synccontext_with_messageChange K E parent sc
                   else oxcfxics_prepare_synccontext_with_folderChange K E parent sc"
      from start True SyncContext_object obtain p where p: "?prep = Inr p"
        and t: "t = emsmdbp_object_ftcontext.truncate p"
        by (auto simp add: transfer_start_def split: sum.splits)
      let ?c1 = "p\<lparr>steps := 0, total_steps := length (stream_data (stream p)) div unat ?bs + 1\<rparr>"
      have s1: "start_steps p ?bs = Inr ?c1" using bs by (simp add: start_steps_Inr)
      have "sentinel_reachable ?c1" using sent t by simp
      from chunk_step_returns [OF this,
          of "ftcontext_view_position E (?c1\<lparr>steps := steps ?c1 + 1\<rparr>)" ?bs]
      obtain r c' where
        "chunk_step ?c1 (ftcontext_view_position E (?c1\<lparr>steps := steps ?c1 + 1\<rparr>)) ?bs = Inr (r, c')"
        by blast
      with True p s1 have "synccontext_get_buffer K E parent sc ?bs = Inr (r, c')"
        unfolding synccontext_get_buffer_eq by simp
      with obj SyncContext_object show ?thesis
        by (simp add: body_synccontext rpc_end_def)
    next
      case False
      with start SyncContext_object have t: "t = emsmdbp_object_ftcontext.truncate sc"
        by (simp add: transfer_start_def)
      have "sentinel_reachable sc" using sent t by simp
      from chunk_step_returns [OF this,
          of "ftcontext_view_position E (sc\<lparr>steps := steps sc + 1\<rparr>)" ?bs]
      obtain r c' where
        "chunk_step sc (ftcontext_view_position E (sc\<lparr>steps := steps sc + 1\<rparr>)) ?bs = Inr (r, c')"
        by blast
      with False have "synccontext_get_buffer K E parent sc ?bs = Inr (r, c')"
        unfolding synccontext_get_buffer_eq by auto
      with obj SyncContext_object show ?thesis
        by (simp add: body_synccontext rpc_end_def)
    qed
  qed (use start in \<open>simp_all add: transfer_start_def\<close>)
  then show ?thesis by (auto simp add: handler_nonnull)
qed

subsection \<open>A sequence of calls\<close>

lemma getbuffer_calls_run:
  assumes "ctx (handles idx) = Some (Some obj)"
    and "transfer_start K E obj = Some t"
    and "\<forall>q\<in>set reqs. handle_idx q = idx"
    and "getbuffer_calls K E ctx handles sz reqs = Inr outs"
  shows "\<exists>rs. length rs = length reqs
           \<and> map get_buffer_reply outs = map Some rs
           \<and> (\<forall>out\<in>set outs. fst out = MAPI_E_SUCCESS
                  \<and> (\<exists>repl. snd out = Some repl \<and> error_code repl = MAPI_E_SUCCESS))
           \<and> chunks_from (stream_data (stream t)) (position (stream t)) rs
           \<and> ((\<forall>q\<in>set reqs. effective_buffer_size q \<noteq> 0)
                \<longrightarrow> chunks_progress (stream_data (stream t)) (position (stream t)) rs)
           \<and> (\<forall>N. total_steps t = N \<and> (counts_steps obj \<longrightarrow> stream_data (stream t) = [] \<and> N = 1)
                  \<longrightarrow> (\<forall>r\<in>set rs. TotalStepCount r = N))"
  using assms
proof (induction reqs arbitrary: ctx obj t sz outs)
  case Nil
  then show ?case by simp
next
  case (Cons q qs)
  from Cons.prems(3) have idx: "handle_idx q = idx"
    and rest: "\<forall>q\<in>set qs. handle_idx q = idx" by simp_all
  from Cons.prems(1) idx have o: "ctx (handles (handle_idx q)) = Some (Some obj)" by simp
  from Cons.prems(4) obtain res where
    call: "EcDoRpc_RopFastTransferSourceGetBuffer K E (Some ctx) (Some q) True (Some handles) (Some sz)
             = Inr res"
    by (auto split: sum.splits)
  from getbuffer_step [where ctx = ctx and handles = handles and q = q and sz = sz,
      OF o Cons.prems(2) call]
  obtain out r obj' t' where
    res: "res = (MAPI_E_SUCCESS, Some out)"
    and oh: "out_handles out = handles"
    and oc: "out_ctx out = ctx(handles (handle_idx q) := Some (Some obj'))"
    and ec: "error_code (out_repl out) = MAPI_E_SUCCESS"
    and ur: "u_repl (out_repl out) = GetBuffer_repl r"
    and ts: "transfer_start K E obj' = Some t'"
    and cs: "counts_steps obj' = (position (stream t') = 0 \<and> (\<exists>ft. obj' = FtContext_object ft))"
    and kind: "(\<exists>ft. obj' = FtContext_object ft) = (\<exists>ft. obj = FtContext_object ft)"
    and sr: "step_result t (counts_steps obj) (effective_buffer_size q) r t'"
    and prog: "effective_buffer_size q \<noteq> 0 \<longrightarrow> position (stream t) < length (stream_data (stream t))
                \<longrightarrow> TransferBuffer r \<noteq> []"
    by blast
  from sr have d: "stream_data (stream t') = stream_data (stream t)"
    and pos: "position (stream t') = position (stream t) + length (TransferBuffer r)"
    and tb: "TransferBuffer r = take (length (TransferBuffer r))
               (drop (position (stream t)) (stream_data (stream t)))"
    and st: "(TransferStatus r = TransferStatus_Done) =
               (position (stream t') = length (stream_data (stream t)))"
    and tot: "total_steps t' = (if counts_steps obj
                then length (stream_data (stream t)) div unat (effective_buffer_size q) + 1
                else total_steps t)"
    and tsc: "TotalStepCount r = total_steps t'"
    by (simp_all add: step_result_def stream_data_def)
  from Cons.prems(4) call res oh obtain outs' where
    run: "getbuffer_calls K E (out_ctx out) handles (out_size out) qs = Inr outs'"
    and outs: "outs = (MAPI_E_SUCCESS, Some (out_repl out)) # outs'"
    by (auto split: sum.splits)
  have o': "out_ctx out (handles idx) = Some (Some obj')"
    by (simp add: oc idx)
  from Cons.IH [of "out_ctx out" obj' t' "out_size out" outs', OF o' ts rest run]
  obtain rs where
    len: "length rs = length qs"
    and reps: "map get_buffer_reply outs' = map Some rs"
    and succ: "\<forall>out\<in>set outs'. fst out = MAPI_E_SUCCESS
                  \<and> (\<exists>repl. snd out = Some repl \<and> error_code repl = MAPI_E_SUCCESS)"
    and ch: "chunks_from (stream_data (stream t')) (position (stream t')) rs"
    and pg: "(\<forall>q\<in>set qs. effective_buffer_size q \<noteq> 0)
                \<longrightarrow> chunks_progress (stream_data (stream t')) (position (stream t')) rs"
    and cnt: "\<forall>N. total_steps t' = N \<and> (counts_steps obj' \<longrightarrow> stream_data (stream t') = [] \<and> N = 1)
                  \<longrightarrow> (\<forall>r\<in>set rs. TotalStepCount r = N)"
    by auto
  have r2: "map get_buffer_reply outs = map Some (r # rs)"
    using reps ur by (simp add: get_buffer_reply_def outs)
  have r3: "\<forall>out\<in>set outs. fst out = MAPI_E_SUCCESS
                  \<and> (\<exists>repl. snd out = Some repl \<and> error_code repl = MAPI_E_SUCCESS)"
    using succ ec by (simp add: outs)
  have r4: "chunks_from (stream_data (stream t)) (position (stream t)) (r # rs)"
    using ch tb st pos d by simp
  have r5: "(\<forall>q\<in>set (q # qs). effective_buffer_size q \<noteq> 0)
                \<longrightarrow> chunks_progress (stream_data (stream t)) (position (stream t)) (r # rs)"
    using pg prog pos d by (auto simp add: not_less)
  have r6: "\<forall>N. total_steps t = N \<and> (counts_steps obj \<longrightarrow> stream_data (stream t) = [] \<and> N = 1)
                  \<longrightarrow> (\<forall>x\<in>set (r # rs). TotalStepCount x = N)"
  proof (intro allI impI)
    fix N assume a: "total_steps t = N \<and> (counts_steps obj \<longrightarrow> stream_data (stream t) = [] \<and> N = 1)"
    have tN: "total_steps t' = N" using a tot by auto
    have "counts_steps obj' \<longrightarrow> stream_data (stream t') = [] \<and> N = 1"
    proof
      assume c': "counts_steps obj'"
      with cs have p0: "position (stream t') = 0" and ft: "\<exists>ft. obj' = FtContext_object ft"
        by simp_all
      from p0 pos have pt: "position (stream t) = 0" by simp
      from ft kind have "\<exists>ft. obj = FtContext_object ft" by simp
      with pt Cons.prems(2) have "counts_steps obj"
        by (auto simp add: counts_steps_def transfer_start_def)
      with a d show "stream_data (stream t') = [] \<and> N = 1" by simp
    qed
    with cnt tN have "\<forall>x\<in>set rs. TotalStepCount x = N" by blast
    with tsc tN show "\<forall>x\<in>set (r # rs). TotalStepCount x = N" by simp
  qed
  show ?case
    apply (rule exI [of _ "r # rs"])
    using r2 r3 r4 r5 r6 len by simp
qed

lemma getbuffer_calls_return:
  assumes "ctx (handles idx) = Some (Some obj)"
    and "transfer_start K E obj = Some t"
    and "sentinel_reachable t"
    and "\<forall>q\<in>set reqs. handle_idx q = idx \<and> effective_buffer_size q \<noteq> 0"
  shows "\<exists>outs. getbuffer_calls K E ctx handles sz reqs = Inr outs"
  using assms
proof (induction reqs arbitrary: ctx obj t sz)
  case Nil
  show ?case by simp
next
  case (Cons q qs)
  from Cons.prems(4) have idx: "handle_idx q = idx" and bs: "effective_buffer_size q \<noteq> 0"
    and rest: "\<forall>q\<in>set qs. handle_idx q = idx \<and> effective_buffer_size q \<noteq> 0" by simp_all
  from Cons.prems(1) idx have o: "ctx (handles (handle_idx q)) = Some (Some obj)" by simp
  from getbuffer_step_returns [where ctx = ctx and handles = handles and q = q and sz = sz,
      OF o Cons.prems(2) Cons.prems(3) bs]
  obtain res where
    call: "EcDoRpc_RopFastTransferSourceGetBuffer K E (Some ctx) (Some q) True (Some handles) (Some sz)
             = Inr res" by blast
  from getbuffer_step [where ctx = ctx and handles = handles and q = q and sz = sz,
      OF o Cons.prems(2) call]
  obtain out r obj' t' where
    res: "res = (MAPI_E_SUCCESS, Some out)"
    and oh: "out_handles out = handles"
    and oc: "out_ctx out = ctx(handles (handle_idx q) := Some (Some obj'))"
    and ts: "transfer_start K E obj' = Some t'"
    and sr: "step_result t (counts_steps obj) (effective_buffer_size q) r t'"
    by blast
  have sent': "sentinel_reachable t'"
    using Cons.prems(3) sr by (simp add: sentinel_reachable_def step_result_def)
  have o': "out_ctx out (handles idx) = Some (Some obj')"
    by (simp add: oc idx)
  from Cons.IH [of "out_ctx out" obj' t' "out_size out", OF o' ts sent' rest]
  obtain outs where "getbuffer_calls K E (out_ctx out) handles (out_size out) qs = Inr outs"
    by blast
  with call res oh show ?case by simp
qed

subsection \<open>Chunks in a row\<close>

lemma chunks_from_concat:
  "chunks_from data p rs \<Longrightarrow>
     concat (map TransferBuffer rs) = take (length (concat (map TransferBuffer rs))) (drop p data)"
proof (induction rs arbitrary: p)
  case Nil
  show ?case by simp
next
  case (Cons r rs)
  let ?n = "length (TransferBuffer r)"
  let ?m = "length (concat (map TransferBuffer rs))"
  from Cons.prems have h: "TransferBuffer r = take ?n (drop p data)"
    and t: "chunks_from data (p + ?n) rs" by simp_all
  from Cons.IH [OF t] have i: "concat (map TransferBuffer rs) = take ?m (drop (p + ?n) data)" .
  have "concat (map TransferBuffer (r # rs)) = take ?n (drop p data) @ take ?m (drop ?n (drop p data))"
    using h i by (simp add: add.commute)
  also have "\<dots> = take (?n + ?m) (drop p data)" by (simp add: take_add)
  finally have f: "concat (map TransferBuffer (r # rs)) = take (?n + ?m) (drop p data)" .
  have l: "length (concat (map TransferBuffer (r # rs))) = ?n + ?m" by simp
  show ?case unfolding l by (rule f)
qed

lemma chunks_from_done:
  "chunks_from data p rs \<Longrightarrow> n < length rs \<Longrightarrow> TransferStatus (rs ! n) = TransferStatus_Done \<Longrightarrow>
     concat (map TransferBuffer (take (Suc n) rs)) = drop p data"
proof (induction rs arbitrary: p n)
  case Nil
  then show ?case by simp
next
  case (Cons r rs)
  let ?k = "length (TransferBuffer r)"
  from Cons.prems(1) have h: "TransferBuffer r = take ?k (drop p data)"
    and dn: "(TransferStatus r = TransferStatus_Done) = (p + ?k = length data)"
    and t: "chunks_from data (p + ?k) rs" by simp_all
  show ?case
  proof (cases n)
    case 0
    with Cons.prems(3) dn have e: "p + ?k = length data" by simp
    then have "take ?k (drop p data) = drop p data" by simp
    with h 0 show ?thesis by simp
  next
    case (Suc m)
    with Cons.prems have "m < length rs" "TransferStatus (rs ! m) = TransferStatus_Done" by simp_all
    from Cons.IH [OF t this]
    have "concat (map TransferBuffer (take (Suc m) rs)) = drop ?k (drop p data)"
      by (simp add: add.commute)
    then have "concat (map TransferBuffer (take (Suc n) (r # rs)))
        = take ?k (drop p data) @ drop ?k (drop p data)"
      using h Suc by simp
    also have "\<dots> = drop p data" by (rule append_take_drop_id)
    finally show ?thesis .
  qed
qed

lemma chunks_from_finishes:
  "chunks_from data p rs \<Longrightarrow> chunks_progress data p rs \<Longrightarrow> p \<le> length data \<Longrightarrow>
     length data - p < length rs \<Longrightarrow> TransferStatus (last rs) = TransferStatus_Done"
proof (induction rs arbitrary: p)
  case Nil
  then show ?case by simp
next
  case (Cons r rs)
  let ?k = "length (TransferBuffer r)"
  from Cons.prems(1) have h: "TransferBuffer r = take ?k (drop p data)"
    and dn: "(TransferStatus r = TransferStatus_Done) = (p + ?k = length data)"
    and t: "chunks_from data (p + ?k) rs" by simp_all
  from Cons.prems(2) have pr: "TransferBuffer r = [] \<longrightarrow> length data \<le> p"
    and tp: "chunks_progress data (p + ?k) rs" by simp_all
  have kb: "?k \<le> length data - p"
  proof -
    have "length (take ?k (drop p data)) \<le> length data - p" by simp
    with h show ?thesis by simp
  qed
  show ?case
  proof (cases "rs = []")
    case True
    with Cons.prems have "p = length data" by simp
    with kb dn True show ?thesis by simp
  next
    case False
    have le: "p + ?k \<le> length data" using kb Cons.prems(3) by simp
    have "length data - (p + ?k) < length rs"
    proof (cases "p < length data")
      case True
      with pr have k: "0 < ?k" by auto
      have "length data - p < Suc (length rs)" using Cons.prems(4) by simp
      with k True show ?thesis by linarith
    next
      case False
      with \<open>rs \<noteq> []\<close> show ?thesis by simp
    qed
    from Cons.IH [OF t tp le this] False show ?thesis by simp
  qed
qed

subsection \<open>The claims about the chunker\<close>

lemma example_ftcontext_start:
  "example_ft_handles ((\<lambda>i. 7) (0 :: byte)) = Some (Some (FtContext_object example_ftcontext))"
  "transfer_start example_consts example_env (FtContext_object example_ftcontext :: points emsmdbp_object)
     = Some example_ftcontext"
  "position (stream example_ftcontext) = 0"
  "sentinel_reachable example_ftcontext"
  "stream_data (stream example_ftcontext) = [1, 2, 3, 4, 5, 6, 7, 8, 9, 10]"
  "counts_steps (FtContext_object example_ftcontext)"
  by (simp_all add: example_ft_handles_def transfer_start_def example_ftcontext_def
      sentinel_reachable_def stream_data_def counts_steps_def)

text \<open>
  C2. Take an object that holds a stream at position 0 (a transfer context, or a sync
  context, whose stream the first call produces when it has none), and any sequence of
  \<^verbatim>\<open>FastTransferSourceGetBuffer\<close> calls on its handle. If the calls return, each
  chunk returned starts in the stream where the one before it ended, the chunks
  concatenated are an initial part of the stream, and up to the first chunk marked
  \<^verbatim>\<open>Done\<close> they are the whole stream, byte for byte. The calls do return when every
  requested size is non-zero and the cut-mark loop can reach the sentinel, and then
  \<^verbatim>\<open>Done\<close> is reached after at most one call more than the stream has bytes.
\<close>

theorem getbuffer_chunks_cover_stream:
  assumes "ctx (handles idx) = Some (Some obj)"
    and "transfer_start K E obj = Some t"
    and "position (stream t) = 0"
    and "\<forall>q\<in>set reqs. handle_idx q = idx"
  shows "(\<forall>outs. getbuffer_calls K E ctx handles sz reqs = Inr outs \<longrightarrow>
            (\<exists>rs. map get_buffer_reply outs = map Some rs \<and> length rs = length reqs
               \<and> chunks_from (stream_data (stream t)) 0 rs
               \<and> concat (map TransferBuffer rs)
                   = take (length (concat (map TransferBuffer rs))) (stream_data (stream t))
               \<and> (\<forall>n<length rs. TransferStatus (rs ! n) = TransferStatus_Done \<longrightarrow>
                      concat (map TransferBuffer (take (Suc n) rs)) = stream_data (stream t))))
         \<and> (sentinel_reachable t \<and> (\<forall>q\<in>set reqs. effective_buffer_size q \<noteq> 0) \<longrightarrow>
            (\<exists>outs rs. getbuffer_calls K E ctx handles sz reqs = Inr outs
               \<and> map get_buffer_reply outs = map Some rs
               \<and> (length (stream_data (stream t)) < length reqs \<longrightarrow>
                      TransferStatus (last rs) = TransferStatus_Done
                      \<and> concat (map TransferBuffer rs) = stream_data (stream t))))"
proof (intro conjI allI impI)
  fix outs assume run: "getbuffer_calls K E ctx handles sz reqs = Inr outs"
  from getbuffer_calls_run [of ctx handles idx obj K E t reqs sz outs, OF assms(1,2,4) run] assms(3)
  obtain rs where len: "length rs = length reqs"
    and reps: "map get_buffer_reply outs = map Some rs"
    and ch: "chunks_from (stream_data (stream t)) 0 rs" by auto
  from chunks_from_concat [OF ch]
  have c: "concat (map TransferBuffer rs)
      = take (length (concat (map TransferBuffer rs))) (stream_data (stream t))" by simp
  have d: "\<forall>n<length rs. TransferStatus (rs ! n) = TransferStatus_Done \<longrightarrow>
      concat (map TransferBuffer (take (Suc n) rs)) = stream_data (stream t)"
    using chunks_from_done [OF ch] by simp
  from len reps ch c d
  show "\<exists>rs. map get_buffer_reply outs = map Some rs \<and> length rs = length reqs
               \<and> chunks_from (stream_data (stream t)) 0 rs
               \<and> concat (map TransferBuffer rs)
                   = take (length (concat (map TransferBuffer rs))) (stream_data (stream t))
               \<and> (\<forall>n<length rs. TransferStatus (rs ! n) = TransferStatus_Done \<longrightarrow>
                      concat (map TransferBuffer (take (Suc n) rs)) = stream_data (stream t))"
    by blast
next
  assume h: "sentinel_reachable t \<and> (\<forall>q\<in>set reqs. effective_buffer_size q \<noteq> 0)"
  with assms(4) have all: "\<forall>q\<in>set reqs. handle_idx q = idx \<and> effective_buffer_size q \<noteq> 0"
    by simp
  from h have sent: "sentinel_reachable t" by simp
  from getbuffer_calls_return [of ctx handles idx obj K E t reqs sz, OF assms(1,2) sent all]
  obtain outs where run: "getbuffer_calls K E ctx handles sz reqs = Inr outs" by blast
  from getbuffer_calls_run [of ctx handles idx obj K E t reqs sz outs, OF assms(1,2,4) run] assms(3) h
  obtain rs where len: "length rs = length reqs"
    and reps: "map get_buffer_reply outs = map Some rs"
    and ch: "chunks_from (stream_data (stream t)) 0 rs"
    and pg: "chunks_progress (stream_data (stream t)) 0 rs" by auto
  have "length (stream_data (stream t)) < length reqs \<longrightarrow>
          TransferStatus (last rs) = TransferStatus_Done
          \<and> concat (map TransferBuffer rs) = stream_data (stream t)"
  proof
    assume l: "length (stream_data (stream t)) < length reqs"
    then have ne: "rs \<noteq> []" using len by auto
    from chunks_from_finishes [OF ch pg] l len
    have dn: "TransferStatus (last rs) = TransferStatus_Done" by simp
    from ne have "last rs = rs ! (length rs - 1)" by (simp add: last_conv_nth)
    with dn chunks_from_done [OF ch, of "length rs - 1"] ne
    have "concat (map TransferBuffer (take (Suc (length rs - 1)) rs)) = drop 0 (stream_data (stream t))"
      by simp
    with ne have "concat (map TransferBuffer rs) = stream_data (stream t)" by simp
    with dn show "TransferStatus (last rs) = TransferStatus_Done
          \<and> concat (map TransferBuffer rs) = stream_data (stream t)" by simp
  qed
  with run reps
  show "\<exists>outs rs. getbuffer_calls K E ctx handles sz reqs = Inr outs
               \<and> map get_buffer_reply outs = map Some rs
               \<and> (length (stream_data (stream t)) < length reqs \<longrightarrow>
                      TransferStatus (last rs) = TransferStatus_Done
                      \<and> concat (map TransferBuffer rs) = stream_data (stream t))"
    by blast
qed

theorem getbuffer_chunks_cover_stream_witness:
  "\<exists>outs rs. getbuffer_calls example_consts example_env example_ft_handles (\<lambda>i. 7) 0
                 (replicate 11 (getbuffer_request 6)) = Inr outs
     \<and> map get_buffer_reply outs = map Some rs
     \<and> TransferStatus (last rs) = TransferStatus_Done
     \<and> concat (map TransferBuffer rs) = [1, 2, 3, 4, 5, 6, 7, 8, 9, 10]"
proof -
  have q: "\<forall>q\<in>set (replicate 11 (getbuffer_request 6)). handle_idx q = 0"
    by (simp add: getbuffer_request_def)
  have z: "\<forall>q\<in>set (replicate 11 (getbuffer_request 6)). effective_buffer_size q \<noteq> 0"
    by (simp add: getbuffer_request_def effective_buffer_size_def)
  from getbuffer_chunks_cover_stream [of example_ft_handles "\<lambda>i. 7" 0
      "FtContext_object example_ftcontext" example_consts example_env example_ftcontext
      "replicate 11 (getbuffer_request 6)" 0, OF example_ftcontext_start(1,2,3) q]
    example_ftcontext_start(4) z
  show ?thesis by (simp add: example_ftcontext_start(5))
qed

text \<open>
  C6, as stated, fails: on a stream of ten bytes a first request for five bytes is
  answered with \<^verbatim>\<open>TotalStepCount\<close> 3, where \<open>ceil(10 / 5)\<close> is 2.
\<close>

theorem total_step_count_not_ceiling:
  "reported_total_steps
     (EcDoRpc_RopFastTransferSourceGetBuffer example_consts example_env (Some example_ft_handles)
        (Some (getbuffer_request 5)) True (Some (\<lambda>i. 7)) (Some 0)) = Some 3
   \<and> ceil_div 10 5 = 2"
  by (simp add: reported_total_steps_def EcDoRpc_RopFastTransferSourceGetBuffer_def rpc_handler_def
      sanity_checks_def RopFastTransferSourceGetBuffer_body_def Let_def example_ft_handles_def
      getbuffer_request_def ftcontext_get_buffer_def start_steps_def cut_buffer_size_def
      cutmark_scan_pos read_chunk_def emsmdbp_stream_read_buffer_def rpc_end_def
      buffer_length_def example_ftcontext_def ceil_div_def)

text \<open>
  C6, amended. On an object at its first call (a transfer context at position 0, a sync
  context whose stream is produced by the call), every call of a sequence of
  \<^verbatim>\<open>FastTransferSourceGetBuffer\<close> calls that return reports the same
  \<^verbatim>\<open>TotalStepCount\<close>: the stream length divided (rounding down) by the buffer size
  of the first request, plus one. The calls return when every requested size is
  non-zero and the cut-mark loop can reach the sentinel.
\<close>

theorem total_step_count_fixed:
  assumes "ctx (handles idx) = Some (Some obj)"
    and "transfer_start K E obj = Some t"
    and "counts_steps obj"
    and "\<forall>q\<in>set (q0 # qs). handle_idx q = idx"
  shows "(\<forall>outs. getbuffer_calls K E ctx handles sz (q0 # qs) = Inr outs \<longrightarrow>
            (\<exists>rs. map get_buffer_reply outs = map Some rs \<and> length rs = Suc (length qs)
               \<and> (\<forall>r\<in>set rs. TotalStepCount r =
                      length (stream_data (stream t)) div unat (effective_buffer_size q0) + 1)))
         \<and> (sentinel_reachable t \<and> (\<forall>q\<in>set (q0 # qs). effective_buffer_size q \<noteq> 0) \<longrightarrow>
            (\<exists>outs. getbuffer_calls K E ctx handles sz (q0 # qs) = Inr outs))"
proof (intro conjI allI impI)
  let ?N = "length (stream_data (stream t)) div unat (effective_buffer_size q0) + 1"
  fix outs assume run: "getbuffer_calls K E ctx handles sz (q0 # qs) = Inr outs"
  from assms(4) have idx: "handle_idx q0 = idx" and rest: "\<forall>q\<in>set qs. handle_idx q = idx"
    by simp_all
  from assms(1) idx have o: "ctx (handles (handle_idx q0)) = Some (Some obj)" by simp
  from run obtain res where
    call: "EcDoRpc_RopFastTransferSourceGetBuffer K E (Some ctx) (Some q0) True (Some handles) (Some sz)
             = Inr res"
    by (auto split: sum.splits)
  from getbuffer_step [where ctx = ctx and handles = handles and q = q0 and sz = sz,
      OF o assms(2) call]
  obtain out r obj' t' where
    res: "res = (MAPI_E_SUCCESS, Some out)"
    and oh: "out_handles out = handles"
    and oc: "out_ctx out = ctx(handles (handle_idx q0) := Some (Some obj'))"
    and ur: "u_repl (out_repl out) = GetBuffer_repl r"
    and ts: "transfer_start K E obj' = Some t'"
    and cs: "counts_steps obj' = (position (stream t') = 0 \<and> (\<exists>ft. obj' = FtContext_object ft))"
    and sr: "step_result t (counts_steps obj) (effective_buffer_size q0) r t'"
    and prog: "effective_buffer_size q0 \<noteq> 0 \<longrightarrow> position (stream t) < length (stream_data (stream t))
                \<longrightarrow> TransferBuffer r \<noteq> []"
    and nz: "counts_steps obj \<longrightarrow> effective_buffer_size q0 \<noteq> 0"
    by blast
  from sr assms(3) have d: "stream_data (stream t') = stream_data (stream t)"
    and pos: "position (stream t') = position (stream t) + length (TransferBuffer r)"
    and tot: "total_steps t' = ?N"
    and tsc: "TotalStepCount r = total_steps t'"
    by (simp_all add: step_result_def stream_data_def)
  from run call res oh obtain outs' where
    run': "getbuffer_calls K E (out_ctx out) handles (out_size out) qs = Inr outs'"
    and outs: "outs = (MAPI_E_SUCCESS, Some (out_repl out)) # outs'"
    by (auto split: sum.splits)
  have o': "out_ctx out (handles idx) = Some (Some obj')"
    by (simp add: oc idx)
  have inv: "counts_steps obj' \<longrightarrow> stream_data (stream t') = [] \<and> ?N = 1"
  proof
    assume "counts_steps obj'"
    with cs pos have p0: "position (stream t) = 0" and e: "TransferBuffer r = []" by simp_all
    from nz assms(3) prog e p0 have "stream_data (stream t) = []" by auto
    with d show "stream_data (stream t') = [] \<and> ?N = 1" by simp
  qed
  from getbuffer_calls_run [of "out_ctx out" handles idx obj' K E t' qs "out_size out" outs',
      OF o' ts rest run']
  obtain rs where len: "length rs = length qs"
    and reps: "map get_buffer_reply outs' = map Some rs"
    and cnt: "\<forall>N. total_steps t' = N \<and> (counts_steps obj' \<longrightarrow> stream_data (stream t') = [] \<and> N = 1)
                  \<longrightarrow> (\<forall>r\<in>set rs. TotalStepCount r = N)"
    by blast
  from cnt tot inv have all: "\<forall>r\<in>set rs. TotalStepCount r = ?N" by blast
  have "map get_buffer_reply outs = map Some (r # rs)"
    using reps ur by (simp add: outs get_buffer_reply_def)
  moreover have "length (r # rs) = Suc (length qs)" using len by simp
  moreover have "\<forall>x\<in>set (r # rs). TotalStepCount x = ?N" using all tsc tot by simp
  ultimately show "\<exists>rs. map get_buffer_reply outs = map Some rs \<and> length rs = Suc (length qs)
               \<and> (\<forall>r\<in>set rs. TotalStepCount r = ?N)"
    by blast
next
  assume h: "sentinel_reachable t \<and> (\<forall>q\<in>set (q0 # qs). effective_buffer_size q \<noteq> 0)"
  with assms(4) have all: "\<forall>q\<in>set (q0 # qs). handle_idx q = idx \<and> effective_buffer_size q \<noteq> 0"
    by simp
  from h have sent: "sentinel_reachable t" by simp
  from getbuffer_calls_return [of ctx handles idx obj K E t "q0 # qs" sz, OF assms(1,2) sent all]
  show "\<exists>outs. getbuffer_calls K E ctx handles sz (q0 # qs) = Inr outs" .
qed

theorem total_step_count_fixed_witness:
  "\<exists>outs rs. getbuffer_calls example_consts example_env example_ft_handles (\<lambda>i. 7) 0
                 [getbuffer_request 5, getbuffer_request 3, getbuffer_request 4] = Inr outs
     \<and> map get_buffer_reply outs = map Some rs
     \<and> length rs = 3
     \<and> list_all (\<lambda>r. TotalStepCount r = 3) rs"
proof -
  have q: "\<forall>q\<in>set [getbuffer_request 5, getbuffer_request 3, getbuffer_request 4]. handle_idx q = 0"
    by (simp add: getbuffer_request_def)
  have z: "\<forall>q\<in>set [getbuffer_request 5, getbuffer_request 3, getbuffer_request 4].
             effective_buffer_size q \<noteq> 0"
    by (simp add: getbuffer_request_def effective_buffer_size_def)
  have e: "effective_buffer_size (getbuffer_request 5) = 5"
    by (simp add: getbuffer_request_def effective_buffer_size_def)
  from total_step_count_fixed [of example_ft_handles "\<lambda>i. 7" 0
      "FtContext_object example_ftcontext" example_consts example_env example_ftcontext
      "getbuffer_request 5" "[getbuffer_request 3, getbuffer_request 4]" 0,
      OF example_ftcontext_start(1,2,6) q]
    example_ftcontext_start(4) z
  show ?thesis by (auto simp add: example_ftcontext_start(5) e list_all_iff)
qed

section \<open>State upload\<close>

lemma find_synccontext_upd:
  "find_synccontext (ctx(h := Some (Some (SyncContext_object parent ms sc)))) h = Some (parent, ms, sc)"
  by (simp add: find_synccontext_def)

lemma upload_begin_effect:
  assumes "find_synccontext ctx (handles idx) = Some (parent, ms, sc)"
    and "state_property sc = 0"
    and "property = PidTagIdsetGiven K \<or> property \<in> cnset_properties K"
  shows "EcDoRpc_RopSyncUploadStateStreamBegin K E (Some ctx) (Some (begin_request idx property)) True
           (Some handles) (Some sz)
         = Inr (MAPI_E_SUCCESS,
             Some \<lparr> out_repl = reply_to (begin_request idx property),
                    out_ctx = ctx(handles idx := Some (Some (SyncContext_object parent ms
                        (sc\<lparr>state_property := property,
                             state_stream := \<lparr> position = 0, buffer = Some [] \<rparr>\<rparr>)))),
                    out_handles = handles,
                    out_size = sz + rop_size E RopSyncUploadStateStreamBegin
                                       (reply_to (begin_request idx property)),
                    out_store_calls = [] \<rparr>)"
  using assms
  by (auto simp add: EcDoRpc_RopSyncUploadStateStreamBegin_def rpc_handler_def sanity_checks_def
      RopSyncUploadStateStreamBegin_body_def Let_def rpc_end_def begin_request_def
      cnset_properties_def)

lemma upload_continue_effect:
  assumes "find_synccontext ctx (handles idx) = Some (parent, ms, sc)"
    and "state_property sc \<noteq> 0"
    and "length bytes < 2 ^ 32"
  shows "EcDoRpc_RopSyncUploadStateStreamContinue E (Some ctx) (Some (continue_request idx bytes)) True
           (Some handles) (Some sz)
         = Inr (MAPI_E_SUCCESS,
             Some \<lparr> out_repl = reply_to (continue_request idx bytes),
                    out_ctx = ctx(handles idx := Some (Some (SyncContext_object parent ms
                        (sc\<lparr>state_stream := (state_stream sc)
                              \<lparr>buffer := Some (stream_data (state_stream sc) @ bytes)\<rparr>\<rparr>)))),
                    out_handles = handles,
                    out_size = sz + rop_size E RopSyncUploadStateStreamContinue
                                       (reply_to (continue_request idx bytes)),
                    out_store_calls = [] \<rparr>)"
proof -
  from assms(3) have "unat (word_of_nat (length bytes) :: 32 word) = length bytes"
    by (simp add: unsigned_of_nat take_bit_nat_eq_self)
  with assms(1,2) show ?thesis
    by (simp add: EcDoRpc_RopSyncUploadStateStreamContinue_def rpc_handler_def sanity_checks_def
        RopSyncUploadStateStreamContinue_body_def Let_def rpc_end_def continue_request_def
        emsmdbp_stream_write_buffer_def)
qed

lemma upload_end_effect:
  assumes "find_synccontext ctx (handles (handle_idx q)) = Some (parent, ms, sc)"
    and "state_property sc \<noteq> 0"
    and "install_parsed_idset K (IDSET_parse E (stream_data (state_stream sc))) sc = Inr sc'"
  shows "EcDoRpc_RopSyncUploadStateStreamEnd K E (Some ctx) (Some q) True (Some handles) (Some sz)
         = Inr (MAPI_E_SUCCESS,
             Some \<lparr> out_repl = reply_to q,
                    out_ctx = ctx(handles (handle_idx q) := Some (Some (SyncContext_object parent ms
                        (reset_state_stream sc')))),
                    out_handles = handles,
                    out_size = sz + rop_size E RopSyncUploadStateStreamEnd (reply_to q),
                    out_store_calls = [] \<rparr>)"
  using assms
  by (simp add: EcDoRpc_RopSyncUploadStateStreamEnd_def rpc_handler_def sanity_checks_def
      RopSyncUploadStateStreamEnd_body_def Let_def rpc_end_def)

lemma install_cnset:
  assumes "state_property sc \<in> cnset_properties K" and "state_properties_ok K"
  shows "install_parsed_idset K parsed sc
         = Inr (sc\<lparr>cnset_seen := map_option (\<lambda>p. p\<lparr>single_flag := True\<rparr>) parsed\<rparr>)"
  using assms
  by (auto simp add: install_parsed_idset_def cnset_properties_def state_properties_ok_def)

lemma install_none:
  "install_parsed_idset K None sc
   = Inr (if state_property sc = PidTagIdsetGiven K then sc\<lparr>idset_given := None\<rparr>
          else if state_property sc \<in> cnset_properties K then sc\<lparr>cnset_seen := None\<rparr>
          else sc)"
  by (simp add: install_parsed_idset_def cnset_properties_def)

lemma reset_state_stream_fields:
  "state_property (reset_state_stream sc) = 0"
  "stream_data (state_stream (reset_state_stream sc)) = []"
  "idset_given (reset_state_stream sc) = idset_given sc"
  "cnset_seen (reset_state_stream sc) = cnset_seen sc"
  "request (reset_state_stream sc) = request sc"
  "properties (reset_state_stream sc) = properties sc"
  "is_collector (reset_state_stream sc) = is_collector sc"
  "emsmdbp_object_ftcontext.truncate (reset_state_stream sc) = emsmdbp_object_ftcontext.truncate sc"
  by (auto simp add: reset_state_stream_def stream_data_def buffer_length_def
      emsmdbp_object_ftcontext.truncate_def split: option.splits)

lemma truncate_slot_update:
  "emsmdbp_object_ftcontext.truncate (sc\<lparr>idset_given := x\<rparr>) = emsmdbp_object_ftcontext.truncate sc"
  "emsmdbp_object_ftcontext.truncate (sc\<lparr>cnset_seen := x\<rparr>) = emsmdbp_object_ftcontext.truncate sc"
  by (simp_all add: emsmdbp_object_ftcontext.truncate_def)

lemma example_consts_ok: "state_properties_ok example_consts"
  by (simp add: state_properties_ok_def cnset_properties_def example_consts_def)

lemma armed_handles_find:
  "find_synccontext armed_handles ((\<lambda>i. 9) (handle_idx (end_request 0)))
   = Some (example_folder, True, armed_synccontext)"
  by (simp add: find_synccontext_def armed_handles_def)

lemma armed_synccontext_fields:
  "state_property armed_synccontext = 0x67960102"
  "stream_data (state_stream armed_synccontext) = [1, 2, 3]"
  "IDSET_parse example_env [1, 2, 3] = None"
  "PidTagCnsetSeen example_consts = 0x67960102"
  "PidTagIdsetGiven example_consts = 0x40170003"
  by (simp_all add: armed_synccontext_def stream_data_def example_env_def points_parse_def
      example_consts_def)

text \<open>
  C5, as stated, fails: with an upload of \<^verbatim>\<open>PidTagCnsetSeen\<close> pending and three
  bytes received, which the parser rejects, \<^verbatim>\<open>SyncUploadStateStreamEnd\<close> returns
  with the reply's \<^verbatim>\<open>error_code\<close> \<^verbatim>\<open>MAPI_E_SUCCESS\<close>.
\<close>

theorem upload_end_malformed_succeeds:
  "IDSET_parse example_env (stream_data (state_stream armed_synccontext)) = None
   \<and> rpc_status (EcDoRpc_RopSyncUploadStateStreamEnd example_consts example_env (Some armed_handles)
        (Some (end_request 0)) True (Some (\<lambda>i. 9)) (Some 0))
     = Some (MAPI_E_SUCCESS, MAPI_E_SUCCESS)"
proof -
  have s: "state_property armed_synccontext \<noteq> 0"
    by (simp add: armed_synccontext_fields)
  have i: "install_parsed_idset example_consts
             (IDSET_parse example_env (stream_data (state_stream armed_synccontext))) armed_synccontext
           = Inr (armed_synccontext\<lparr>cnset_seen := None\<rparr>)"
    by (simp add: armed_synccontext_fields install_none cnset_properties_def)
  show ?thesis
    by (simp add: upload_end_effect [where ctx = armed_handles and handles = "\<lambda>i. 9"
          and q = "end_request 0" and sc = armed_synccontext, OF armed_handles_find s i]
        armed_synccontext_fields rpc_status_def reply_to_def)
qed

text \<open>
  C5, amended. When the bytes received for a pending state upload are rejected by the
  IdSet parse, \<^verbatim>\<open>SyncUploadStateStreamEnd\<close> returns with the reply's
  \<^verbatim>\<open>error_code\<close> \<^verbatim>\<open>MAPI_E_SUCCESS\<close>; the slot that the pending property selects is
  left without a set, the other slot and the rest of the sync context are as before,
  and no upload is pending any more, so that \<^verbatim>\<open>SyncUploadStateStreamBegin\<close> on the
  same handle is accepted.
\<close>

theorem upload_end_parse_failure:
  assumes "find_synccontext ctx (handles (handle_idx q)) = Some (parent, ms, sc)"
    and "state_property sc \<noteq> 0"
    and "IDSET_parse E (stream_data (state_stream sc)) = None"
  shows "\<exists>out sc'.
           EcDoRpc_RopSyncUploadStateStreamEnd K E (Some ctx) (Some q) True (Some handles) (Some sz)
             = Inr (MAPI_E_SUCCESS, Some out)
           \<and> error_code (out_repl out) = MAPI_E_SUCCESS
           \<and> out_ctx out = ctx(handles (handle_idx q)
                 := Some (Some (SyncContext_object parent ms sc')))
           \<and> idset_given sc'
               = (if state_property sc = PidTagIdsetGiven K then None else idset_given sc)
           \<and> cnset_seen sc'
               = (if state_property sc \<noteq> PidTagIdsetGiven K \<and> state_property sc \<in> cnset_properties K
                  then None else cnset_seen sc)
           \<and> state_property sc' = 0 \<and> stream_data (state_stream sc') = []
           \<and> request sc' = request sc \<and> properties sc' = properties sc
           \<and> is_collector sc' = is_collector sc
           \<and> emsmdbp_object_ftcontext.truncate sc' = emsmdbp_object_ftcontext.truncate sc
           \<and> rpc_status (EcDoRpc_RopSyncUploadStateStreamBegin K E (Some (out_ctx out))
                 (Some (begin_request (handle_idx q) (PidTagIdsetGiven K))) True
                 (Some handles) (Some (out_size out)))
               = Some (MAPI_E_SUCCESS, MAPI_E_SUCCESS)"
proof -
  let ?sc1 = "if state_property sc = PidTagIdsetGiven K then sc\<lparr>idset_given := None\<rparr>
          else if state_property sc \<in> cnset_properties K then sc\<lparr>cnset_seen := None\<rparr>
          else sc"
  let ?sc' = "reset_state_stream ?sc1"
  let ?out = "\<lparr> out_repl = reply_to q,
                 out_ctx = ctx(handles (handle_idx q) := Some (Some (SyncContext_object parent ms ?sc'))),
                 out_handles = handles,
                 out_size = sz + rop_size E RopSyncUploadStateStreamEnd (reply_to q),
                 out_store_calls = [] \<rparr>"
  have i: "install_parsed_idset K (IDSET_parse E (stream_data (state_stream sc))) sc = Inr ?sc1"
    by (simp only: assms(3) install_none)
  have e: "EcDoRpc_RopSyncUploadStateStreamEnd K E (Some ctx) (Some q) True (Some handles) (Some sz)
             = Inr (MAPI_E_SUCCESS, Some ?out)"
    by (rule upload_end_effect [where ctx = ctx and handles = handles and q = q and sc = sc,
          OF assms(1,2) i])
  have f: "find_synccontext (out_ctx ?out) (handles (handle_idx q)) = Some (parent, ms, ?sc')"
    by (simp add: find_synccontext_def)
  have b: "rpc_status (EcDoRpc_RopSyncUploadStateStreamBegin K E (Some (out_ctx ?out))
                 (Some (begin_request (handle_idx q) (PidTagIdsetGiven K))) True
                 (Some handles) (Some (out_size ?out)))
               = Some (MAPI_E_SUCCESS, MAPI_E_SUCCESS)"
    by (subst upload_begin_effect [where ctx = "out_ctx ?out" and handles = handles
          and idx = "handle_idx q" and sc = ?sc', OF f])
      (simp_all add: reset_state_stream_fields rpc_status_def reply_to_def)
  show ?thesis
    apply (rule exI [of _ ?out], rule exI [of _ ?sc'])
    apply (intro conjI)
    apply (rule e)
    apply (simp add: reply_to_def)
    apply simp
    apply (simp add: reset_state_stream_fields)
    apply (simp add: reset_state_stream_fields)
    apply (simp only: reset_state_stream_fields)
    apply (simp only: reset_state_stream_fields)
    apply (simp add: reset_state_stream_fields)
    apply (simp add: reset_state_stream_fields)
    apply (simp add: reset_state_stream_fields)
    apply (simp add: reset_state_stream_fields truncate_slot_update)
    apply (rule b)
    done
qed

theorem upload_end_parse_failure_witness:
  "\<exists>out sc'.
     EcDoRpc_RopSyncUploadStateStreamEnd example_consts example_env (Some armed_handles)
        (Some (end_request 0)) True (Some (\<lambda>i. 9)) (Some 0) = Inr (MAPI_E_SUCCESS, Some out)
     \<and> error_code (out_repl out) = MAPI_E_SUCCESS
     \<and> out_ctx out 9 = Some (Some (SyncContext_object example_folder True sc'))
     \<and> idset_given sc' = Some (points_idset False [(example_guid, 5)])
     \<and> cnset_seen sc' = None
     \<and> state_property sc' = 0"
proof -
  have p: "IDSET_parse example_env (stream_data (state_stream armed_synccontext)) = None"
    by (simp add: armed_synccontext_fields)
  have s: "state_property armed_synccontext \<noteq> 0"
    by (simp add: armed_synccontext_fields)
  have g: "idset_given armed_synccontext = Some (points_idset False [(example_guid, 5)])"
    by (simp add: armed_synccontext_def example_synccontext_def)
  from upload_end_parse_failure [where ctx = armed_handles and handles = "\<lambda>i. 9"
      and q = "end_request 0" and sc = armed_synccontext and K = example_consts and sz = 0,
      OF armed_handles_find s p]
  obtain out sc' where
    "EcDoRpc_RopSyncUploadStateStreamEnd example_consts example_env (Some armed_handles)
        (Some (end_request 0)) True (Some (\<lambda>i. 9)) (Some 0) = Inr (MAPI_E_SUCCESS, Some out)"
    "error_code (out_repl out) = MAPI_E_SUCCESS"
    "out_ctx out = armed_handles(9 := Some (Some (SyncContext_object example_folder True sc')))"
    "idset_given sc' = Some (points_idset False [(example_guid, 5)])"
    "cnset_seen sc' = None"
    "state_property sc' = 0"
    by (auto simp add: armed_synccontext_fields cnset_properties_def g)
  then show ?thesis by auto
qed

subsection \<open>A whole upload\<close>

lemma state_upload_effect:
  assumes ok: "state_properties_ok K"
    and f: "find_synccontext ctx (handles idx) = Some (parent, ms, sc)"
    and idle: "state_property sc = 0"
    and p: "p = PidTagIdsetGiven K \<or> p \<in> cnset_properties K"
    and len: "length d < 2 ^ 32"
    and i: "install_parsed_idset K (IDSET_parse E d)
              (sc\<lparr>state_property := p, state_stream := \<lparr> position = 0, buffer = Some d \<rparr>\<rparr>) = Inr sc'"
  shows "\<exists>out. state_upload K E handles idx p d ctx sz = Inr (MAPI_E_SUCCESS, Some out)
           \<and> out_ctx out = ctx(handles idx := Some (Some (SyncContext_object parent ms
                 (reset_state_stream sc'))))"
proof -
  let ?scb = "sc\<lparr>state_property := p, state_stream := \<lparr> position = 0, buffer = Some [] \<rparr>\<rparr>"
  let ?scc = "sc\<lparr>state_property := p, state_stream := \<lparr> position = 0, buffer = Some d \<rparr>\<rparr>"
  let ?ctxb = "ctx(handles idx := Some (Some (SyncContext_object parent ms ?scb)))"
  let ?ctxc = "ctx(handles idx := Some (Some (SyncContext_object parent ms ?scc)))"
  from ok p have nz: "p \<noteq> 0" by (auto simp add: state_properties_ok_def)
  from upload_begin_effect [where ctx = ctx and handles = handles and idx = idx and sc = sc
      and K = K and E = E and sz = sz and property = p, OF f idle p]
  obtain o1 where b: "EcDoRpc_RopSyncUploadStateStreamBegin K E (Some ctx)
             (Some (begin_request idx p)) True (Some handles) (Some sz) = Inr (MAPI_E_SUCCESS, Some o1)"
    and c1: "out_ctx o1 = ?ctxb" by simp
  have fb: "find_synccontext ?ctxb (handles idx) = Some (parent, ms, ?scb)"
    by (rule find_synccontext_upd)
  have sb: "state_property ?scb \<noteq> 0" using nz by simp
  from upload_continue_effect [where ctx = ?ctxb and handles = handles and idx = idx
      and sc = ?scb and E = E and bytes = d and sz = "out_size o1", OF fb sb len]
  obtain o2 where c: "EcDoRpc_RopSyncUploadStateStreamContinue E (Some ?ctxb)
             (Some (continue_request idx d)) True (Some handles) (Some (out_size o1))
             = Inr (MAPI_E_SUCCESS, Some o2)"
    and c2: "out_ctx o2 = ?ctxc" by (simp add: stream_data_def)
  have fc: "find_synccontext ?ctxc (handles (handle_idx (end_request idx))) = Some (parent, ms, ?scc)"
    by (simp add: find_synccontext_def end_request_def)
  have sc: "state_property ?scc \<noteq> 0" using nz by simp
  have ic: "install_parsed_idset K (IDSET_parse E (stream_data (state_stream ?scc))) ?scc = Inr sc'"
    using i by (simp add: stream_data_def)
  from upload_end_effect [where ctx = ?ctxc and handles = handles and q = "end_request idx"
      and sc = ?scc and K = K and E = E and sz = "out_size o2", OF fc sc ic]
  obtain o3 where e: "EcDoRpc_RopSyncUploadStateStreamEnd K E (Some ?ctxc)
             (Some (end_request idx)) True (Some handles) (Some (out_size o2))
             = Inr (MAPI_E_SUCCESS, Some o3)"
    and c3: "out_ctx o3 = ctx(handles idx := Some (Some (SyncContext_object parent ms
                 (reset_state_stream sc'))))"
    by (simp add: end_request_def)
  have "state_upload K E handles idx p d ctx sz = Inr (MAPI_E_SUCCESS, Some o3)"
    unfolding state_upload_def then_rpc_def b
    apply (simp only: sum.case prod.case option.case c1 c)
    apply (simp only: sum.case prod.case option.case c2 e)
    done
  with c3 show ?thesis by blast
qed

lemma state_upload_cnset:
  assumes ok: "state_properties_ok K"
    and f: "find_synccontext ctx (handles idx) = Some (parent, ms, sc)"
    and idle: "state_property sc = 0"
    and p: "p \<in> cnset_properties K"
    and len: "length d < 2 ^ 32"
  shows "\<exists>out sc'. state_upload K E handles idx p d ctx sz = Inr (MAPI_E_SUCCESS, Some out)
           \<and> out_ctx out = ctx(handles idx := Some (Some (SyncContext_object parent ms sc')))
           \<and> cnset_seen sc' = as_single (IDSET_parse E d)
           \<and> idset_given sc' = idset_given sc
           \<and> state_property sc' = 0"
proof -
  let ?scc = "sc\<lparr>state_property := p, state_stream := \<lparr> position = 0, buffer = Some d \<rparr>\<rparr>"
  have i: "install_parsed_idset K (IDSET_parse E d) ?scc
      = Inr (?scc\<lparr>cnset_seen := map_option (\<lambda>p. p\<lparr>single_flag := True\<rparr>) (IDSET_parse E d)\<rparr>)"
    by (rule install_cnset) (simp_all add: p ok)
  from p have p': "p = PidTagIdsetGiven K \<or> p \<in> cnset_properties K" by simp
  from state_upload_effect [where ctx = ctx and handles = handles and idx = idx and sc = sc
      and sz = sz, OF ok f idle p' len i]
  obtain out where "state_upload K E handles idx p d ctx sz = Inr (MAPI_E_SUCCESS, Some out)"
    and "out_ctx out = ctx(handles idx := Some (Some (SyncContext_object parent ms
           (reset_state_stream (?scc\<lparr>cnset_seen := map_option (\<lambda>p. p\<lparr>single_flag := True\<rparr>)
              (IDSET_parse E d)\<rparr>)))))"
    by blast
  then show ?thesis
    apply (intro exI conjI)
    apply assumption
    apply assumption
    apply (simp_all add: reset_state_stream_fields as_single_def)
    done
qed

lemma state_upload_given:
  assumes ok: "state_properties_ok K"
    and f: "find_synccontext ctx (handles idx) = Some (parent, ms, sc)"
    and idle: "state_property sc = 0"
    and len: "length d < 2 ^ 32"
    and r: "\<forall>s. IDSET_parse E d = Some s \<longrightarrow> range_count s \<noteq> 0"
  shows "\<exists>out sc'. state_upload K E handles idx (PidTagIdsetGiven K) d ctx sz
             = Inr (MAPI_E_SUCCESS, Some out)
           \<and> out_ctx out = ctx(handles idx := Some (Some (SyncContext_object parent ms sc')))
           \<and> idset_given sc' = IDSET_parse E d
           \<and> cnset_seen sc' = cnset_seen sc
           \<and> state_property sc' = 0"
proof -
  let ?scc = "sc\<lparr>state_property := PidTagIdsetGiven K,
                  state_stream := \<lparr> position = 0, buffer = Some d \<rparr>\<rparr>"
  have i: "install_parsed_idset K (IDSET_parse E d) ?scc
      = Inr (?scc\<lparr>idset_given := IDSET_parse E d\<rparr>)"
    using r by (auto simp add: install_parsed_idset_def split: option.splits)
  have p': "PidTagIdsetGiven K = PidTagIdsetGiven K \<or> PidTagIdsetGiven K \<in> cnset_properties K"
    by simp
  from state_upload_effect [where ctx = ctx and handles = handles and idx = idx and sc = sc
      and sz = sz, OF ok f idle p' len i]
  obtain out where "state_upload K E handles idx (PidTagIdsetGiven K) d ctx sz
      = Inr (MAPI_E_SUCCESS, Some out)"
    and "out_ctx out = ctx(handles idx := Some (Some (SyncContext_object parent ms
           (reset_state_stream (?scc\<lparr>idset_given := IDSET_parse E d\<rparr>)))))"
    by blast
  then show ?thesis
    apply (intro exI conjI)
    apply assumption
    apply assumption
    apply (simp_all add: reset_state_stream_fields)
    done
qed

lemma object_after_Inr:
  "object_after (Inr (status, Some out)) h = (case out_ctx out h of Some (Some obj) \<Rightarrow> Some obj | _ \<Rightarrow> None)"
  by (simp add: object_after_def)

lemma example_sync_handles_find:
  "find_synccontext example_sync_handles ((\<lambda>i. 9) (0 :: byte))
   = Some (example_folder, True, example_synccontext)"
  "state_property example_synccontext = 0"
  by (simp_all add: find_synccontext_def example_sync_handles_def example_synccontext_def)

lemma example_cnset_properties:
  "0x67960102 \<in> cnset_properties example_consts"
  "0x67D20102 \<in> cnset_properties example_consts"
  by (simp_all add: cnset_properties_def example_consts_def)

lemma parse_state_bytes:
  "IDSET_parse example_env (state_bytes n) = Some (points_idset False [(example_guid, ucast n)])"
proof -
  have "le_value [n, 0, 0, 0, 0, 0] = unat n" by simp
  then show ?thesis
    by (simp add: example_env_def points_parse_def state_bytes_def example_guid_def)
qed

text \<open>
  C9. Take an idle sync context and two state uploads in a row, each for one of
  \<^verbatim>\<open>PidTagCnsetSeen\<close>, \<^verbatim>\<open>PidTagCnsetSeenFAI\<close> and \<^verbatim>\<open>PidTagCnsetRead\<close>. After
  the first, \<^verbatim>\<open>cnset_seen\<close> is the set parsed from the bytes of the first (with its
  \<^verbatim>\<open>single\<close> flag set), whatever it was before; after the second it is the set
  parsed from the bytes of the second, whichever of the three properties the two
  uploads named: nothing of the old set is kept. \<^verbatim>\<open>idset_given\<close> is as it was. An
  upload for \<^verbatim>\<open>PidTagIdsetGiven\<close> replaces \<^verbatim>\<open>idset_given\<close> in the same way and
  leaves \<^verbatim>\<open>cnset_seen\<close> as it was (when the parsed set has a range; with none the
  handler calls \<^verbatim>\<open>abort\<close>).
\<close>

theorem upload_installs_by_replacement:
  assumes ok: "state_properties_ok K"
    and f: "find_synccontext ctx (handles idx) = Some (parent, ms, sc)"
    and idle: "state_property sc = 0"
    and p1: "p1 \<in> cnset_properties K" and p2: "p2 \<in> cnset_properties K"
    and l1: "length d1 < 2 ^ 32" and l2: "length d2 < 2 ^ 32"
  shows "\<exists>sc1 sc2.
           object_after (state_upload K E handles idx p1 d1 ctx sz) (handles idx)
             = Some (SyncContext_object parent ms sc1)
           \<and> cnset_seen sc1 = as_single (IDSET_parse E d1)
           \<and> idset_given sc1 = idset_given sc
           \<and> object_after (then_rpc (state_upload K E handles idx p1 d1 ctx sz)
                             (state_upload K E handles idx p2 d2)) (handles idx)
             = Some (SyncContext_object parent ms sc2)
           \<and> cnset_seen sc2 = as_single (IDSET_parse E d2)
           \<and> idset_given sc2 = idset_given sc
           \<and> ((\<forall>s. IDSET_parse E d1 = Some s \<longrightarrow> range_count s \<noteq> 0) \<longrightarrow>
                (\<exists>sc3. object_after (state_upload K E handles idx (PidTagIdsetGiven K) d1 ctx sz)
                          (handles idx)
                        = Some (SyncContext_object parent ms sc3)
                      \<and> idset_given sc3 = IDSET_parse E d1
                      \<and> cnset_seen sc3 = cnset_seen sc))"
proof -
  from state_upload_cnset [where ctx = ctx and handles = handles and idx = idx and sc = sc
      and sz = sz and E = E, OF ok f idle p1 l1]
  obtain o1 sc1 where
    u1: "state_upload K E handles idx p1 d1 ctx sz = Inr (MAPI_E_SUCCESS, Some o1)"
    and c1: "out_ctx o1 = ctx(handles idx := Some (Some (SyncContext_object parent ms sc1)))"
    and s1: "cnset_seen sc1 = as_single (IDSET_parse E d1)" "idset_given sc1 = idset_given sc"
      "state_property sc1 = 0"
    by blast
  have f1: "find_synccontext (out_ctx o1) (handles idx) = Some (parent, ms, sc1)"
    unfolding c1 by (rule find_synccontext_upd)
  from state_upload_cnset [where ctx = "out_ctx o1" and handles = handles and idx = idx
      and sc = sc1 and sz = "out_size o1" and E = E, OF ok f1 s1(3) p2 l2]
  obtain o2 sc2 where
    u2: "state_upload K E handles idx p2 d2 (out_ctx o1) (out_size o1) = Inr (MAPI_E_SUCCESS, Some o2)"
    and c2: "out_ctx o2 = (out_ctx o1)(handles idx := Some (Some (SyncContext_object parent ms sc2)))"
    and s2: "cnset_seen sc2 = as_single (IDSET_parse E d2)" "idset_given sc2 = idset_given sc1"
    by blast
  have a1: "object_after (state_upload K E handles idx p1 d1 ctx sz) (handles idx)
      = Some (SyncContext_object parent ms sc1)"
    by (simp add: u1 object_after_Inr c1)
  have a2: "object_after (then_rpc (state_upload K E handles idx p1 d1 ctx sz)
                             (state_upload K E handles idx p2 d2)) (handles idx)
      = Some (SyncContext_object parent ms sc2)"
    by (simp add: u1 then_rpc_def u2 object_after_Inr c2)
  have a3: "(\<forall>s. IDSET_parse E d1 = Some s \<longrightarrow> range_count s \<noteq> 0) \<longrightarrow>
                (\<exists>sc3. object_after (state_upload K E handles idx (PidTagIdsetGiven K) d1 ctx sz)
                          (handles idx)
                        = Some (SyncContext_object parent ms sc3)
                      \<and> idset_given sc3 = IDSET_parse E d1
                      \<and> cnset_seen sc3 = cnset_seen sc)"
  proof
    assume r: "\<forall>s. IDSET_parse E d1 = Some s \<longrightarrow> range_count s \<noteq> 0"
    from state_upload_given [where ctx = ctx and handles = handles and idx = idx and sc = sc
        and sz = sz and E = E, OF ok f idle l1 r]
    obtain o3 sc3 where
      u3: "state_upload K E handles idx (PidTagIdsetGiven K) d1 ctx sz = Inr (MAPI_E_SUCCESS, Some o3)"
      and c3: "out_ctx o3 = ctx(handles idx := Some (Some (SyncContext_object parent ms sc3)))"
      and s3: "idset_given sc3 = IDSET_parse E d1" "cnset_seen sc3 = cnset_seen sc"
      by blast
    have "object_after (state_upload K E handles idx (PidTagIdsetGiven K) d1 ctx sz) (handles idx)
        = Some (SyncContext_object parent ms sc3)"
      by (simp add: u3 object_after_Inr c3)
    with s3 show "\<exists>sc3. object_after (state_upload K E handles idx (PidTagIdsetGiven K) d1 ctx sz)
                          (handles idx)
                        = Some (SyncContext_object parent ms sc3)
                      \<and> idset_given sc3 = IDSET_parse E d1
                      \<and> cnset_seen sc3 = cnset_seen sc" by blast
  qed
  from a1 a2 a3 s1(1,2) s2 show ?thesis by (intro exI [of _ sc1] exI [of _ sc2]) simp
qed

theorem upload_installs_by_replacement_witness:
  "\<exists>sc2. object_after
            (then_rpc (state_upload example_consts example_env (\<lambda>i. 9) 0 0x67960102 (state_bytes 1)
                         example_sync_handles 0)
               (state_upload example_consts example_env (\<lambda>i. 9) 0 0x67D20102 (state_bytes 2))) 9
          = Some (SyncContext_object example_folder True sc2)
        \<and> cnset_seen sc2 = Some (points_idset True [(example_guid, 2)])
        \<and> idset_given sc2 = Some (points_idset False [(example_guid, 5)])"
proof -
  have l: "length (state_bytes 1) < 2 ^ 32" "length (state_bytes 2) < 2 ^ 32"
    by (simp_all add: state_bytes_def)
  have g: "idset_given example_synccontext = Some (points_idset False [(example_guid, 5)])"
    by (simp add: example_synccontext_def)
  from upload_installs_by_replacement [where ctx = example_sync_handles and handles = "\<lambda>i. 9"
      and idx = 0 and sc = example_synccontext and E = example_env and sz = 0,
      OF example_consts_ok example_sync_handles_find example_cnset_properties l]
  show ?thesis
    by (auto simp add: parse_state_bytes as_single_def points_idset_def g)
qed

section \<open>Imports\<close>

lemma import_message_change_not_found:
  assumes f: "find_synccontext ctx (handles (handle_idx q)) = Some (parent, ms, sc)"
    and m: "folder_is_mapistore parent"
    and pv: "PropertyValues (u_req q) = (tag, V_Binary_r source_key) # more_values"
    and len: "16 \<le> length source_key"
    and unk: "emsmdbp_guid_to_replid (registry E) (Abs_GUID (take 16 source_key)) = None"
  shows "EcDoRpc_RopSyncImportMessageChange F E (Some ctx) (Some q) True (Some handles) (Some sz)
         = Inr (MAPI_E_SUCCESS,
             Some \<lparr> out_repl = \<lparr> repl_opnum = opnum q, error_code = MAPI_E_NOT_FOUND,
                                 repl_handle_idx = req_handle_idx (u_req q), u_repl = Untouched \<rparr>,
                    out_ctx = ctx, out_handles = handles,
                    out_size = sz + rop_size E RopSyncImportMessageChange
                       \<lparr> repl_opnum = opnum q, error_code = MAPI_E_NOT_FOUND,
                         repl_handle_idx = req_handle_idx (u_req q), u_repl = Untouched \<rparr>,
                    out_store_calls = [] \<rparr>)"
proof -
  have k: "oxcfxics_fmid_from_source_key (registry E) source_key = Inr None"
    using len unk by (simp add: oxcfxics_fmid_from_source_key_def)
  have b: "lpProps_bin (PropertyValues (u_req q)) 0 = Inr source_key"
    by (simp add: pv lpProps_bin_def)
  show ?thesis
    by (simp add: EcDoRpc_RopSyncImportMessageChange_def rpc_handler_def sanity_checks_def
        RopSyncImportMessageChange_body_def Let_def f m b k rpc_end_def)
qed

lemma foreign_source_key_unknown:
  "emsmdbp_guid_to_replid (registry example_store_env) (Abs_GUID (take 16 foreign_source_key)) = None"
  by (simp add: example_store_env_def example_registry_def foreign_source_key_def example_guid_def
      Abs_GUID_inject)

lemma known_source_key_fmid:
  "oxcfxics_fmid_from_source_key (registry example_store_env) (state_bytes 2) = Inr (Some 0x20001)"
  by (simp add: example_store_env_def example_registry_def state_bytes_def example_guid_def
      oxcfxics_fmid_from_source_key_def)

lemma import_known_succeeds:
  "rpc_status (EcDoRpc_RopSyncImportMessageChange example_rop_consts example_store_env
      (Some example_sync_handles) (Some (import_request (state_bytes 2))) True
      (Some (\<lambda>i. 9)) (Some sz)) = Some (MAPI_E_SUCCESS, MAPI_E_SUCCESS)"
proof -
  have e: "message_open example_folder = (\<lambda>m. None)" "folder_is_mapistore example_folder"
    "mapistore_folder_create_message example_store_env = (\<lambda>folder mid associated. 0)"
    by (simp_all add: example_folder_def example_store_env_def)
  have b: "lpProps_bin (PropertyValues (u_req (import_request (state_bytes 2)))) 0
      = Inr (state_bytes 2)"
    by (simp add: import_request_def lpProps_bin_def)
  have f: "find_synccontext example_sync_handles 9 = Some (example_folder, True, example_synccontext)"
    by (simp add: find_synccontext_def example_sync_handles_def)
  show ?thesis
    by (simp add: EcDoRpc_RopSyncImportMessageChange_def rpc_handler_def sanity_checks_def
        RopSyncImportMessageChange_body_def Let_def f b known_source_key_fmid e rpc_end_def
        rpc_status_def)
qed

text \<open>
  C8. When \<^verbatim>\<open>SyncImportMessageChange\<close> is called on a sync context (on a folder of
  the store) with a source key whose first sixteen bytes are a GUID that the replica
  registry does not know, it returns with the reply's \<^verbatim>\<open>error_code\<close>
  \<^verbatim>\<open>MAPI_E_NOT_FOUND\<close>; the handle table with every session object in it, the
  handles array and the store are as before the call, so that any later import on the
  session gives what it would have given without the failed one.
\<close>

theorem import_unknown_replica_not_found:
  assumes "find_synccontext ctx (handles (handle_idx q)) = Some (parent, ms, sc)"
    and "folder_is_mapistore parent"
    and "PropertyValues (u_req q) = (tag, V_Binary_r source_key) # more_values"
    and "16 \<le> length source_key"
    and "emsmdbp_guid_to_replid (registry E) (Abs_GUID (take 16 source_key)) = None"
  shows "\<exists>out. EcDoRpc_RopSyncImportMessageChange F E (Some ctx) (Some q) True (Some handles) (Some sz)
                 = Inr (MAPI_E_SUCCESS, Some out)
           \<and> error_code (out_repl out) = MAPI_E_NOT_FOUND
           \<and> out_ctx out = ctx \<and> out_handles out = handles \<and> out_store_calls out = []
           \<and> find_synccontext (out_ctx out) (out_handles out (handle_idx q)) = Some (parent, ms, sc)
           \<and> (\<forall>q' sz'. EcDoRpc_RopSyncImportMessageChange F E (Some (out_ctx out)) (Some q') True
                          (Some (out_handles out)) (Some sz')
                        = EcDoRpc_RopSyncImportMessageChange F E (Some ctx) (Some q') True
                            (Some handles) (Some sz'))"
  using assms(1)
  by (simp add: import_message_change_not_found [where ctx = ctx and handles = handles and q = q
        and sc = sc and E = E and F = F and sz = sz, OF assms])

theorem import_unknown_replica_not_found_witness:
  "\<exists>out. EcDoRpc_RopSyncImportMessageChange example_rop_consts example_store_env
            (Some example_sync_handles) (Some (import_request foreign_source_key)) True
            (Some (\<lambda>i. 9)) (Some 0) = Inr (MAPI_E_SUCCESS, Some out)
        \<and> error_code (out_repl out) = MAPI_E_NOT_FOUND
        \<and> out_ctx out = example_sync_handles
        \<and> rpc_status (EcDoRpc_RopSyncImportMessageChange example_rop_consts example_store_env
             (Some (out_ctx out)) (Some (import_request (state_bytes 2))) True
             (Some (out_handles out)) (Some (out_size out)))
           = Some (MAPI_E_SUCCESS, MAPI_E_SUCCESS)"
proof -
  have f: "find_synccontext example_sync_handles ((\<lambda>i. 9) (handle_idx (import_request foreign_source_key)))
      = Some (example_folder, True, example_synccontext)"
    by (simp add: find_synccontext_def example_sync_handles_def)
  have m: "folder_is_mapistore example_folder" by (simp add: example_folder_def)
  have pv: "PropertyValues (u_req (import_request foreign_source_key))
      = (0x65E00102, V_Binary_r foreign_source_key) # []"
    by (simp add: import_request_def)
  have len: "16 \<le> length foreign_source_key" by (simp add: foreign_source_key_def)
  from import_unknown_replica_not_found [where ctx = example_sync_handles and handles = "\<lambda>i. 9"
      and q = "import_request foreign_source_key" and sc = example_synccontext
      and E = example_store_env and F = example_rop_consts and sz = 0,
      OF f m pv len foreign_source_key_unknown]
  obtain out where
    o: "EcDoRpc_RopSyncImportMessageChange example_rop_consts example_store_env
            (Some example_sync_handles) (Some (import_request foreign_source_key)) True
            (Some (\<lambda>i. 9)) (Some 0) = Inr (MAPI_E_SUCCESS, Some out)"
      "error_code (out_repl out) = MAPI_E_NOT_FOUND"
      "out_ctx out = example_sync_handles" "out_handles out = (\<lambda>i. 9)"
    by blast
  show ?thesis
    apply (rule exI [of _ out])
    apply (simp only: o import_known_succeeds)
    done
qed

section \<open>Sync producer\<close>

lemma example_push_messageChanges:
  "push_messageChanges example_consts example_env example_synccontext example_folder
   = Inr (messageChange_sync_data example_consts example_env example_synccontext)"
  by (simp add: push_messageChanges_def example_synccontext_def example_request_def
      oxcfxics_push_messageChange_def example_folder_def)

text \<open>
  C4. In contents mode, when the message changes have been pushed, the producer
  returns, and the stream it stores is the message-change records followed by exactly
  the state block of the spec, built from the merged sets; each merged set is the merge
  of the set the session held with the set accumulated during the walk, and is stored
  back on the session.
\<close>

theorem contents_stream_ends_with_state_block:
  assumes "push_messageChanges K E sc parent = Inr sd"
  shows "\<exists>prepared.
           oxcfxics_prepare_synccontext_with_messageChange K E parent sc
             = Inr prepared
           \<and> stream_data (stream prepared)
               = ndr sd @ spec_contents_state_block K E (fai (request sc))
                            (read_state (request sc))
                            (cnset_seen prepared) (idset_given prepared)
           \<and> cnset_seen prepared
               = IDSET_merge_idsets E (cnset_seen sc)
                   (RAWIDSET_convert_to_idset E (sd_cnset_seen sd))
           \<and> idset_given prepared
               = IDSET_merge_idsets E (idset_given sc)
                   (RAWIDSET_convert_to_idset E (eid_set sd))"
  using assms
  by (simp add: oxcfxics_prepare_synccontext_with_messageChange_def Let_def ndr_push_def
      stream_data_def spec_contents_state_block_def)

theorem contents_stream_ends_with_state_block_witness:
  "\<exists>prepared.
     oxcfxics_prepare_synccontext_with_messageChange example_consts example_env example_folder
       example_synccontext = Inr prepared
     \<and> stream_data (stream prepared)
         = u32_le 0x403A0003
           @ u32_le 0x67960102 @ points_bytes (Some (points_idset True [(example_guid, 9)]))
           @ u32_le 0x40170003 @ points_bytes (Some (points_idset False [(example_guid, 5)]))
           @ u32_le 0x403B0003
           @ u32_le 0x40140003"
proof -
  have m: "IDSET_merge_idsets example_env (cnset_seen example_synccontext)
             (RAWIDSET_convert_to_idset example_env
                (sd_cnset_seen (messageChange_sync_data example_consts example_env example_synccontext)))
           = Some (points_idset True [(example_guid, 9)])"
    "IDSET_merge_idsets example_env (idset_given example_synccontext)
             (RAWIDSET_convert_to_idset example_env
                (eid_set (messageChange_sync_data example_consts example_env example_synccontext)))
           = Some (points_idset False [(example_guid, 5)])"
    by (simp_all add: example_env_def example_synccontext_def messageChange_sync_data_def
        RAWIDSET_make_def points_merge_def points_idset_def)
  have r: "fai (request example_synccontext) = False"
    "read_state (request example_synccontext) = False"
    by (simp_all add: example_synccontext_def example_request_def)
  have n: "ndr (messageChange_sync_data example_consts example_env example_synccontext) = []"
    by (simp add: messageChange_sync_data_def)
  have k: "PR_INCR_SYNC_STATE_BEGIN example_consts = 0x403A0003"
    "PidTagCnsetSeen example_consts = 0x67960102"
    "PidTagIdsetGiven example_consts = 0x40170003"
    "PR_INCR_SYNC_STATE_END example_consts = 0x403B0003"
    "PR_INCR_SYNC_END example_consts = 0x40140003"
    by (simp_all add: example_consts_def)
  have p: "ndr_push_idset example_env = points_bytes" by (simp add: example_env_def)
  from contents_stream_ends_with_state_block [OF example_push_messageChanges]
  obtain prepared where
    a: "oxcfxics_prepare_synccontext_with_messageChange example_consts example_env example_folder
         example_synccontext = Inr prepared"
    and b: "stream_data (stream prepared)
         = ndr (messageChange_sync_data example_consts example_env example_synccontext)
           @ spec_contents_state_block example_consts example_env
               (fai (request example_synccontext)) (read_state (request example_synccontext))
               (cnset_seen prepared) (idset_given prepared)"
    and c: "cnset_seen prepared = Some (points_idset True [(example_guid, 9)])"
      "idset_given prepared = Some (points_idset False [(example_guid, 5)])"
    unfolding m by blast
  have "stream_data (stream prepared)
         = u32_le 0x403A0003
           @ u32_le 0x67960102 @ points_bytes (Some (points_idset True [(example_guid, 9)]))
           @ u32_le 0x40170003 @ points_bytes (Some (points_idset False [(example_guid, 5)]))
           @ u32_le 0x403B0003
           @ u32_le 0x40140003"
    unfolding b c r n spec_contents_state_block_def k p by simp
  with a show ?thesis by blast
qed

section \<open>Return values of the handlers\<close>

lemma rpc_handler_returns:
  "returned_status (rpc_handler body (Some c) (Some q) True (Some h) (Some s)) = None
   \<or> returned_status (rpc_handler body (Some c) (Some q) True (Some h) (Some s)) = Some MAPI_E_SUCCESS"
  by (simp add: rpc_handler_def sanity_checks_def returned_status_def split: sum.splits)

lemma rpc_handler_status:
  "body c q h s = Inr out \<Longrightarrow>
   rpc_status (rpc_handler body (Some c) (Some q) True (Some h) (Some s))
   = Some (MAPI_E_SUCCESS, error_code (out_repl out))"
  by (simp add: rpc_handler_def sanity_checks_def rpc_status_def)

lemma find_synccontext_none: "ctx h = None \<Longrightarrow> find_synccontext ctx h = None"
  by (simp add: find_synccontext_def)

lemma find_folder_none: "ctx h = None \<Longrightarrow> find_folder ctx h = None"
  by (simp add: find_folder_def)

lemma unknown_handle_status:
  assumes "ctx (handles (call_handle_idx call)) = None" and "\<not> is_stub call"
  shows "rpc_status (fxics_handler K F E call ctx handles sz)
         = Some (MAPI_E_SUCCESS, MAPI_E_INVALID_OBJECT)"
proof (cases call)
  case (Call_FastTransferSourceCopyTo q)
  with assms show ?thesis
    by (simp add: fxics_handler_def call_handle_idx_def EcDoRpc_RopFastTransferSourceCopyTo_def
        rpc_handler_def sanity_checks_def rpc_status_def RopFastTransferSourceCopyTo_body_def
        Let_def rpc_end_def)
next
  case (Call_FastTransferSourceGetBuffer q)
  with assms show ?thesis
    by (simp add: fxics_handler_def call_handle_idx_def EcDoRpc_RopFastTransferSourceGetBuffer_def
        rpc_handler_def sanity_checks_def rpc_status_def RopFastTransferSourceGetBuffer_body_def
        Let_def rpc_end_def)
next
  case (Call_SyncConfigure q)
  with assms show ?thesis
    by (simp add: fxics_handler_def call_handle_idx_def EcDoRpc_RopSyncConfigure_def
        rpc_handler_def sanity_checks_def rpc_status_def RopSyncConfigure_body_def
        Let_def rpc_end_def find_folder_none)
next
  case (Call_SyncImportMessageChange q)
  with assms show ?thesis
    by (simp add: fxics_handler_def call_handle_idx_def EcDoRpc_RopSyncImportMessageChange_def
        rpc_handler_def sanity_checks_def rpc_status_def RopSyncImportMessageChange_body_def
        Let_def rpc_end_def find_synccontext_none)
next
  case (Call_SyncImportHierarchyChange q)
  with assms show ?thesis
    by (simp add: fxics_handler_def call_handle_idx_def EcDoRpc_RopSyncImportHierarchyChange_def
        rpc_handler_def sanity_checks_def rpc_status_def RopSyncImportHierarchyChange_body_def
        Let_def rpc_end_def find_synccontext_none reply_to_def)
next
  case (Call_SyncImportDeletes q)
  with assms show ?thesis
    by (simp add: fxics_handler_def call_handle_idx_def EcDoRpc_RopSyncImportDeletes_def
        rpc_handler_def sanity_checks_def rpc_status_def RopSyncImportDeletes_body_def
        Let_def rpc_end_def find_synccontext_none reply_to_def)
next
  case (Call_SyncUploadStateStreamBegin q)
  with assms show ?thesis
    by (simp add: fxics_handler_def call_handle_idx_def EcDoRpc_RopSyncUploadStateStreamBegin_def
        rpc_handler_def sanity_checks_def rpc_status_def RopSyncUploadStateStreamBegin_body_def
        Let_def rpc_end_def find_synccontext_none reply_to_def)
next
  case (Call_SyncUploadStateStreamContinue q)
  with assms show ?thesis
    by (simp add: fxics_handler_def call_handle_idx_def EcDoRpc_RopSyncUploadStateStreamContinue_def
        rpc_handler_def sanity_checks_def rpc_status_def RopSyncUploadStateStreamContinue_body_def
        Let_def rpc_end_def find_synccontext_none reply_to_def)
next
  case (Call_SyncUploadStateStreamEnd q)
  with assms show ?thesis
    by (simp add: fxics_handler_def call_handle_idx_def EcDoRpc_RopSyncUploadStateStreamEnd_def
        rpc_handler_def sanity_checks_def rpc_status_def RopSyncUploadStateStreamEnd_body_def
        Let_def rpc_end_def find_synccontext_none reply_to_def)
next
  case (Call_SyncImportMessageMove q)
  with assms show ?thesis by (simp add: is_stub_def)
next
  case (Call_SyncOpenCollector q)
  with assms show ?thesis
    by (simp add: fxics_handler_def call_handle_idx_def EcDoRpc_RopSyncOpenCollector_def
        rpc_handler_def sanity_checks_def rpc_status_def RopSyncOpenCollector_body_def
        Let_def rpc_end_def find_folder_none)
next
  case (Call_GetLocalReplicaIds q)
  with assms show ?thesis
    by (simp add: fxics_handler_def call_handle_idx_def EcDoRpc_RopGetLocalReplicaIds_def
        rpc_handler_def sanity_checks_def rpc_status_def RopGetLocalReplicaIds_body_def
        Let_def rpc_end_def reply_to_def)
next
  case (Call_SyncImportReadStateChanges q)
  with assms show ?thesis by (simp add: is_stub_def)
next
  case (Call_SyncGetTransferState q)
  with assms show ?thesis
    by (simp add: fxics_handler_def call_handle_idx_def EcDoRpc_RopSyncGetTransferState_def
        rpc_handler_def sanity_checks_def rpc_status_def RopSyncGetTransferState_body_def
        Let_def rpc_end_def find_synccontext_none)
next
  case (Call_SetLocalReplicaMidsetDeleted q)
  with assms show ?thesis by (simp add: is_stub_def)
qed

lemma stub_status:
  assumes "is_stub call"
  shows "rpc_status (fxics_handler K F E call ctx handles sz) = Some (MAPI_E_SUCCESS, MAPI_E_SUCCESS)"
  using assms
  by (cases call)
    (simp_all add: is_stub_def fxics_handler_def EcDoRpc_RopSyncImportMessageMove_def
      EcDoRpc_RopSyncImportReadStateChanges_def EcDoRpc_RopSetLocalReplicaMidsetDeleted_def
      rpc_handler_def sanity_checks_def rpc_status_def stub_body_def Let_def rpc_end_def
      reply_to_def)

lemma handler_returns_success_only:
  "returned_status (fxics_handler K F E call ctx handles sz) = None
   \<or> returned_status (fxics_handler K F E call ctx handles sz) = Some MAPI_E_SUCCESS"
  by (cases call)
    (simp_all only: fxics_handler_def fxics_call.case EcDoRpc_RopFastTransferSourceCopyTo_def
      EcDoRpc_RopFastTransferSourceGetBuffer_def EcDoRpc_RopSyncConfigure_def
      EcDoRpc_RopSyncImportMessageChange_def EcDoRpc_RopSyncImportHierarchyChange_def
      EcDoRpc_RopSyncImportDeletes_def EcDoRpc_RopSyncUploadStateStreamBegin_def
      EcDoRpc_RopSyncUploadStateStreamContinue_def EcDoRpc_RopSyncUploadStateStreamEnd_def
      EcDoRpc_RopSyncImportMessageMove_def EcDoRpc_RopSyncOpenCollector_def
      EcDoRpc_RopGetLocalReplicaIds_def EcDoRpc_RopSyncImportReadStateChanges_def
      EcDoRpc_RopSyncGetTransferState_def EcDoRpc_RopSetLocalReplicaMidsetDeleted_def
      rpc_handler_returns)

text \<open>
  C10, as stated, fails: with an upload of \<^verbatim>\<open>PidTagIdsetGiven\<close> pending and a state
  stream that parses to a set without ranges, \<^verbatim>\<open>SyncUploadStateStreamEnd\<close>, called
  with non-NULL arguments, calls \<^verbatim>\<open>abort()\<close> and returns nothing.
\<close>

theorem upload_end_aborts:
  "fxics_handler example_consts example_rop_consts example_store_env
     (Call_SyncUploadStateStreamEnd (end_request 0)) armed_given_handles (\<lambda>i. 9) 0
   = Inl Abort_called"
  by (simp add: fxics_handler_def EcDoRpc_RopSyncUploadStateStreamEnd_def rpc_handler_def
      sanity_checks_def RopSyncUploadStateStreamEnd_body_def Let_def find_synccontext_def
      armed_given_handles_def end_request_def armed_given_synccontext_def stream_data_def
      example_store_env_def points_parse_def install_parsed_idset_def example_consts_def
      points_idset_def)

text \<open>
  C10, amended. Whichever of the fifteen handlers is called with non-NULL arguments,
  and whatever the request and the state of the session: when the handler returns, its
  return value is \<^verbatim>\<open>MAPI_E_SUCCESS\<close>, also when the operation has failed. The
  handlers do return on failures: when the handle of the request is not in the handle
  table, each of the twelve handlers that look it up returns \<^verbatim>\<open>MAPI_E_SUCCESS\<close>
  with \<^verbatim>\<open>MAPI_E_INVALID_OBJECT\<close> in the reply's \<^verbatim>\<open>error_code\<close>, and the three
  stubs return \<^verbatim>\<open>MAPI_E_SUCCESS\<close> with \<^verbatim>\<open>error_code\<close> \<^verbatim>\<open>MAPI_E_SUCCESS\<close> on every
  call.
\<close>

theorem handlers_return_success:
  "(returned_status (fxics_handler K F E call ctx handles sz) = None
    \<or> returned_status (fxics_handler K F E call ctx handles sz) = Some MAPI_E_SUCCESS)
   \<and> (ctx (handles (call_handle_idx call)) = None \<and> \<not> is_stub call \<longrightarrow>
        rpc_status (fxics_handler K F E call ctx handles sz)
        = Some (MAPI_E_SUCCESS, MAPI_E_INVALID_OBJECT))
   \<and> (is_stub call \<longrightarrow>
        rpc_status (fxics_handler K F E call ctx handles sz)
        = Some (MAPI_E_SUCCESS, MAPI_E_SUCCESS))"
  using handler_returns_success_only [of K F E call ctx handles sz]
    unknown_handle_status [of ctx handles call K F E sz]
    stub_status [of call K F E ctx handles sz]
  by blast

theorem handlers_return_success_witness:
  "rpc_status (fxics_handler example_consts example_rop_consts example_store_env
      (Call_SyncImportDeletes
         \<lparr> opnum = 0x74, handle_idx = 0,
           u_req = \<lparr> Flags = 0, DeletePropertyValues = [] \<rparr> \<rparr>)
      example_sync_handles (\<lambda>i. 8) 0)
   = Some (MAPI_E_SUCCESS, MAPI_E_INVALID_OBJECT)
   \<and> rpc_status (fxics_handler example_consts example_rop_consts example_store_env
        (Call_SyncImportMessageMove \<lparr> opnum = 0x78, handle_idx = 0, u_req = () \<rparr>)
        example_sync_handles (\<lambda>i. 8) 0)
     = Some (MAPI_E_SUCCESS, MAPI_E_SUCCESS)"
proof -
  let ?d = "Call_SyncImportDeletes
         \<lparr> opnum = 0x74, handle_idx = 0,
           u_req = \<lparr> Flags = 0, DeletePropertyValues = [] \<rparr> \<rparr>"
  let ?m = "Call_SyncImportMessageMove \<lparr> opnum = 0x78, handle_idx = 0, u_req = () \<rparr>"
  have a: "example_sync_handles ((\<lambda>i. 8) (call_handle_idx ?d)) = None \<and> \<not> is_stub ?d"
    by (simp add: example_sync_handles_def is_stub_def)
  have b: "is_stub ?m" by (simp add: is_stub_def)
  from handlers_return_success [of example_consts example_rop_consts example_store_env ?d
      example_sync_handles "\<lambda>i. 8" 0] a
    handlers_return_success [of example_consts example_rop_consts example_store_env ?m
      example_sync_handles "\<lambda>i. 8" 0] b
  show ?thesis by blast
qed

section \<open>Cut-marks\<close>

lemma bind_faultE:
  assumes "bind_fault m f = Inr y"
  obtains x where "m = Inr x" and "f x = Inr y"
  using assms by (cases m) simp_all

lemma extends_ok_refl: "extends_ok s s"
  by (simp add: extends_ok_def)

lemma extends_ok_same:
  "ndr s' = ndr s \<Longrightarrow> cutmarks_ndr s' = cutmarks_ndr s \<Longrightarrow> extends_ok s s'"
  by (simp add: extends_ok_def marks_sound_def)

lemma extends_ok_trans: "extends_ok s t \<Longrightarrow> extends_ok t u \<Longrightarrow> extends_ok s u"
  by (auto simp add: extends_ok_def)

lemma marks_sound_mono:
  "marks_sound s \<Longrightarrow> cutmarks_ndr s' = cutmarks_ndr s \<Longrightarrow> length (ndr s) \<le> length (ndr s')
   \<Longrightarrow> marks_sound s'"
  by (auto simp add: marks_sound_def list_all_iff)

lemma extends_ok_ndr_push: "extends_ok s (ndr_push bs s)"
  by (auto simp add: extends_ok_def ndr_push_def intro: marks_sound_mono)

lemma extends_ok_push_cutmark: "extends_ok s (push_cutmark s)"
proof -
  have "marks_sound (push_cutmark s)" if l: "length (ndr s) < 2 ^ 32" and m: "marks_sound s"
  proof -
    from l have u: "unat (word_of_nat (length (ndr s)) :: 32 word) = length (ndr s)"
      by (simp add: unsigned_of_nat take_bit_nat_eq_self)
    have "\<forall>x\<in>set (cutmarks_ndr s). x \<le> (word_of_nat (length (ndr s)) :: 32 word)"
      using m u by (auto simp add: marks_sound_def list_all_iff word_le_nat_alt)
    with m u show ?thesis
      by (simp add: marks_sound_def push_cutmark_def ndr_offset_def sorted_append)
  qed
  then show ?thesis by (simp add: extends_ok_def push_cutmark_def)
qed

lemma extends_ok_push: "extends_ok s t \<Longrightarrow> extends_ok s (ndr_push bs t)"
  by (rule extends_ok_trans [OF _ extends_ok_ndr_push])

lemma extends_ok_mark: "extends_ok s t \<Longrightarrow> extends_ok s (push_cutmark t)"
  by (rule extends_ok_trans [OF _ extends_ok_push_cutmark])

lemma extends_ok_str_ascii: "extends_ok s t \<Longrightarrow> extends_ok s (t\<lparr>str_ascii := b\<rparr>)"
  by (simp add: extends_ok_def marks_sound_def)

lemma extends_ok_push_string: "extends_ok s t \<Longrightarrow> extends_ok s (ndr_push_string E str t)"
  by (simp add: ndr_push_string_def extends_ok_push)

lemma simple_data_extends:
  "oxcfxics_ndr_push_simple_data K E data_type val s = Inr s' \<Longrightarrow> extends_ok s s'"
  by (auto simp add: oxcfxics_ndr_push_simple_data_def
      split: if_splits option.splits prop_value.splits
      intro!: extends_ok_push extends_ok_push_string extends_ok_str_ascii extends_ok_refl)

lemma simple_data_list_extends:
  "push_simple_data_list K E data_type vs s = Inr s' \<Longrightarrow> extends_ok s s'"
proof (induction vs arbitrary: s)
  case Nil
  then show ?case by (simp add: extends_ok_refl)
next
  case (Cons v vs)
  from Cons.prems obtain s1 where
    a: "oxcfxics_ndr_push_simple_data K E data_type (Some v) s = Inr s1"
    and b: "push_simple_data_list K E data_type vs s1 = Inr s'"
    by (auto split: sum.splits)
  from simple_data_extends [OF a] Cons.IH [OF b] show ?case by (rule extends_ok_trans)
qed

lemma property_value_extends:
  "push_property_value K E property val s = Inr s' \<Longrightarrow> extends_ok s s'"
  by (auto simp add: push_property_value_def Let_def
      split: if_splits option.splits prop_value.splits
      dest!: simple_data_list_extends simple_data_extends
      intro: extends_ok_trans [OF extends_ok_ndr_push])

lemma property_tag_extends:
  "push_property_tag E property s = Some s' \<Longrightarrow> extends_ok s s'"
  by (auto simp add: push_property_tag_def Let_def
      split: if_splits option.splits nameid_kind.splits
      intro!: extends_ok_push extends_ok_push_string extends_ok_refl)

lemma push_properties_extends:
  "oxcfxics_ndr_push_properties K E entries s = Inr s' \<Longrightarrow> extends_ok s s'"
proof (induction entries arbitrary: s)
  case Nil
  then show ?case by (simp add: extends_ok_refl)
next
  case (Cons e entries)
  obtain property val retval where e: "e = (property, val, retval)" by (cases e)
  show ?case
  proof (cases "retval = 0")
    case False
    with Cons e show ?thesis by simp
  next
    case True
    show ?thesis
    proof (cases "push_property_tag E property (push_cutmark s)")
      case None
      with Cons.prems e True
      have "oxcfxics_ndr_push_properties K E entries (push_cutmark s) = Inr s'"
        by (simp add: Let_def)
      from Cons.IH [OF this] show ?thesis
        by (rule extends_ok_trans [OF extends_ok_push_cutmark])
    next
      case (Some s2)
      with Cons.prems e True obtain s3 where
        v: "push_property_value K E property val s2 = Inr s3"
        and r: "oxcfxics_ndr_push_properties K E entries s3 = Inr s'"
        by (auto simp add: Let_def split: sum.splits)
      from extends_ok_push_cutmark property_tag_extends [OF Some] property_value_extends [OF v]
        Cons.IH [OF r]
      show ?thesis by (blast intro: extends_ok_trans)
    qed
  qed
qed

lemma recipient_rows_extends:
  "push_recipient_rows K E i rows s = Inr s' \<Longrightarrow> extends_ok s s'"
proof (induction rows arbitrary: i s)
  case Nil
  then show ?case by (simp add: extends_ok_refl)
next
  case (Cons r rows)
  let ?s2 = "ndr_push (u32_le (PR_ROWID K) @ u32_le (word_of_nat i))
               (push_cutmark (ndr_push (u32_le (PR_START_RECIP K)) (push_cutmark s)))"
  from Cons.prems obtain s3 where
    p: "oxcfxics_ndr_push_properties K E (map (\<lambda>(t, p). (t, p, MAPI_E_SUCCESS_val)) r) ?s2 = Inr s3"
    and q: "push_recipient_rows K E (Suc i) rows
              (ndr_push (u32_le (PR_END_RECIP K)) (push_cutmark s3)) = Inr s'"
    by (auto simp add: Let_def elim: bind_faultE)
  have a: "extends_ok s ?s2"
    by (intro extends_ok_push extends_ok_mark extends_ok_refl)
  have b: "extends_ok s3 (ndr_push (u32_le (PR_END_RECIP K)) (push_cutmark s3))"
    by (intro extends_ok_push extends_ok_mark extends_ok_refl)
  from a push_properties_extends [OF p] b Cons.IH [OF q] show ?case
    by (blast intro: extends_ok_trans)
qed

lemma recipients_extends:
  "oxcfxics_push_messageChange_recipients K E recips s = Inr s' \<Longrightarrow> extends_ok s s'"
proof -
  assume a: "oxcfxics_push_messageChange_recipients K E recips s = Inr s'"
  let ?s1 = "ndr_push (u32_le (PR_FX_DEL_PROP K) @ u32_le (PR_MESSAGE_RECIPIENTS K)) (push_cutmark s)"
  have b: "extends_ok s ?s1" by (intro extends_ok_push extends_ok_mark extends_ok_refl)
  show ?thesis
  proof (cases recips)
    case None
    with a b show ?thesis by (simp add: oxcfxics_push_messageChange_recipients_def Let_def)
  next
    case (Some rows)
    with a have "push_recipient_rows K E 0 rows ?s1 = Inr s'"
      by (simp add: oxcfxics_push_messageChange_recipients_def Let_def)
    from b recipient_rows_extends [OF this] show ?thesis by (rule extends_ok_trans)
  qed
qed

lemma attachment_rows_extends:
  "push_attachment_rows K E i rows s = Inr s' \<Longrightarrow> extends_ok s s'"
proof (induction rows arbitrary: i s)
  case Nil
  then show ?case by (simp add: extends_ok_refl)
next
  case (Cons r rows)
  from Cons.prems obtain row where r: "r = Some row" by (cases r) simp_all
  let ?s1 = "ndr_push (u32_le (PR_NEW_ATTACH K) @ u32_le (PR_ATTACH_NUM K)
                              @ u32_le (word_of_nat i)) (push_cutmark s)"
  from Cons.prems r obtain entries s2 where
    p: "oxcfxics_ndr_push_properties K E entries ?s1 = Inr s2"
    and q: "push_attachment_rows K E (Suc i) rows (ndr_push (u32_le (PR_END_ATTACH K)) s2) = Inr s'"
    by (auto simp add: Let_def elim!: bind_faultE)
  have a: "extends_ok s ?s1" by (intro extends_ok_push extends_ok_mark extends_ok_refl)
  have b: "extends_ok s2 (ndr_push (u32_le (PR_END_ATTACH K)) s2)" by (rule extends_ok_ndr_push)
  from a push_properties_extends [OF p] b Cons.IH [OF q] show ?case
    by (blast intro: extends_ok_trans)
qed

lemma attachments_extends:
  "oxcfxics_push_messageChange_attachments K E table s = Inr s' \<Longrightarrow> extends_ok s s'"
proof -
  assume a: "oxcfxics_push_messageChange_attachments K E table s = Inr s'"
  let ?s1 = "ndr_push (u32_le (PR_FX_DEL_PROP K) @ u32_le (PR_MESSAGE_ATTACHMENTS K)) s"
  have b: "extends_ok s ?s1" by (rule extends_ok_ndr_push)
  show ?thesis
  proof (cases table)
    case None
    with a b show ?thesis by (simp add: oxcfxics_push_messageChange_attachments_def Let_def)
  next
    case (Some rows)
    with a have "push_attachment_rows K E 0 rows ?s1 = Inr s'"
      by (simp add: oxcfxics_push_messageChange_attachments_def Let_def)
    from b attachment_rows_extends [OF this] show ?thesis by (rule extends_ok_trans)
  qed
qed

lemma extends_ok_fields:
  "extends_ok s t \<Longrightarrow> extends_ok s (t\<lparr>eid_set := x\<rparr>)"
  "extends_ok s t \<Longrightarrow> extends_ok s (t\<lparr>sd_cnset_seen := y\<rparr>)"
  by (simp_all add: extends_ok_def marks_sound_def)

lemmas extends_ok_steps =
  extends_ok_refl extends_ok_push extends_ok_mark extends_ok_fields

lemma messageChange_row_extends:
  "push_messageChange_row K E sc folder row gv sd = Inr (guid, sd') \<Longrightarrow> extends_ok sd sd'"
  unfolding push_messageChange_row_def Let_def
  apply (auto simp del: oxcfxics_ndr_push_properties.simps elim!: bind_faultE
      split: prod.splits if_splits option.splits
      dest!: push_properties_extends recipients_extends attachments_extends)
  apply ((rule extends_ok_steps | erule extends_ok_trans [rotated])+)
  done

lemma messageChange_rows_extends:
  "push_messageChange_rows K E sc folder rows gv sd = Inr sd' \<Longrightarrow> extends_ok sd sd'"
proof (induction rows arbitrary: gv sd)
  case Nil
  then show ?case by (simp add: extends_ok_refl)
next
  case (Cons r rows)
  from Cons.prems obtain row guid sd1 where
    "push_messageChange_row K E sc folder row gv sd = Inr (guid, sd1)"
    and "push_messageChange_rows K E sc folder rows (Some guid) sd1 = Inr sd'"
    by (auto split: option.splits sum.splits)
  from messageChange_row_extends [OF this(1)] Cons.IH [OF this(2)] show ?case
    by (rule extends_ok_trans)
qed

lemma push_messageChange_extends:
  "oxcfxics_push_messageChange K E sc ttype folder sd = Inr sd' \<Longrightarrow> extends_ok sd sd'"
  by (auto simp add: oxcfxics_push_messageChange_def split: option.splits
      dest: messageChange_rows_extends)

lemma sync_data_sound:
  "marks_sound (messageChange_sync_data K E sc)"
  "marks_sound (folderChange_sync_data K E sc)"
  by (simp_all add: marks_sound_def messageChange_sync_data_def folderChange_sync_data_def)

lemma push_messageChanges_sound:
  assumes "push_messageChanges K E sc parent = Inr sd" and "length (ndr sd) < 2 ^ 32"
  shows "marks_sound sd"
proof -
  from assms(1) obtain sd1 where
    a: "(if normal (request sc) then
          oxcfxics_push_messageChange K E sc EMSMDBP_TABLE_MESSAGE_TYPE parent
            (messageChange_sync_data K E sc)
        else Inr (messageChange_sync_data K E sc)) = Inr sd1"
    and b: "(if fai (request sc) then
                oxcfxics_push_messageChange K E sc EMSMDBP_TABLE_FAI_TYPE parent sd1
              else Inr sd1) = Inr sd"
    unfolding push_messageChanges_def by (elim bind_faultE)
  have "extends_ok (messageChange_sync_data K E sc) sd1"
    using a by (auto split: if_splits intro: extends_ok_refl push_messageChange_extends)
  moreover have "extends_ok sd1 sd"
    using b by (auto split: if_splits intro: extends_ok_refl push_messageChange_extends)
  ultimately have "extends_ok (messageChange_sync_data K E sc) sd" by (rule extends_ok_trans)
  with assms(2) sync_data_sound(1) [of K E sc] show ?thesis by (simp add: extends_ok_def)
qed

lemma folderChange_row_extends:
  "push_folderChange_row K E sc topmost row gv sd = Inr (guid, sd') \<Longrightarrow> extends_ok sd sd'"
  unfolding push_folderChange_row_def Let_def
  apply (auto simp del: oxcfxics_ndr_push_properties.simps elim!: bind_faultE
      split: prod.splits if_splits option.splits
      dest!: push_properties_extends)
  apply ((rule extends_ok_steps | erule extends_ok_trans [rotated])+)
  done

lemma push_folderChange_extends:
  "oxcfxics_push_folderChange K E sc topmost tree sd = Inr sd' \<longrightarrow> extends_ok sd sd'"
  and push_folderChange_rows_extends:
  "push_folderChange_rows K E sc topmost rows gv sd = Inr sd' \<longrightarrow> extends_ok sd sd'"
proof (induction K E sc topmost tree sd and K E sc topmost rows gv sd
    arbitrary: sd' and sd' rule: oxcfxics_push_folderChange_push_folderChange_rows.induct)
  case (1 K E synccontext topmost cnt table sd)
  then show ?case by (auto split: option.splits intro: extends_ok_refl)
next
  case (2 K E synccontext topmost replica_guid_var sd)
  then show ?case by (simp add: extends_ok_refl)
next
  case (3 K E synccontext topmost r subfolder rest replica_guid_var sd)
  show ?case
  proof
    assume a: "push_folderChange_rows K E synccontext topmost ((r, subfolder) # rest)
                 replica_guid_var sd = Inr sd'"
    then obtain row guid sd1 sd2 where
      r: "r (sd_properties sd) = Some row"
      and b: "push_folderChange_row K E synccontext topmost row replica_guid_var sd = Inr (guid, sd1)"
      and c: "oxcfxics_push_folderChange K E synccontext False subfolder sd1 = Inr sd2"
      and d: "push_folderChange_rows K E synccontext topmost rest (Some guid) sd2 = Inr sd'"
      by (auto split: option.splits sum.splits)
    from "3.IH"(1) [OF r b [THEN sym, THEN sym] refl] c have e: "extends_ok sd1 sd2"
      by simp
    from "3.IH"(2) [OF r b [THEN sym, THEN sym] refl c] d have f: "extends_ok sd2 sd'"
      by simp
    from folderChange_row_extends [OF b] e f show "extends_ok sd sd'"
      by (blast intro: extends_ok_trans)
  qed
qed

lemma prepared_cutmarks:
  assumes "marks_sound s" and "length (ndr s) < n"
  shows "cutmarks_in_stream True (cutmarks_ndr s @ [0xffffffff]) n"
  using assms by (auto simp add: cutmarks_in_stream_def marks_sound_def list_all_iff)

lemma copied_cutmarks:
  assumes "marks_sound s"
  shows "cutmarks_in_stream False (cutmarks_ndr s @ [0xffffffff]) (length (ndr s))"
  using assms by (auto simp add: cutmarks_in_stream_def marks_sound_def list_all_iff)

lemma u32_le_length [simp]: "length (u32_le w) = 4"
  by (simp add: u32_le_def)

lemma messageChange_cutmarks:
  assumes p: "oxcfxics_prepare_synccontext_with_messageChange K E parent sc = Inr prepared"
    and l: "length (stream_data (stream prepared)) < 2 ^ 32"
  shows "cutmarks_in_stream True (cutmarks prepared) (length (stream_data (stream prepared)))"
proof -
  from p obtain sd where sd: "push_messageChanges K E sc parent = Inr sd"
    and c: "cutmarks prepared = cutmarks_ndr sd @ [0xffffffff]"
    and n: "length (ndr sd) < length (stream_data (stream prepared))"
    unfolding oxcfxics_prepare_synccontext_with_messageChange_def Let_def
    by (elim bind_faultE) (auto simp add: ndr_push_def stream_data_def)
  from n l have "length (ndr sd) < 2 ^ 32" by simp
  from push_messageChanges_sound [OF sd this] n show ?thesis
    unfolding c by (rule prepared_cutmarks)
qed

lemma folderChange_cutmarks:
  assumes p: "oxcfxics_prepare_synccontext_with_folderChange K E parent sc = Inr prepared"
    and l: "length (stream_data (stream prepared)) < 2 ^ 32"
  shows "cutmarks_in_stream True (cutmarks prepared) (length (stream_data (stream prepared)))"
proof -
  from p obtain sd where
    sd: "oxcfxics_push_folderChange K E sc True (hierarchy parent) (folderChange_sync_data K E sc)
         = Inr sd"
    and c: "cutmarks prepared = cutmarks_ndr sd @ [0xffffffff]"
    and n: "length (ndr sd) < length (stream_data (stream prepared))"
    unfolding oxcfxics_prepare_synccontext_with_folderChange_def Let_def
    by (elim bind_faultE) (auto simp add: ndr_push_def stream_data_def)
  from n l have "length (ndr sd) < 2 ^ 32" by simp
  with push_folderChange_extends [of K E sc True "hierarchy parent" "folderChange_sync_data K E sc" sd]
    sd sync_data_sound(2) [of K E sc]
  have "marks_sound sd" by (simp add: extends_ok_def)
  from this n show ?thesis
    unfolding c by (rule prepared_cutmarks)
qed

lemma copy_to_cutmarks:
  assumes b: "RopFastTransferSourceCopyTo_body K E ctx q handles sz = Inr out"
    and h: "out_ctx out h = Some (Some (FtContext_object ft))"
    and new: "out_ctx out h \<noteq> ctx h"
    and l: "length (stream_data (stream ft)) < 2 ^ 32"
  shows "cutmarks_in_stream False (cutmarks ft) (length (stream_data (stream ft)))"
proof -
  from b h new obtain entries s where
    s: "oxcfxics_ndr_push_properties K E entries \<lparr> ndr = [], str_ascii = False, cutmarks_ndr = [] \<rparr> = Inr s"
    and c: "cutmarks ft = cutmarks_ndr s @ [0xffffffff]"
    and d: "stream_data (stream ft) = ndr s"
    unfolding RopFastTransferSourceCopyTo_body_def Let_def rpc_end_def
    by (auto simp add: stream_data_def elim!: bind_faultE
        split: option.splits if_splits simp del: oxcfxics_ndr_push_properties.simps)
  have "marks_sound \<lparr> ndr = [], str_ascii = False, cutmarks_ndr = [] \<rparr>" by (simp add: marks_sound_def)
  with push_properties_extends [OF s] l d have "marks_sound s" by (simp add: extends_ok_def)
  then show ?thesis unfolding c d by (rule copied_cutmarks)
qed

subsection \<open>The claim about the sidecar\<close>

lemma new_transfer_copy_to:
  assumes n: "new_transfer ctx (EcDoRpc_RopFastTransferSourceCopyTo K E (Some ctx) (Some q) True
                (Some handles) (Some sz)) h = Some (marks, data)"
    and l: "length data < 2 ^ 32"
  shows "cutmarks_in_stream False marks (length data)"
proof -
  from n obtain status out where
    r: "EcDoRpc_RopFastTransferSourceCopyTo K E (Some ctx) (Some q) True (Some handles) (Some sz)
        = Inr (status, Some out)"
    by (auto simp add: new_transfer_def split: sum.splits option.splits)
  then have b: "RopFastTransferSourceCopyTo_body K E ctx q handles sz = Inr out"
    by (auto simp add: EcDoRpc_RopFastTransferSourceCopyTo_def rpc_handler_def sanity_checks_def
        split: sum.splits)
  from n r have new: "out_ctx out h \<noteq> ctx h"
    by (auto simp add: new_transfer_def split: if_splits)
  from n r new obtain object where o: "out_ctx out h = Some (Some object)"
    and t: "transfer_of object = Some (marks, data)"
    by (auto simp add: new_transfer_def split: option.splits)
  from b o new obtain ft where f: "object = FtContext_object ft"
    unfolding RopFastTransferSourceCopyTo_body_def Let_def rpc_end_def
    by (auto elim!: bind_faultE split: option.splits if_splits
        simp del: oxcfxics_ndr_push_properties.simps)
  with t have m: "marks = cutmarks ft" and d: "data = stream_data (stream ft)"
    by (simp_all add: transfer_of_def)
  from copy_to_cutmarks [OF b o [unfolded f] new] l show ?thesis by (simp add: m d)
qed

lemma example_copy_to:
  "new_transfer example_ft_handles
     (EcDoRpc_RopFastTransferSourceCopyTo example_consts example_store_env
        (Some example_ft_handles) (Some copy_request) True (Some (\<lambda>i. 7)) (Some 0)) 8
   = Some ([0, 0xffffffff], [0x1F, 0, 0x01, 0x30, 6, 0, 0, 0, 0x49, 0, 0x6E, 0, 0, 0])"
  by (simp add: new_transfer_def transfer_of_def stream_data_def
      EcDoRpc_RopFastTransferSourceCopyTo_def rpc_handler_def sanity_checks_def
      RopFastTransferSourceCopyTo_body_def Let_def example_store_env_def example_ft_handles_def
      copy_request_def row_entries_def push_property_tag_def push_property_value_def
      oxcfxics_ndr_push_simple_data_def example_consts_def push_cutmark_def ndr_offset_def
      ndr_push_def ndr_push_string_def push_string_utf16_def u32_le_def u16_le_def rpc_end_def empty_ftcontext_def)

lemma named_copy_to:
  "new_transfer example_ft_handles
     (EcDoRpc_RopFastTransferSourceCopyTo example_consts named_store_env
        (Some example_ft_handles) (Some copy_request) True (Some (\<lambda>i. 7)) (Some 0)) 8
   = Some ([0, 0, 0xffffffff], [])"
  by (simp add: new_transfer_def transfer_of_def stream_data_def
      EcDoRpc_RopFastTransferSourceCopyTo_def rpc_handler_def sanity_checks_def
      RopFastTransferSourceCopyTo_body_def Let_def named_store_env_def example_store_env_def
      example_ft_handles_def
      copy_request_def row_entries_def push_property_tag_def push_property_value_def
      oxcfxics_ndr_push_simple_data_def example_consts_def push_cutmark_def ndr_offset_def
      ndr_push_def ndr_push_string_def push_string_utf16_def u32_le_def u16_le_def rpc_end_def empty_ftcontext_def)

lemma Rep_GUID_length [simp]: "length (Rep_GUID g) = 16"
  using Rep_GUID [of g] by simp

lemma u64_le_length [simp]: "length (u64_le w) = 8"
  by (simp add: u64_le_def)

lemma u16_le_length [simp]: "length (u16_le w) = 2"
  by (simp add: u16_le_def)

lemmas producer_example_defs =
  Let_def example_folder_def example_synccontext_def example_request_def
  example_store_env_def example_consts_def example_registry_def found_index_def get_cell_def
  deref_uint64_def replid_to_guid_var_def row_lm_time_def deref_FILETIME_def
  change_number_def oc_version_time_def push_cutmark_def ndr_offset_def ndr_push_def
  RAWIDSET_push_glob_def RAWIDSET_make_def points_idset_def points_merge_def points_bytes_def
  source_key_var_def oxcfxics_source_key_from_fmid_def change_key_entries_def
  oxcfxics_make_gid_def oxcfxics_make_xid_def push_property_tag_def push_property_value_def
  oxcfxics_ndr_push_simple_data_def ndr_push_string_def push_string_utf16_def
  id_bytes_length stream_data_def example_guid_bytes

text \<open>
  The contents producer on a folder of two messages, the first of which has a change
  number that is already in \<^verbatim>\<open>cnset_seen\<close>: the row loop pushes the offset 0 for the
  first row, skips the row without writing, and pushes the offset 0 again for the second
  row, whose properties follow at increasing offsets.
\<close>

lemma inbox_prepared_contents:
  "\<exists>prepared.
     oxcfxics_prepare_synccontext_with_messageChange example_consts example_store_env
       inbox_folder inbox_synccontext = Inr prepared
     \<and> cutmarks prepared = [0, 0, 4, 34, 46, 76, 107, 117, 0xffffffff]
     \<and> length (stream_data (stream prepared)) = 263"
  by (simp add: oxcfxics_prepare_synccontext_with_messageChange_def push_messageChanges_def
      oxcfxics_push_messageChange_def push_messageChange_row_def messageChange_sync_data_def
      inbox_folder_def inbox_synccontext_def message_row_def
      oxcfxics_push_messageChange_recipients_def oxcfxics_push_messageChange_attachments_def
      producer_example_defs)

text \<open>The same for the hierarchy producer on a folder of two subfolders.\<close>

lemma tree_prepared_hierarchy:
  "\<exists>prepared.
     oxcfxics_prepare_synccontext_with_folderChange example_consts example_store_env
       tree_folder tree_synccontext = Inr prepared
     \<and> cutmarks prepared = [0, 0, 4, 12, 42, 54, 84, 115, 0xffffffff]
     \<and> length (stream_data (stream prepared)) = 259"
  by (simp add: oxcfxics_prepare_synccontext_with_folderChange_def push_folderChange_row_def
      folderChange_sync_data_def tree_folder_def tree_synccontext_def hierarchy_synccontext_def
      folder_row_def row_entries_def producer_example_defs)

text \<open>
  A \<^verbatim>\<open>PT_STRING8\<close> property followed by a \<^verbatim>\<open>PT_UNICODE\<close> property on one buffer:
  the second string is written one byte per character behind the length 6 of its
  UTF-16 form, because the first has set \<^verbatim>\<open>LIBNDR_FLAG_STR_ASCII\<close>.
\<close>

lemma string8_copy_to:
  "new_transfer example_ft_handles
     (EcDoRpc_RopFastTransferSourceCopyTo example_consts string8_store_env
        (Some example_ft_handles) (Some copy_request) True (Some (\<lambda>i. 7)) (Some 0)) 8
   = Some ([0, 11, 0xffffffff],
           [0x1E, 0, 0, 0x3A, 3, 0, 0, 0, 0x49, 0x6E, 0,
            0x1F, 0, 0x01, 0x30, 6, 0, 0, 0, 0x49, 0x6E, 0])"
  by (simp add: new_transfer_def transfer_of_def stream_data_def
      EcDoRpc_RopFastTransferSourceCopyTo_def rpc_handler_def sanity_checks_def
      RopFastTransferSourceCopyTo_body_def Let_def string8_store_env_def example_store_env_def
      example_ft_handles_def
      copy_request_def row_entries_def push_property_tag_def push_property_value_def
      oxcfxics_ndr_push_simple_data_def example_consts_def push_cutmark_def ndr_offset_def
      ndr_push_def ndr_push_string_def push_string_utf16_def u32_le_def u16_le_def rpc_end_def
      empty_ftcontext_def)

text \<open>
  C3, as stated, fails: an object whose two properties are named properties of unknown
  name is copied by \<^verbatim>\<open>FastTransferSourceCopyTo\<close> into an empty stream with the
  sidecar 0, 0, 0xffffffff, which is not strictly increasing and has entries that are
  not less than the stream length.
\<close>

theorem copy_to_repeats_cutmark:
  "new_transfer example_ft_handles
     (EcDoRpc_RopFastTransferSourceCopyTo example_consts named_store_env
        (Some example_ft_handles) (Some copy_request) True (Some (\<lambda>i. 7)) (Some 0)) 8
   = Some ([0, 0, 0xffffffff], [])
   \<and> \<not> spec_cutmarks [0, 0, 0xffffffff] (length ([] :: byte list))"
  by (simp add: named_copy_to spec_cutmarks_def)

text \<open>
  C3, amended. In every stream of fewer than \<open>2^32\<close> bytes that the sync producers
  (contents and hierarchy mode) or \<^verbatim>\<open>FastTransferSourceCopyTo\<close> with the property
  serializer store, the cut-marks sidecar ends with the sentinel 0xffffffff, and the
  entries before it are absolute byte offsets into the stream that never decrease
  (an offset may be repeated); each is less than the stream length in a stream of the
  sync producers and at most the stream length in a stream of the serializer.
\<close>

theorem cutmarks_sidecar_in_stream:
  "(oxcfxics_prepare_synccontext_with_messageChange K E parent sc = Inr prepared
      \<and> length (stream_data (stream prepared)) < 2 ^ 32
     \<longrightarrow> cutmarks_in_stream True (cutmarks prepared) (length (stream_data (stream prepared))))
   \<and> (oxcfxics_prepare_synccontext_with_folderChange K E parent sc = Inr prepared
      \<and> length (stream_data (stream prepared)) < 2 ^ 32
     \<longrightarrow> cutmarks_in_stream True (cutmarks prepared) (length (stream_data (stream prepared))))
   \<and> (new_transfer ctx (EcDoRpc_RopFastTransferSourceCopyTo K E (Some ctx) (Some q) True
                          (Some handles) (Some sz)) h = Some (marks, data)
      \<and> length data < 2 ^ 32
     \<longrightarrow> cutmarks_in_stream False marks (length data))"
  using messageChange_cutmarks [of K E parent sc prepared]
    folderChange_cutmarks [of K E parent sc prepared]
    new_transfer_copy_to [of ctx K E q handles sz h marks data]
  by blast

theorem cutmarks_sidecar_in_stream_witness:
  "(\<exists>prepared.
      oxcfxics_prepare_synccontext_with_messageChange example_consts example_store_env
        inbox_folder inbox_synccontext = Inr prepared
      \<and> cutmarks prepared = [0, 0, 4, 34, 46, 76, 107, 117, 0xffffffff]
      \<and> cutmarks_in_stream True (cutmarks prepared) 263)
   \<and> (\<exists>prepared.
      oxcfxics_prepare_synccontext_with_folderChange example_consts example_store_env
        tree_folder tree_synccontext = Inr prepared
      \<and> cutmarks prepared = [0, 0, 4, 12, 42, 54, 84, 115, 0xffffffff]
      \<and> cutmarks_in_stream True (cutmarks prepared) 259)
   \<and> new_transfer example_ft_handles
        (EcDoRpc_RopFastTransferSourceCopyTo example_consts named_store_env
           (Some example_ft_handles) (Some copy_request) True (Some (\<lambda>i. 7)) (Some 0)) 8
      = Some ([0, 0, 0xffffffff], [])
   \<and> cutmarks_in_stream False [0, 0, 0xffffffff] 0
   \<and> new_transfer example_ft_handles
        (EcDoRpc_RopFastTransferSourceCopyTo example_consts string8_store_env
           (Some example_ft_handles) (Some copy_request) True (Some (\<lambda>i. 7)) (Some 0)) 8
      = Some ([0, 11, 0xffffffff],
              [0x1E, 0, 0, 0x3A, 3, 0, 0, 0, 0x49, 0x6E, 0,
               0x1F, 0, 0x01, 0x30, 6, 0, 0, 0, 0x49, 0x6E, 0])
   \<and> cutmarks_in_stream False [0, 11, 0xffffffff] 22"
proof -
  let ?data = "[0x1E, 0, 0, 0x3A, 3, 0, 0, 0, 0x49, 0x6E, 0,
                0x1F, 0, 0x01, 0x30, 6, 0, 0, 0, 0x49, 0x6E, 0] :: byte list"
  from inbox_prepared_contents obtain p1 where
    a: "oxcfxics_prepare_synccontext_with_messageChange example_consts example_store_env
          inbox_folder inbox_synccontext = Inr p1"
    and am: "cutmarks p1 = [0, 0, 4, 34, 46, 76, 107, 117, 0xffffffff]"
    and a': "length (stream_data (stream p1)) = 263" by blast
  from tree_prepared_hierarchy obtain p2 where
    b: "oxcfxics_prepare_synccontext_with_folderChange example_consts example_store_env
          tree_folder tree_synccontext = Inr p2"
    and bm: "cutmarks p2 = [0, 0, 4, 12, 42, 54, 84, 115, 0xffffffff]"
    and b': "length (stream_data (stream p2)) = 259" by blast
  have al: "length (stream_data (stream p1)) < 2 ^ 32" using a' by simp
  have bl: "length (stream_data (stream p2)) < 2 ^ 32" using b' by simp
  have cl: "length ([] :: byte list) < 2 ^ 32" by simp
  have dl: "length ?data < 2 ^ 32" by simp
  from cutmarks_sidecar_in_stream [of example_consts example_store_env inbox_folder
      inbox_synccontext p1 example_ft_handles copy_request "\<lambda>i. 7" 0 8 "[]" "[]"] a al
  have "cutmarks_in_stream True (cutmarks p1) (length (stream_data (stream p1)))" by blast
  then have 1: "cutmarks_in_stream True (cutmarks p1) 263" by (simp only: a')
  from cutmarks_sidecar_in_stream [of example_consts example_store_env tree_folder
      tree_synccontext p2 example_ft_handles copy_request "\<lambda>i. 7" 0 8 "[]" "[]"] b bl
  have "cutmarks_in_stream True (cutmarks p2) (length (stream_data (stream p2)))" by blast
  then have 2: "cutmarks_in_stream True (cutmarks p2) 259" by (simp only: b')
  from cutmarks_sidecar_in_stream [of example_consts named_store_env inbox_folder
      inbox_synccontext p1 example_ft_handles copy_request "\<lambda>i. 7" 0 8 "[0, 0, 0xffffffff]" "[]"]
    named_copy_to cl
  have "cutmarks_in_stream False [0, 0, 0xffffffff] (length ([] :: byte list))" by blast
  then have 3: "cutmarks_in_stream False [0, 0, 0xffffffff] 0" by (simp only: list.size)
  from cutmarks_sidecar_in_stream [of example_consts string8_store_env inbox_folder
      inbox_synccontext p1 example_ft_handles copy_request "\<lambda>i. 7" 0 8 "[0, 11, 0xffffffff]"
      ?data] string8_copy_to dl
  have "cutmarks_in_stream False [0, 11, 0xffffffff] (length ?data)" by blast
  moreover have "length ?data = 22" by simp
  ultimately have 4: "cutmarks_in_stream False [0, 11, 0xffffffff] 22" by (simp only:)
  from a am 1 b bm 2 named_copy_to 3 string8_copy_to 4 show ?thesis by blast
qed

end
